theory Spec2Isabelle
  imports Main "HOL-Library.Word" "HOL-Library.AList"
begin

section \<open>Data model\<close>

text \<open>
  The minting service converts between IPFS content identifiers and Algorand
  addresses (\<open>CidDecoder\<close>), uploads files in batches, creates the asset and
  repoints its reserve, writes versioned metadata, and validates a minted asset.
  Thrown errors are values of \<open>error\<close>; a function that can throw returns
  \<open>error + 'a\<close>, with \<open>Inl\<close> for the throw.
\<close>

type_synonym byte = "8 word"

text \<open>
  What can go wrong inside the codec. \<open>CidParseError\<close> is \<open>CID.parse\<close> throwing,
  \<open>MalformedAddress\<close> and \<open>InvalidChecksum\<close> are the two failures of
  \<open>algosdk.decodeAddress\<close>, \<open>UnsupportedDigest\<close> is the digest check of
  \<open>multihashToAlgorandAddress\<close>.
\<close>

datatype codec_fault = CidParseError | UnsupportedDigest | MalformedAddress | InvalidChecksum

text \<open>
  \<open>CidToAddressFailed f\<close> is \<open>new Error(`Failed to convert CID to address: ${error.message}`)\<close>
  and \<open>AddressToCidFailed f\<close> is \<open>new Error(`Failed to convert address to CID: ${error.message}`)\<close>,
  \<open>f\<close> being the error that was caught. \<open>TypeError\<close> is a property read on
  \<open>null\<close>. The collaborators (storage, ledger) fail with whatever error they
  choose; \<open>PartialMintFailure\<close> and \<open>VersionConflict\<close> belong to the error
  taxonomy of the service and no function below constructs them.
\<close>

datatype error =
    CidToAddressFailed codec_fault
  | AddressToCidFailed codec_fault
  | TypeError string
  | ValidationError string
  | UploadError string
  | AssetCreateError string
  | ServiceFault string
  | PartialMintFailure nat
  | VersionConflict

record multihash_digest =
  hash_fn :: nat
  digest :: "byte list"

record cid =
  version :: nat
  codec :: nat
  multihash :: multihash_digest

text \<open>
  The third-party functions the codec calls: \<open>CID.parse\<close> (\<open>None\<close> when it
  throws), \<open>cid.toString()\<close>, and the ledger's address checksum (the last four
  bytes of the SHA-512/256 hash of the public key).
\<close>

record codec_lib =
  cid_parse :: "string \<Rightarrow> cid option"
  cid_toString :: "cid \<Rightarrow> string"
  checksum :: "byte list \<Rightarrow> byte list"

datatype json =
    JNull
  | JBool bool
  | JNumber int
  | JString string
  | JArray "json list"
  | JObject "(string \<times> json) list"

record "file" =
  file_name :: string
  file_type :: string
  file_size :: nat

record file_hash =
  fh_name :: string
  fh_hash :: string
  fh_type :: string
  fh_size :: nat
  fh_ipfsUrl :: string
  fh_gatewayUrl :: string

record upload_options =
  opt_name :: string
  kv_batch :: string
  kv_timestamp :: string

record pin_result =
  IpfsHash :: string

record ipfs_result =
  fileHashes :: "file_hash list"
  metadataHash :: string
  metadataUrl :: string

record create_asset_params =
  assetName :: string
  unitName :: string
  total :: nat
  decimals :: nat
  defaultFrozen :: bool
  manager :: string
  reserve :: string
  freeze :: string
  clawback :: string
  url :: string
  metadataHash_param :: "string option"
  "note" :: string

record create_result =
  cr_assetId :: nat
  cr_txId :: string

record update_reserve_params =
  up_assetId :: nat
  newReserveAddress :: string
  managerMnemonic :: string
  up_metadataUrl :: "string option"

record update_result =
  ur_txId :: string
  ur_confirmedRound :: nat

text \<open>The asset as \<open>getAssetInfo\<close> returns it: \<open>asset.params.total\<close> and so on.\<close>

record asset_params =
  a_total :: nat
  a_decimals :: nat
  a_creator :: string
  a_reserve :: string
  a_clawback :: string
  a_url :: "string option"

record asset_info =
  index :: nat
  params :: asset_params

record organization =
  org_name :: string
  org_code :: string
  org_type :: string
  org_city :: string

datatype document_type = Tipologia | Altro

record document_certification_data =
  documentName :: string
  description :: string
  authorName :: string
  date :: string
  documentType :: document_type
  customType :: "string option"
  d_assetName :: string
  d_unitName :: string
  files :: "file list"
  d_organization :: organization

record minting_result =
  assetId :: nat
  txId :: string
  updateTxId :: string
  confirmedRound :: nat
  m_metadataUrl :: string
  ipfsHashes_metadata :: string
  ipfsHashes_files :: "file_hash list"
  finalReserveAddress :: string

text \<open>The external calls a run makes, in the order it makes them.\<close>

datatype event =
    UploadFileCall "file" upload_options
  | Delay nat
  | UploadJSONCall json
  | CreateAssetCall create_asset_params
  | UpdateReserveCall update_reserve_params
  | GetAssetInfoCall nat
  | FetchMetadataCall string

text \<open>
  The collaborators, over a world \<open>'s\<close> they may read and change: the storage
  service (\<open>uploadFile\<close>, \<open>uploadJSON\<close>, \<open>fetchMetadata\<close>), the ledger service
  (\<open>createAsset\<close>, \<open>updateAssetReserve\<close>, \<open>getAssetInfo\<close>) and the clock
  (\<open>new Date().toISOString()\<close>).
\<close>

record 's services =
  now :: "'s \<Rightarrow> string"
  uploadFile :: "file \<Rightarrow> upload_options \<Rightarrow> 's \<Rightarrow> (error + file_hash) \<times> 's"
  uploadJSON :: "json \<Rightarrow> 's \<Rightarrow> (error + pin_result) \<times> 's"
  fetchMetadata :: "string \<Rightarrow> 's \<Rightarrow> (error + json) \<times> 's"
  createAsset :: "create_asset_params \<Rightarrow> 's \<Rightarrow> (error + create_result) \<times> 's"
  updateAssetReserve :: "update_reserve_params \<Rightarrow> 's \<Rightarrow> (error + update_result) \<times> 's"
  getAssetInfo :: "nat \<Rightarrow> 's \<Rightarrow> (error + asset_info) \<times> 's"

text \<open>Values the snippets read from the environment: the creator's address, its mnemonic, the gateway.\<close>

record config =
  creatorAddress :: string
  mnemonic :: string
  pinataGateway :: string

text \<open>
  Helpers of the service whose bodies are not part of the documented code; each is
  a parameter. \<open>validateCertificationData\<close> throws (\<open>Some e\<close>) or returns.
\<close>

record helpers =
  validateCertificationData :: "document_certification_data \<Rightarrow> error option"
  prepareCertificationData :: "document_certification_data \<Rightarrow> json"
  prepareCertificationMetadata :: "document_certification_data \<Rightarrow> json \<Rightarrow> file_hash list \<Rightarrow> json"
  getCurrentVersion :: "asset_info \<Rightarrow> int"

section \<open>Base32 and the address format\<close>

text \<open>
  An address is the base32 text (RFC 4648 alphabet, no padding) of the 32-byte
  public key followed by its 4-byte checksum: 36 bytes, 58 characters.
\<close>

fun nat_to_bits :: "nat \<Rightarrow> nat \<Rightarrow> bool list" where
  "nat_to_bits 0 n = []"
| "nat_to_bits (Suc k) n = nat_to_bits k (n div 2) @ [odd n]"

fun bits_to_nat :: "bool list \<Rightarrow> nat" where
  "bits_to_nat bs = foldl (\<lambda>a b. 2 * a + (if b then 1 else 0)) 0 bs"

function chunks :: "nat \<Rightarrow> 'a list \<Rightarrow> 'a list list" where
  "chunks n xs = (if n = 0 \<or> xs = [] then [] else take n xs # chunks n (drop n xs))"
  by pat_completeness auto
termination
  by (relation "measure (\<lambda>(n, xs). length xs)") auto

declare chunks.simps [simp del]

definition base32_alphabet :: string where
  "base32_alphabet = ''ABCDEFGHIJKLMNOPQRSTUVWXYZ234567''"

fun index_of :: "'a list \<Rightarrow> 'a \<Rightarrow> nat option" where
  "index_of [] c = None"
| "index_of (x # xs) c = (if x = c then Some 0 else map_option Suc (index_of xs c))"

fun those_list :: "'a option list \<Rightarrow> 'a list option" where
  "those_list [] = Some []"
| "those_list (None # xs) = None"
| "those_list (Some x # xs) = map_option ((#) x) (those_list xs)"

definition bytes_to_bits :: "byte list \<Rightarrow> bool list" where
  "bytes_to_bits bs = concat (map (\<lambda>b. nat_to_bits 8 (unat b)) bs)"

definition base32_encode :: "byte list \<Rightarrow> string" where
  "base32_encode bs =
     (let bits = bytes_to_bits bs;
          padded = bits @ replicate ((5 - length bits mod 5) mod 5) False
      in map (\<lambda>g. base32_alphabet ! bits_to_nat g) (chunks 5 padded))"

text \<open>A character outside the alphabet makes the decoder throw (\<open>None\<close>); trailing bits that do not fill a byte are dropped.\<close>

definition base32_decode :: "string \<Rightarrow> byte list option" where
  "base32_decode s =
     (case those_list (map (index_of base32_alphabet) s) of
        None \<Rightarrow> None
      | Some vals \<Rightarrow>
          (let bits = concat (map (nat_to_bits 5) vals);
               whole = take (8 * (length bits div 8)) bits
           in Some (map (\<lambda>g. of_nat (bits_to_nat g)) (chunks 8 whole))))"

definition encodeAddress :: "codec_lib \<Rightarrow> byte list \<Rightarrow> string" where
  "encodeAddress lib pk = base32_encode (pk @ checksum lib pk)"

text \<open>
  Modelled from the spec: \<open>algosdk.decodeAddress\<close>, which the documented code calls
  and does not contain. "base32-decode; recompute the checksum over the leading 32
  bytes and compare to the trailing 4; mismatch fails with InvalidChecksum". A text
  that is not 58 base32 characters is malformed.
\<close>

definition decodeAddress :: "codec_lib \<Rightarrow> string \<Rightarrow> codec_fault + byte list" where
  "decodeAddress lib address =
     (if length address \<noteq> 58 then Inl MalformedAddress
      else case base32_decode address of
        None \<Rightarrow> Inl MalformedAddress
      | Some decoded \<Rightarrow>
          if length decoded \<noteq> 36 then Inl MalformedAddress
          else let pk = take 32 decoded; cs = drop 32 decoded
               in if checksum lib pk \<noteq> cs then Inl InvalidChecksum else Inr pk)"

section \<open>CidDecoder\<close>

definition SHA2_256 :: nat where
  "SHA2_256 = 0x12"

definition RAW_CODEC :: nat where
  "RAW_CODEC = 0x55"

text \<open>
  Modelled from the spec: \<open>CidDecoder.multihashToAlgorandAddress\<close>, called by
  \<open>fromCidToAddress\<close> and missing from the documented code. "Require the multihash's
  hash function be sha2-256 and its digest length be exactly 32 bytes; otherwise fail
  with UnsupportedDigest and produce no output. Take the 32-byte digest as the
  address payload; append the ledger's native 4-byte checksum of that payload;
  base32-encode payload+checksum (no padding)".
\<close>

definition multihashToAlgorandAddress :: "codec_lib \<Rightarrow> multihash_digest \<Rightarrow> codec_fault + string" where
  "multihashToAlgorandAddress lib mh =
     (if hash_fn mh \<noteq> SHA2_256 \<or> length (digest mh) \<noteq> 32 then Inl UnsupportedDigest
      else Inr (encodeAddress lib (digest mh)))"

text \<open>
  Modelled from the spec: \<open>CidDecoder.algorandAddressToMultihash\<close>, called by
  \<open>fromAddressToCid\<close> and missing from the documented code. "Wrap the 32-byte payload
  in a sha2-256/32-byte multihash".
\<close>

definition algorandAddressToMultihash :: "byte list \<Rightarrow> multihash_digest" where
  "algorandAddressToMultihash publicKey = \<lparr>hash_fn = SHA2_256, digest = publicKey\<rparr>"

definition createV1 :: "nat \<Rightarrow> multihash_digest \<Rightarrow> cid" where
  "createV1 code mh = \<lparr>version = 1, codec = code, multihash = mh\<rparr>"

definition fromCidToAddress :: "codec_lib \<Rightarrow> string \<Rightarrow> error + string" where
  "fromCidToAddress lib c =
     (case cid_parse lib c of
        None \<Rightarrow> Inl (CidToAddressFailed CidParseError)
      | Some decoded \<Rightarrow>
          (case multihashToAlgorandAddress lib (multihash decoded) of
             Inl f \<Rightarrow> Inl (CidToAddressFailed f)
           | Inr algorandAddress \<Rightarrow> Inr algorandAddress))"

definition fromAddressToCid :: "codec_lib \<Rightarrow> string \<Rightarrow> error + string" where
  "fromAddressToCid lib address =
     (case decodeAddress lib address of
        Inl f \<Rightarrow> Inl (AddressToCidFailed f)
      | Inr publicKey \<Rightarrow>
          Inr (cid_toString lib (createV1 RAW_CODEC (algorandAddressToMultihash publicKey))))"

section \<open>Runs: external calls over a world, with a log\<close>

text \<open>
  A run carries the log of the external calls made so far and the world the
  collaborators act on. An \<open>await\<close> of a collaborator is \<open>call\<close>: the call is
  logged, the collaborator acts on the world, and its rejection is the thrown error.
\<close>

type_synonym 's run = "event list \<times> 's"

type_synonym ('s, 'a) io = "'s run \<Rightarrow> (error + 'a) \<times> 's run"

definition return_io :: "'a \<Rightarrow> ('s, 'a) io" where
  "return_io x = (\<lambda>st. (Inr x, st))"

definition throw_io :: "error \<Rightarrow> ('s, 'a) io" where
  "throw_io e = (\<lambda>st. (Inl e, st))"

definition bind_io :: "('s, 'a) io \<Rightarrow> ('a \<Rightarrow> ('s, 'b) io) \<Rightarrow> ('s, 'b) io" where
  "bind_io m f = (\<lambda>st. case m st of (Inl e, st') \<Rightarrow> (Inl e, st') | (Inr x, st') \<Rightarrow> f x st')"

definition call :: "event \<Rightarrow> ('s \<Rightarrow> (error + 'a) \<times> 's) \<Rightarrow> ('s, 'a) io" where
  "call ev act = (\<lambda>(log, s). case act s of (r, s') \<Rightarrow> (r, (log @ [ev], s')))"

definition delay :: "nat \<Rightarrow> 's run \<Rightarrow> 's run" where
  "delay ms = (\<lambda>(log, s). (log @ [Delay ms], s))"

section \<open>Batched upload\<close>

definition BATCH_SIZE :: nat where
  "BATCH_SIZE = 3"

text \<open>\<open>n.toString()\<close> of a non-negative integer.\<close>

function show_nat :: "nat \<Rightarrow> string" where
  "show_nat n =
     (if n < 10 then [''0123456789'' ! n] else show_nat (n div 10) @ [''0123456789'' ! (n mod 10)])"
  by pat_completeness auto
termination
  by (relation "measure id") auto

declare show_nat.simps [simp del]

text \<open>
  \<open>batch.map(file => ipfsService.uploadFile(file, {...}))\<close>: every upload of the
  batch is started, whether or not an earlier one of the batch fails. The uploads of
  one batch run concurrently; the run records them in the order they are started.
\<close>

fun start_uploads ::
  "'s services \<Rightarrow> nat \<Rightarrow> file list \<Rightarrow> 's run \<Rightarrow> (error + file_hash) list \<times> 's run" where
  "start_uploads svc i [] st = ([], st)"
| "start_uploads svc i (f # fs) st =
     (let opts = \<lparr>opt_name = file_name f,
                  kv_batch = show_nat (i div BATCH_SIZE),
                  kv_timestamp = now svc (snd st)\<rparr>
      in case call (UploadFileCall f opts) (uploadFile svc f opts) st of
           (r, st1) \<Rightarrow> (case start_uploads svc i fs st1 of (rs, st2) \<Rightarrow> (r # rs, st2)))"

text \<open>
  \<open>await Promise.all(batchPromises)\<close>: all results in order, or the rejection of
  the batch. With several failures in one batch \<open>Promise.all\<close> rejects with the one
  that settles first; the model takes the first in batch order, which is the same
  error whenever at most one upload of the batch fails.
\<close>

fun promise_all :: "(error + 'a) list \<Rightarrow> error + 'a list" where
  "promise_all [] = Inr []"
| "promise_all (Inl e # rs) = Inl e"
| "promise_all (Inr x # rs) = (case promise_all rs of Inl e \<Rightarrow> Inl e | Inr xs \<Rightarrow> Inr (x # xs))"

function upload_loop ::
  "'s services \<Rightarrow> file list \<Rightarrow> nat \<Rightarrow> file_hash list \<Rightarrow> ('s, file_hash list) io" where
  "upload_loop svc fs i results st =
     (if i < length fs then
        (let batch = take BATCH_SIZE (drop i fs)
         in case start_uploads svc i batch st of
              (rs, st1) \<Rightarrow>
                (case promise_all rs of
                   Inl e \<Rightarrow> (Inl e, st1)
                 | Inr batchResults \<Rightarrow>
                     upload_loop svc fs (i + BATCH_SIZE) (results @ batchResults)
                       (if i + BATCH_SIZE < length fs then delay 500 st1 else st1)))
      else (Inr results, st))"
  by pat_completeness auto
termination
  by (relation "measure (\<lambda>(svc, fs, i, results, st). length fs - i)") (auto simp: BATCH_SIZE_def)

declare upload_loop.simps [simp del]

definition uploadFilesInParallel :: "'s services \<Rightarrow> file list \<Rightarrow> ('s, file_hash list) io" where
  "uploadFilesInParallel svc fs = upload_loop svc fs 0 []"

text \<open>
  Modelled from the spec: how the upload coordinator reports a rejected file upload.
  The error taxonomy has \<open>UploadError{file}\<close>, and "upload-batch failure reports the
  first failing file": whatever the storage rejects the upload of a file with, the
  coordinator's error is the \<open>UploadError\<close> that names that file.
\<close>

definition naming_uploads :: "'s services \<Rightarrow> 's services" where
  "naming_uploads svc =
     svc\<lparr>uploadFile := (\<lambda>f opts s.
            case uploadFile svc f opts s of
              (Inl e, s') \<Rightarrow> (Inl (UploadError (file_name f)), s')
            | (Inr h, s') \<Rightarrow> (Inr h, s'))\<rparr>"

text \<open>
  Modelled from the spec: \<open>IPFSService.uploadCertificationAssets\<close>, which
  \<open>createDocumentCertification\<close> calls and the documented code does not contain.
  "uploads each file independently; files are grouped into fixed-size batches
  (default 3) to respect external throughput limits; uploads within one batch run
  concurrently, and the coordinator waits for the entire batch before starting the
  next, inserting a fixed inter-batch delay. If any single file upload fails, the
  whole call fails, identifying the offending file; no certification is considered
  partially uploaded (concurrently-launched uploads in the same batch may still
  complete, but their results are discarded). After every file succeeds, the
  coordinator builds the metadata document (embedding each file's resulting
  identifier) and uploads it as one additional content object, returning its
  identifier/URL separately from the file hashes". The batches are those of
  \<open>uploadFilesInParallel\<close>, run over uploads that name the file they fail for; the
  URL is \<open>ipfs://<hash>\<close>.
\<close>

definition uploadCertificationAssets ::
  "'s services \<Rightarrow> helpers \<Rightarrow> file list \<Rightarrow> json \<Rightarrow> document_certification_data \<Rightarrow> ('s, ipfs_result) io" where
  "uploadCertificationAssets svc hlp fs certificationData formData =
     bind_io (uploadFilesInParallel (naming_uploads svc) fs) (\<lambda>hashes.
       let metadata = prepareCertificationMetadata hlp formData certificationData hashes
       in bind_io (call (UploadJSONCall metadata) (uploadJSON svc metadata)) (\<lambda>pin.
            return_io \<lparr>fileHashes = hashes,
                       metadataHash = IpfsHash pin,
                       metadataUrl = ''ipfs://'' @ IpfsHash pin\<rparr>))"

section \<open>Minting\<close>

definition create_params :: "config \<Rightarrow> document_certification_data \<Rightarrow> ipfs_result \<Rightarrow> create_asset_params" where
  "create_params cfg formData ipfsResult =
     \<lparr>assetName = d_assetName formData,
      unitName = d_unitName formData,
      total = 1,
      decimals = 0,
      defaultFrozen = False,
      manager = creatorAddress cfg,
      reserve = creatorAddress cfg,
      freeze = creatorAddress cfg,
      clawback = creatorAddress cfg,
      url = metadataUrl ipfsResult,
      metadataHash_param = None,
      note = ''ArtCertify certification: '' @ documentName formData\<rparr>"

definition createDocumentCertification ::
  "codec_lib \<Rightarrow> 's services \<Rightarrow> config \<Rightarrow> helpers \<Rightarrow> document_certification_data \<Rightarrow> ('s, minting_result) io" where
  "createDocumentCertification lib svc cfg hlp formData =
     (case validateCertificationData hlp formData of
        Some e \<Rightarrow> throw_io e
      | None \<Rightarrow>
          (let certificationData = prepareCertificationData hlp formData
           in bind_io (uploadCertificationAssets svc hlp (files formData) certificationData formData)
                (\<lambda>ipfsResult.
                   case fromCidToAddress lib (metadataHash ipfsResult) of
                     Inl e \<Rightarrow> throw_io e
                   | Inr reserveAddress \<Rightarrow>
                       bind_io (call (CreateAssetCall (create_params cfg formData ipfsResult))
                                  (createAsset svc (create_params cfg formData ipfsResult)))
                         (\<lambda>createResult.
                            let upd = \<lparr>up_assetId = cr_assetId createResult,
                                       newReserveAddress = reserveAddress,
                                       managerMnemonic = mnemonic cfg,
                                       up_metadataUrl = None\<rparr>
                            in bind_io (call (UpdateReserveCall upd) (updateAssetReserve svc upd))
                                 (\<lambda>updateResult.
                                    return_io
                                      \<lparr>assetId = cr_assetId createResult,
                                       txId = cr_txId createResult,
                                       updateTxId = ur_txId updateResult,
                                       confirmedRound = ur_confirmedRound updateResult,
                                       m_metadataUrl = metadataUrl ipfsResult,
                                       ipfsHashes_metadata = metadataHash ipfsResult,
                                       ipfsHashes_files = fileHashes ipfsResult,
                                       finalReserveAddress = reserveAddress\<rparr>)))))"

section \<open>Versioned update\<close>

text \<open>
  JavaScript numbers are IEEE 754 doubles. A whole number is a double when it has at
  most 53 significant bits, and the sum of two doubles is their exact sum rounded to
  the nearest double, a tie going to the even significand. \<open>bit_length\<close> counts
  the bits of a number, \<open>round_to_double\<close> rounds a whole number to the nearest
  double, \<open>js_add\<close> is \<open>+\<close> on whole doubles. Sums beyond the largest double
  (about 1.8e308) are outside this model.
\<close>

function bit_length :: "nat \<Rightarrow> nat" where
  "bit_length n = (if n = 0 then 0 else Suc (bit_length (n div 2)))"
  by pat_completeness auto
termination
  by (relation "measure id") auto

declare bit_length.simps [simp del]

definition round_to_double :: "int \<Rightarrow> int" where
  "round_to_double x =
     (let m = nat \<bar>x\<bar>;
          ulp = 2 ^ (bit_length m - 53);
          q = m div ulp;
          r = m mod ulp
      in sgn x * int (ulp * (if 2 * r < ulp then q
                             else if ulp < 2 * r then q + 1
                             else if even q then q else q + 1)))"

definition js_add :: "int \<Rightarrow> int \<Rightarrow> int" where
  "js_add a b = round_to_double (a + b)"

definition version_info :: "config \<Rightarrow> helpers \<Rightarrow> asset_info \<Rightarrow> string \<Rightarrow> json" where
  "version_info cfg hlp asset currentCID =
     JObject
       [(''currentVersion'', JNumber (getCurrentVersion hlp asset)),
        (''previousVersion'',
           JObject
             [(''version'', JNumber (getCurrentVersion hlp asset)),
              (''cid'', JString currentCID),
              (''reserveAddress'', JString (a_reserve (params asset))),
              (''ipfsLink'', JString (''https://'' @ pinataGateway cfg @ ''/ipfs/'' @ currentCID))]),
        (''nextVersion'', JNumber (js_add (getCurrentVersion hlp asset) 1))]"

text \<open>
  \<open>{ ...newData, version_info, modification_timestamp, previous_cid }\<close>: the
  fields of \<open>newData\<close>, then the three keys, each replacing a field of that name.
\<close>

definition new_metadata ::
  "config \<Rightarrow> helpers \<Rightarrow> asset_info \<Rightarrow> string \<Rightarrow> string \<Rightarrow> (string \<times> json) list \<Rightarrow> json" where
  "new_metadata cfg hlp asset currentCID timestamp newData =
     JObject
       (AList.update ''previous_cid'' (JString currentCID)
         (AList.update ''modification_timestamp'' (JString timestamp)
           (AList.update ''version_info'' (version_info cfg hlp asset currentCID) newData)))"

definition updateCertification ::
  "codec_lib \<Rightarrow> 's services \<Rightarrow> config \<Rightarrow> helpers \<Rightarrow> nat \<Rightarrow> (string \<times> json) list \<Rightarrow> file list \<Rightarrow>
   ('s, update_result) io" where
  "updateCertification lib svc cfg hlp asset_id newData newFiles =
     bind_io (call (GetAssetInfoCall asset_id) (getAssetInfo svc asset_id)) (\<lambda>asset.
       case fromAddressToCid lib (a_reserve (params asset)) of
         Inl e \<Rightarrow> throw_io e
       | Inr currentCID \<Rightarrow>
           (\<lambda>st.
              let newMetadata = new_metadata cfg hlp asset currentCID (now svc (snd st)) newData
              in bind_io (call (UploadJSONCall newMetadata) (uploadJSON svc newMetadata))
                   (\<lambda>ipfsResult.
                      case fromCidToAddress lib (IpfsHash ipfsResult) of
                        Inl e \<Rightarrow> throw_io e
                      | Inr newReserve \<Rightarrow>
                          (let upd = \<lparr>up_assetId = asset_id,
                                      newReserveAddress = newReserve,
                                      managerMnemonic = mnemonic cfg,
                                      up_metadataUrl = Some (''ipfs://'' @ IpfsHash ipfsResult)\<rparr>
                           in call (UpdateReserveCall upd) (updateAssetReserve svc upd)))
                   st))"

section \<open>Validation\<close>

text \<open>
  The entries of \<open>errors\<close> and \<open>warnings\<close>, one constructor for each message:
  \<open>TotalSupplyNotOne\<close> is 'Asset should have total supply = 1',
  \<open>ClawbackNotCreator\<close> is 'Asset should have clawback = creator',
  \<open>ConversionMismatch\<close> is the CID/address conversion mismatch,
  \<open>InvalidCidConversion e\<close> is `Invalid CID conversion: ${error.message}`,
  \<open>MetadataFetchFailed e\<close> is `Failed to fetch IPFS metadata: ${error.message}`,
  \<open>UrlNotIpfs\<close> is 'Asset URL should be IPFS URL',
  \<open>ValidateAssetFailed e\<close> is `Failed to validate asset: ${error.message}`.
\<close>

datatype validation_error =
    TotalSupplyNotOne
  | ClawbackNotCreator
  | ConversionMismatch
  | InvalidCidConversion error
  | MetadataFetchFailed error
  | UrlNotIpfs
  | ValidateAssetFailed error

datatype validation_warning = MissingMetadataName | MissingMetadataDescription

record cid_info =
  isValidCID :: bool
  conversionMatch :: bool
  originalCID :: string
  convertedAddress :: string

record validation_result =
  isValid :: bool
  errors :: "validation_error list"
  warnings :: "validation_warning list"
  assetInfo :: "asset_info option"
  metadataInfo :: "json option"
  cidInfo :: "cid_info option"

text \<open>\<open>doc.key\<close>: a \<open>TypeError\<close> on \<open>null\<close>, \<open>undefined\<close> (here \<open>JNull\<close>) for a key the value does not have.\<close>

definition get_prop :: "json \<Rightarrow> string \<Rightarrow> error + json" where
  "get_prop doc key =
     (case doc of
        JNull \<Rightarrow> Inl (TypeError key)
      | JObject kvs \<Rightarrow> Inr (case map_of kvs key of None \<Rightarrow> JNull | Some v \<Rightarrow> v)
      | _ \<Rightarrow> Inr JNull)"

definition falsy :: "json \<Rightarrow> bool" where
  "falsy v = (v = JNull \<or> v = JBool False \<or> v = JNumber 0 \<or> v = JString [])"

definition soulbound_errors :: "asset_info \<Rightarrow> validation_error list" where
  "soulbound_errors asset =
     (if a_total (params asset) \<noteq> 1 then [TotalSupplyNotOne] else []) @
     (if a_clawback (params asset) \<noteq> a_creator (params asset) then [ClawbackNotCreator] else [])"

definition failed_cid_info :: cid_info where
  "failed_cid_info = \<lparr>isValidCID = False, conversionMatch = False, originalCID = [], convertedAddress = []\<rparr>"

text \<open>Step 3 of the validation: the inner \<open>try\<close> around the two conversions, with its \<open>catch\<close>.\<close>

definition check_cid :: "codec_lib \<Rightarrow> asset_info \<Rightarrow> cid_info \<times> validation_error list" where
  "check_cid lib asset =
     (case fromAddressToCid lib (a_reserve (params asset)) of
        Inl e \<Rightarrow> (failed_cid_info, [InvalidCidConversion e])
      | Inr original \<Rightarrow>
          (case fromCidToAddress lib original of
             Inl e \<Rightarrow> (failed_cid_info, [InvalidCidConversion e])
           | Inr converted \<Rightarrow>
               (\<lparr>isValidCID = True,
                 conversionMatch = (converted = a_reserve (params asset)),
                 originalCID = original,
                 convertedAddress = converted\<rparr>,
                if converted = a_reserve (params asset) then [] else [ConversionMismatch])))"

text \<open>
  Step 4: the metadata behind an \<open>ipfs://\<close> URL. The result is \<open>metadataInfo\<close>, the
  new errors and the new warnings. A warning pushed before a later throw stays.
\<close>

definition check_metadata ::
  "'s services \<Rightarrow> asset_info \<Rightarrow> 's run \<Rightarrow>
   (json option \<times> validation_error list \<times> validation_warning list) \<times> 's run" where
  "check_metadata svc asset st =
     (case a_url (params asset) of
        None \<Rightarrow> ((None, [UrlNotIpfs], []), st)
      | Some u \<Rightarrow>
          if take 7 u = ''ipfs://'' then
            (let hash = drop 7 u
             in case call (FetchMetadataCall hash) (fetchMetadata svc hash) st of
                  (Inl e, st1) \<Rightarrow> ((None, [MetadataFetchFailed e], []), st1)
                | (Inr doc, st1) \<Rightarrow>
                    (case get_prop doc ''name'' of
                       Inl e \<Rightarrow> ((Some doc, [MetadataFetchFailed e], []), st1)
                     | Inr n \<Rightarrow>
                         (let w1 = (if falsy n then [MissingMetadataName] else [])
                          in case get_prop doc ''description'' of
                               Inl e \<Rightarrow> ((Some doc, [MetadataFetchFailed e], w1), st1)
                             | Inr d \<Rightarrow>
                                 ((Some doc, [],
                                   w1 @ (if falsy d then [MissingMetadataDescription] else [])), st1))))
          else ((None, [UrlNotIpfs], []), st))"

definition validateCertification ::
  "codec_lib \<Rightarrow> 's services \<Rightarrow> nat \<Rightarrow> 's run \<Rightarrow> validation_result \<times> 's run" where
  "validateCertification lib svc asset_id st =
     (case call (GetAssetInfoCall asset_id) (getAssetInfo svc asset_id) st of
        (Inl e, st1) \<Rightarrow>
          (\<lparr>isValid = False,
            errors = [ValidateAssetFailed e],
            warnings = [],
            assetInfo = None,
            metadataInfo = None,
            cidInfo = None\<rparr>, st1)
      | (Inr asset, st1) \<Rightarrow>
          (case check_cid lib asset of
             (info, cid_errors) \<Rightarrow>
               (case check_metadata svc asset st1 of
                  ((meta, meta_errors, ws), st2) \<Rightarrow>
                    (let errs = soulbound_errors asset @ cid_errors @ meta_errors
                     in (\<lparr>isValid = (length errs = 0),
                          errors = errs,
                          warnings = ws,
                          assetInfo = Some asset,
                          metadataInfo = meta,
                          cidInfo = Some info\<rparr>, st2)))))"

section \<open>Reading a log\<close>

text \<open>
  What a log says about the uploads: which file was started under which batch
  label, and where the run paused between batches. The timestamp of an upload is
  left out.
\<close>

datatype batch_step = UploadStarted "file" string | Paused nat | OtherCall

definition step_of :: "event \<Rightarrow> batch_step" where
  "step_of ev =
     (case ev of
        UploadFileCall f opts \<Rightarrow> UploadStarted f (kv_batch opts)
      | Delay ms \<Rightarrow> Paused ms
      | _ \<Rightarrow> OtherCall)"

definition is_upload_event :: "event \<Rightarrow> bool" where
  "is_upload_event ev =
     (case ev of
        UploadFileCall f opts \<Rightarrow> True
      | Delay ms \<Rightarrow> True
      | UploadJSONCall doc \<Rightarrow> True
      | _ \<Rightarrow> False)"

text \<open>
  The version record a document carries: its current version, its next version and
  its back-reference, when it has all three. \<open>uploaded_records\<close> are the version
  records among the documents a run uploaded.
\<close>

definition version_record :: "json \<Rightarrow> (int \<times> int \<times> string) option" where
  "version_record doc =
     (case get_prop doc ''version_info'' of
        Inl e \<Rightarrow> None
      | Inr vi \<Rightarrow>
          (case (get_prop vi ''currentVersion'', get_prop vi ''nextVersion'',
                 get_prop doc ''previous_cid'') of
             (Inr (JNumber v), Inr (JNumber n), Inr (JString p)) \<Rightarrow> Some (v, n, p)
           | _ \<Rightarrow> None))"

definition uploaded_records :: "event list \<Rightarrow> (int \<times> int \<times> string) list" where
  "uploaded_records log =
     List.map_filter (\<lambda>ev. case ev of UploadJSONCall doc \<Rightarrow> version_record doc | _ \<Rightarrow> None) log"

text \<open>
  A CID text that is the text of a version-1 CID with the raw codec and a sha2-256
  multihash of 32 bytes (whose address has a 4-byte checksum).
\<close>

definition raw_sha256_text :: "codec_lib \<Rightarrow> string \<Rightarrow> bool" where
  "raw_sha256_text lib c =
     (case cid_parse lib c of
        None \<Rightarrow> False
      | Some d \<Rightarrow>
          version d = 1 \<and> codec d = RAW_CODEC \<and> hash_fn (multihash d) = SHA2_256 \<and>
          length (digest (multihash d)) = 32 \<and> cid_toString lib d = c \<and>
          length (checksum lib (digest (multihash d))) = 4)"

section \<open>Example values\<close>

text \<open>
  Concrete inputs for the examples that follow the theorems. The digest is the
  SHA-256 of the text "hello world"; the two CIDs over it are the CIDv0 (dag-pb,
  base58btc) and the CIDv1 (raw, base32) of that digest, and the address is the
  Algorand address of the digest with its real checksum. \<open>example_lib\<close> knows these
  texts and no others.
\<close>

definition digest1 :: "byte list" where
  "digest1 = [185, 77, 39, 185, 147, 77, 62, 8, 165, 46, 82, 215, 218, 125, 171, 250,
              196, 132, 239, 227, 122, 83, 128, 238, 144, 136, 247, 172, 226, 239, 205, 233]"

definition digest2 :: "byte list" where
  "digest2 = [244, 118, 26, 160, 35, 195, 99, 157, 195, 113, 162, 51, 110, 227, 81, 74,
              182, 35, 107, 173, 40, 197, 160, 235, 242, 229, 47, 182, 228, 32, 48, 209]"

definition digest3 :: "byte list" where
  "digest3 = [121, 28, 173, 140, 58, 142, 226, 240, 134, 156, 87, 94, 39, 94, 238, 52,
              122, 209, 169, 187, 253, 108, 107, 0, 199, 172, 170, 13, 82, 237, 126, 82]"

definition digest512 :: "byte list" where
  "digest512 = [48, 158, 204, 72, 156, 18, 214, 235, 76, 196, 15, 80, 201, 2, 242, 180,
                208, 237, 119, 238, 81, 26, 124, 122, 155, 205, 60, 168, 109, 76, 216, 111,
                152, 157, 211, 91, 197, 255, 73, 150, 112, 218, 52, 37, 91, 69, 176, 207,
                216, 48, 232, 31, 96, 93, 207, 125, 197, 84, 46, 147, 174, 156, 215, 111]"

definition cid_v0_1 :: cid where
  "cid_v0_1 = \<lparr>version = 0, codec = 0x70, multihash = \<lparr>hash_fn = 0x12, digest = digest1\<rparr>\<rparr>"

definition cid_v1_1 :: cid where
  "cid_v1_1 = \<lparr>version = 1, codec = 0x55, multihash = \<lparr>hash_fn = 0x12, digest = digest1\<rparr>\<rparr>"

definition cid_v1_2 :: cid where
  "cid_v1_2 = \<lparr>version = 1, codec = 0x55, multihash = \<lparr>hash_fn = 0x12, digest = digest2\<rparr>\<rparr>"

definition cid_v1_3 :: cid where
  "cid_v1_3 = \<lparr>version = 1, codec = 0x55, multihash = \<lparr>hash_fn = 0x12, digest = digest3\<rparr>\<rparr>"

definition cid_sha512 :: cid where
  "cid_sha512 = \<lparr>version = 1, codec = 0x55, multihash = \<lparr>hash_fn = 0x13, digest = digest512\<rparr>\<rparr>"

definition text_v0_1 :: string where
  "text_v0_1 = ''QmaozNR7DZHQK1ZcU9p7QdrshMvXqWK6gpu5rmrkPdT3L4''"

definition text_v1_1 :: string where
  "text_v1_1 = ''bafkreifzjut3te2nhyekklss27nh3k72ysco7y32koao5eei66wof36n5e''"

definition text_v1_2 :: string where
  "text_v1_2 = ''bafkreihuoynkai6dmoo4g4ncgnxogukkwyrwxljiywqox4xff63oiibq2e''"

definition text_v1_3 :: string where
  "text_v1_3 = ''bafkreidzdswyyouo4lyinhcxlytv53rupli2to75nrvqbr5mvigvf3l6ki''"

definition text_sha512 :: string where
  "text_sha512 =
     ''bafkrgqbqt3gerhas23vuzrapkdeqf4vu2dwxp3srdj6hvg6nhsug2tgyn6mj3u23yx7utftq3i2ckw2fwdh5qmhid5qf3t35yvkc5e5ottlw6''"

definition address1 :: string where
  "address1 = ''XFGSPOMTJU7ARJJOKLL5U7NL7LCIJ37DPJJYB3UQRD32ZYXPZXU2WOMKPA''"

definition address2 :: string where
  "address2 = ''6R3BVIBDYNRZ3Q3RUIZW5Y2RJK3CG25NFDC2B27S4UX3NZBAGDIVPJVWY4''"

definition address3 :: string where
  "address3 = ''PEOK3DB2R3RPBBU4K5PCOXXOGR5NDKN37VWGWAGHVSVA2UXNPZJGG4W3GA''"

text \<open>\<open>address1\<close> with the first checksum byte changed from 171 to 170.\<close>

definition corrupted_address1 :: string where
  "corrupted_address1 = ''XFGSPOMTJU7ARJJOKLL5U7NL7LCIJ37DPJJYB3UQRD32ZYXPZXU2UOMKPA''"

definition creator_address :: string where
  "creator_address = ''AAAAAAAAAAAAAAAAAAAAAAAAAAAAAAAAAAAAAAAAAAAAAAAAAAAAY5HFKQ''"

definition example_lib :: codec_lib where
  "example_lib =
     \<lparr>cid_parse = (\<lambda>s. if s = text_v0_1 then Some cid_v0_1
                       else if s = text_v1_1 then Some cid_v1_1
                       else if s = text_v1_2 then Some cid_v1_2
                       else if s = text_sha512 then Some cid_sha512
                       else if s = text_v1_3 then Some cid_v1_3
                       else None),
      cid_toString = (\<lambda>c. if c = cid_v0_1 then text_v0_1
                          else if c = cid_v1_1 then text_v1_1
                          else if c = cid_v1_2 then text_v1_2
                          else if c = cid_sha512 then text_sha512
                          else if c = cid_v1_3 then text_v1_3
                          else []),
      checksum = (\<lambda>pk. if pk = digest1 then [171, 57, 138, 120]
                      else if pk = digest2 then [87, 166, 182, 199]
                      else if pk = digest3 then [99, 114, 219, 48]
                      else [0, 0, 0, 0])\<rparr>"

text \<open>
  An example world: the ledger as a list of assets, newest entry first. The storage
  pins the document of the mint under \<open>first_cid\<close>, the one of the first update
  under \<open>text_v1_2\<close> and any later one under \<open>text_v1_3\<close>, and rejects the upload
  of the file named \<open>file5.pdf\<close> with a timeout.
\<close>

type_synonym ledger = "(nat \<times> asset_params) list"

definition example_file_hash :: "file \<Rightarrow> file_hash" where
  "example_file_hash f =
     \<lparr>fh_name = file_name f,
      fh_hash = ''hash-of-'' @ file_name f,
      fh_type = file_type f,
      fh_size = file_size f,
      fh_ipfsUrl = ''ipfs://hash-of-'' @ file_name f,
      fh_gatewayUrl = ''https://gateway.pinata.cloud/ipfs/hash-of-'' @ file_name f\<rparr>"

definition example_services :: "string \<Rightarrow> ledger services" where
  "example_services first_cid =
     \<lparr>now = (\<lambda>s. ''2024-01-15T10:30:00Z''),
      uploadFile = (\<lambda>f opts s.
        if file_name f = ''file5.pdf'' then (Inl (ServiceFault ''timeout''), s)
        else (Inr (example_file_hash f), s)),
      uploadJSON = (\<lambda>doc s.
        (Inr \<lparr>IpfsHash = (if s = [] then first_cid
                          else if length s = 2 then text_v1_2 else text_v1_3)\<rparr>, s)),
      fetchMetadata = (\<lambda>h s. (Inr (JObject [(''name'', JString ''Contratto'')]), s)),
      createAsset = (\<lambda>p s.
        (Inr \<lparr>cr_assetId = 7, cr_txId = ''TX-CREATE''\<rparr>,
         (7, \<lparr>a_total = total p, a_decimals = decimals p, a_creator = manager p,
              a_reserve = reserve p, a_clawback = clawback p, a_url = Some (url p)\<rparr>) # s)),
      updateAssetReserve = (\<lambda>u s.
        case map_of s (up_assetId u) of
          None \<Rightarrow> (Inl (ServiceFault ''asset not found''), s)
        | Some a \<Rightarrow>
            (Inr \<lparr>ur_txId = ''TX-UPDATE'', ur_confirmedRound = 1\<rparr>,
             (up_assetId u, a\<lparr>a_reserve := newReserveAddress u\<rparr>) # s)),
      getAssetInfo = (\<lambda>i s.
        case map_of s i of
          None \<Rightarrow> (Inl (ServiceFault ''asset not found''), s)
        | Some a \<Rightarrow> (Inr \<lparr>index = i, params = a\<rparr>, s))\<rparr>"

text \<open>A ledger whose reserve update is rejected.\<close>

definition rejecting_services :: "ledger services" where
  "rejecting_services =
     (example_services text_v1_1)
       \<lparr>updateAssetReserve := (\<lambda>u s. (Inl (ServiceFault ''reserve update rejected''), s))\<rparr>"

text \<open>
  A storage during whose upload another writer commits a reserve update of asset 7
  (to \<open>creator_address\<close>).
\<close>

definition racing_services :: "ledger services" where
  "racing_services =
     (example_services text_v1_1)
       \<lparr>uploadJSON := (\<lambda>doc s.
          (Inr \<lparr>IpfsHash = text_v1_2\<rparr>,
           (case map_of s 7 of
              None \<Rightarrow> s
            | Some a \<Rightarrow> (7, a\<lparr>a_reserve := creator_address\<rparr>) # s)))\<rparr>"

definition example_config :: config where
  "example_config =
     \<lparr>creatorAddress = creator_address,
      mnemonic = ''abandon abandon abandon'',
      pinataGateway = ''coffee-quiet-limpet-747.mypinata.cloud''\<rparr>"

definition example_helpers :: helpers where
  "example_helpers =
     \<lparr>validateCertificationData =
        (\<lambda>d. if documentName d = [] then Some (ValidationError ''documentName'') else None),
      prepareCertificationData = (\<lambda>d. JObject [(''title'', JString (documentName d))]),
      prepareCertificationMetadata =
        (\<lambda>d c hs. JObject [(''name'', JString (documentName d)), (''certification_data'', c)]),
      getCurrentVersion =
        (\<lambda>a. if a_reserve (params a) = address1 then 1
             else if a_reserve (params a) = address2 then 2 else 3)\<rparr>"

text \<open>Helpers for an asset that has reached version \<open>2 ^ 53\<close>.\<close>

definition huge_version_helpers :: helpers where
  "huge_version_helpers = example_helpers\<lparr>getCurrentVersion := (\<lambda>a. 2 ^ 53)\<rparr>"

definition example_file :: "string \<Rightarrow> file" where
  "example_file n = \<lparr>file_name = n, file_type = ''application/pdf'', file_size = 245760\<rparr>"

definition example_data :: "file list \<Rightarrow> document_certification_data" where
  "example_data fs =
     \<lparr>documentName = ''Contratto'',
      description = ''Contratto di affitto'',
      authorName = ''Mario Rossi'',
      date = ''2024-01-15'',
      documentType = Tipologia,
      customType = None,
      d_assetName = ''SBT_Contratto_001'',
      d_unitName = ''CERT'',
      files = fs,
      d_organization =
        \<lparr>org_name = ''Studio Legale Roma'', org_code = ''SLR001'',
         org_type = ''Studio Legale'', org_city = ''Roma''\<rparr>\<rparr>"

definition seven_files :: "file list" where
  "seven_files =
     map example_file
       [''file1.pdf'', ''file2.pdf'', ''file3.pdf'', ''file4.pdf'', ''file5.pdf'', ''file6.pdf'',
        ''file7.pdf'']"

definition two_files :: "file list" where
  "two_files = map example_file [''file1.pdf'', ''file2.pdf'']"

definition seven_good_files :: "file list" where
  "seven_good_files =
     map example_file [''a.pdf'', ''b.pdf'', ''c.pdf'', ''d.pdf'', ''e.pdf'', ''f.pdf'', ''g.pdf'']"

text \<open>
  Asset 7 as created for the metadata CID \<open>c\<close> with reserve \<open>r\<close>, and an asset
  whose clawback is another account.
\<close>

definition minted_asset :: "string \<Rightarrow> string \<Rightarrow> asset_params" where
  "minted_asset c r =
     \<lparr>a_total = 1, a_decimals = 0, a_creator = creator_address, a_reserve = r,
      a_clawback = creator_address, a_url = Some (''ipfs://'' @ c)\<rparr>"

definition foreign_clawback_asset :: asset_params where
  "foreign_clawback_asset = (minted_asset text_v1_1 address1)\<lparr>a_clawback := address2\<rparr>"

text \<open>What minting \<open>two_files\<close> in the example world does, for the storage that pins the metadata under \<open>c\<close>.\<close>

definition example_options :: "file \<Rightarrow> upload_options" where
  "example_options f =
     \<lparr>opt_name = file_name f, kv_batch = ''0'', kv_timestamp = ''2024-01-15T10:30:00Z''\<rparr>"

definition example_metadata :: json where
  "example_metadata =
     prepareCertificationMetadata example_helpers (example_data two_files)
       (prepareCertificationData example_helpers (example_data two_files))
       (map example_file_hash two_files)"

definition example_upload_result :: "string \<Rightarrow> ipfs_result" where
  "example_upload_result c =
     \<lparr>fileHashes = map example_file_hash two_files, metadataHash = c,
      metadataUrl = ''ipfs://'' @ c\<rparr>"

definition example_upload_log :: "event list" where
  "example_upload_log =
     map (\<lambda>f. UploadFileCall f (example_options f)) two_files @ [UploadJSONCall example_metadata]"

definition mint_update :: update_reserve_params where
  "mint_update =
     \<lparr>up_assetId = 7, newReserveAddress = address1,
      managerMnemonic = mnemonic example_config, up_metadataUrl = None\<rparr>"

definition example_mint_log :: "string \<Rightarrow> event list" where
  "example_mint_log c =
     example_upload_log @
     [CreateAssetCall (create_params example_config (example_data two_files) (example_upload_result c)),
      UpdateReserveCall mint_update]"

definition ledger_created :: "string \<Rightarrow> ledger" where
  "ledger_created c = [(7, minted_asset c creator_address)]"

definition ledger_minted :: "string \<Rightarrow> ledger" where
  "ledger_minted c = (7, minted_asset c address1) # ledger_created c"

definition example_minting_result :: "string \<Rightarrow> minting_result" where
  "example_minting_result c =
     \<lparr>assetId = 7, txId = ''TX-CREATE'', updateTxId = ''TX-UPDATE'', confirmedRound = 1,
      m_metadataUrl = ''ipfs://'' @ c, ipfsHashes_metadata = c,
      ipfsHashes_files = map example_file_hash two_files, finalReserveAddress = address1\<rparr>"

text \<open>
  The update of asset 7 that follows the example mint: the version record it uploads,
  the reserve update it asks for, and the ledger after it. \<open>racing_ledger\<close> is the
  ledger once the other writer of \<open>racing_services\<close> has committed.
\<close>

definition version2_doc :: "string \<Rightarrow> json" where
  "version2_doc c =
     new_metadata example_config example_helpers
       \<lparr>index = 7, params = minted_asset c address1\<rparr> text_v1_1 ''2024-01-15T10:30:00Z'' []"

definition version2_update :: update_reserve_params where
  "version2_update =
     \<lparr>up_assetId = 7, newReserveAddress = address2,
      managerMnemonic = mnemonic example_config,
      up_metadataUrl = Some (''ipfs://'' @ text_v1_2)\<rparr>"

definition version2_log :: "string \<Rightarrow> event list" where
  "version2_log c =
     [GetAssetInfoCall 7, UploadJSONCall (version2_doc c), UpdateReserveCall version2_update]"

definition ledger_updated :: "string \<Rightarrow> ledger" where
  "ledger_updated c = (7, minted_asset c address2) # ledger_minted c"

definition racing_ledger :: ledger where
  "racing_ledger = (7, minted_asset text_v1_1 creator_address) # ledger_minted text_v1_1"

text \<open>The second update of asset 7: its version record, its reserve update, the ledger after it.\<close>

definition version3_doc :: "string \<Rightarrow> json" where
  "version3_doc c =
     new_metadata example_config example_helpers
       \<lparr>index = 7, params = minted_asset c address2\<rparr> text_v1_2 ''2024-01-15T10:30:00Z'' []"

definition version3_update :: update_reserve_params where
  "version3_update =
     \<lparr>up_assetId = 7, newReserveAddress = address3,
      managerMnemonic = mnemonic example_config,
      up_metadataUrl = Some (''ipfs://'' @ text_v1_3)\<rparr>"

definition version3_log :: "string \<Rightarrow> event list" where
  "version3_log c =
     [GetAssetInfoCall 7, UploadJSONCall (version3_doc c), UpdateReserveCall version3_update]"

definition ledger_updated_twice :: "string \<Rightarrow> ledger" where
  "ledger_updated_twice c = (7, minted_asset c address3) # ledger_updated c"

text \<open>The log of the update of asset 7 when the helpers report version \<open>2 ^ 53\<close>.\<close>

definition huge_version_log :: "event list" where
  "huge_version_log =
     [GetAssetInfoCall 7,
      UploadJSONCall
        (new_metadata example_config huge_version_helpers
           \<lparr>index = 7, params = minted_asset text_v1_1 address1\<rparr> text_v1_1
           ''2024-01-15T10:30:00Z'' []),
      UpdateReserveCall version2_update]"

section \<open>Bits, chunks and base32\<close>

lemma length_nat_to_bits [simp]: "length (nat_to_bits k n) = k"
  by (induction k arbitrary: n) simp_all

lemma bits_to_nat_snoc: "bits_to_nat (bs @ [b]) = 2 * bits_to_nat bs + (if b then 1 else 0)"
  by simp

lemma bits_to_nat_Nil: "bits_to_nat [] = 0"
  by simp

lemma bits_to_nat_fold: "bits_to_nat bs = foldl (\<lambda>a b. 2 * a + (if b then 1 else 0)) 0 bs"
  by simp

declare bits_to_nat.simps [simp del]

lemma bits_to_nat_nat_to_bits: "bits_to_nat (nat_to_bits k n) = n mod 2 ^ k"
proof (induction k arbitrary: n)
  case 0
  show ?case by (simp add: bits_to_nat_Nil)
next
  case (Suc k)
  have "n mod (2 * 2 ^ k) = 2 * ((n div 2) mod 2 ^ k) + n mod 2"
    by (simp add: mod_mult2_eq)
  then show ?case
    using Suc.IH [of "n div 2"] by (auto simp: bits_to_nat_snoc odd_iff_mod_2_eq_one)
qed

lemma bits_to_nat_less: "bits_to_nat bs < 2 ^ length bs"
proof (induction bs rule: rev_induct)
  case Nil
  show ?case by (simp add: bits_to_nat_Nil)
next
  case (snoc b bs)
  then show ?case by (auto simp: bits_to_nat_snoc)
qed

lemma nat_to_bits_bits_to_nat: "nat_to_bits (length bs) (bits_to_nat bs) = bs"
proof (induction bs rule: rev_induct)
  case Nil
  show ?case by simp
next
  case (snoc b bs)
  then show ?case by (auto simp: bits_to_nat_snoc)
qed

lemma chunks_Nil [simp]: "chunks n [] = []"
  by (simp add: chunks.simps)

lemma chunks_Cons:
  "chunks n (x # xs) = (if n = 0 then [] else take n (x # xs) # chunks n (drop n (x # xs)))"
  by (subst chunks.simps) simp

lemma concat_chunks: "0 < n \<Longrightarrow> concat (chunks n xs) = xs"
proof (induction n xs rule: chunks.induct)
  case (1 n xs)
  show ?case
  proof (cases "xs = []")
    case True
    then show ?thesis by simp
  next
    case False
    with 1 show ?thesis by (subst chunks.simps) simp
  qed
qed

lemma chunks_length_each:
  "0 < n \<Longrightarrow> n dvd length xs \<Longrightarrow> g \<in> set (chunks n xs) \<Longrightarrow> length g = n"
proof (induction n xs rule: chunks.induct)
  case (1 n xs)
  show ?case
  proof (cases "xs = []")
    case True
    with 1 show ?thesis by simp
  next
    case False
    from "1.prems" False have le: "n \<le> length xs"
      by (auto dest: dvd_imp_le)
    from "1.prems" le have dv: "n dvd length (drop n xs)"
      by (simp add: dvd_diff_nat)
    from "1.prems"(3) False "1.prems"(1) have "g = take n xs \<or> g \<in> set (chunks n (drop n xs))"
      by (subst (asm) chunks.simps) auto
    then show ?thesis
      using "1.IH" "1.prems"(1) False dv le by auto
  qed
qed

lemma length_chunks: "0 < n \<Longrightarrow> n dvd length xs \<Longrightarrow> length (chunks n xs) = length xs div n"
proof (induction n xs rule: chunks.induct)
  case (1 n xs)
  show ?case
  proof (cases "xs = []")
    case True
    then show ?thesis by simp
  next
    case False
    from "1.prems" False have le: "n \<le> length xs"
      by (auto dest: dvd_imp_le)
    from "1.prems" le have dv: "n dvd length (drop n xs)"
      by (simp add: dvd_diff_nat)
    have "length (chunks n xs) = Suc (length (chunks n (drop n xs)))"
      using False "1.prems"(1) by (subst chunks.simps) simp
    also have "\<dots> = Suc ((length xs - n) div n)"
      using "1.IH" "1.prems"(1) False dv by simp
    also have "\<dots> = length xs div n"
      using le "1.prems"(1) by (simp add: le_div_geq)
    finally show ?thesis .
  qed
qed

lemma chunks_concat:
  "0 < n \<Longrightarrow> \<forall>x \<in> set xss. length x = n \<Longrightarrow> chunks n (concat xss) = xss"
proof (induction xss)
  case Nil
  show ?case by simp
next
  case (Cons x xss)
  then have "x \<noteq> []" by auto
  with Cons show ?case by (subst chunks.simps) simp
qed

lemma index_of_nth: "distinct xs \<Longrightarrow> i < length xs \<Longrightarrow> index_of xs (xs ! i) = Some i"
proof (induction xs arbitrary: i)
  case Nil
  then show ?case by simp
next
  case (Cons x xs)
  then show ?case by (cases i) auto
qed

lemma index_of_None: "index_of xs c = None \<longleftrightarrow> c \<notin> set xs"
  by (induction xs) auto

lemma those_list_map_Some: "those_list (map (\<lambda>x. Some (f x)) xs) = Some (map f xs)"
  by (induction xs) simp_all

lemma those_list_length: "those_list os = Some xs \<Longrightarrow> length xs = length os"
proof (induction os arbitrary: xs)
  case Nil
  then show ?case by simp
next
  case (Cons a os)
  then show ?case by (cases a) auto
qed

lemma distinct_base32_alphabet: "distinct base32_alphabet"
  by (simp add: base32_alphabet_def)

lemma length_base32_alphabet: "length base32_alphabet = 32"
  by (simp add: base32_alphabet_def)

lemma length_bytes_to_bits: "length (bytes_to_bits bs) = 8 * length bs"
  by (induction bs) (simp_all add: bytes_to_bits_def)

lemma length_concat_bits5: "length (concat (map (nat_to_bits 5) vs)) = 5 * length vs"
  by (induction vs) simp_all

lemma base32_index_sym: "n < 32 \<Longrightarrow> index_of base32_alphabet (base32_alphabet ! n) = Some n"
  using index_of_nth [OF distinct_base32_alphabet, of n] by (simp only: length_base32_alphabet)

lemma byte_bits_roundtrip: "(of_nat (bits_to_nat (nat_to_bits 8 (unat b))) :: byte) = b"
proof -
  have lt: "unat b < 2 ^ 8" using unsigned_less [of b] by simp
  have "bits_to_nat (nat_to_bits 8 (unat b)) = unat b mod 2 ^ 8"
    by (rule bits_to_nat_nat_to_bits)
  also have "\<dots> = unat b" using lt by (rule mod_less)
  finally have "bits_to_nat (nat_to_bits 8 (unat b)) = unat b" .
  then show ?thesis by simp
qed

lemma chunks_bytes_to_bits: "chunks 8 (bytes_to_bits bs) = map (\<lambda>b. nat_to_bits 8 (unat b)) bs"
  unfolding bytes_to_bits_def by (rule chunks_concat) auto

lemma bits_to_bytes_to_bits: "map (\<lambda>g. of_nat (bits_to_nat g)) (chunks 8 (bytes_to_bits bs)) = bs"
  unfolding chunks_bytes_to_bits by (simp add: comp_def byte_bits_roundtrip del: nat_to_bits.simps)

lemma take_whole_bytes:
  "p < 5 \<Longrightarrow> length bits = 8 * n \<Longrightarrow>
   take (8 * (length (bits @ replicate p False) div 8)) (bits @ replicate p False) = bits"
proof -
  assume p: "p < 5" and l: "length bits = 8 * n"
  have "(8 * n + p) div 8 = n" using p by simp
  then show ?thesis using l by simp
qed

lemma pad5: "5 dvd n + (5 - n mod 5) mod 5" for n :: nat
proof -
  define r where "r = n mod 5"
  define q where "q = n div 5"
  have n: "n = 5 * q + r" by (simp add: q_def r_def)
  have r: "r < 5" by (simp add: r_def)
  show ?thesis
  proof (cases "r = 0")
    case True
    then have "n + (5 - r) mod 5 = 5 * q" using n by simp
    then show ?thesis unfolding r_def by simp
  next
    case False
    then have "(5 - r) mod 5 = 5 - r" using r by simp
    then have "n + (5 - r) mod 5 = 5 * (q + 1)" using n r by simp
    then show ?thesis unfolding r_def by simp
  qed
qed

text \<open>Decoding what was encoded gives the bytes back, for every byte list.\<close>

lemma base32_decode_encode: "base32_decode (base32_encode bs) = Some bs"
proof -
  define bits where "bits = bytes_to_bits bs"
  define p where "p = (5 - length bits mod 5) mod 5"
  define padded where "padded = bits @ replicate p False"
  define groups where "groups = chunks 5 padded"
  have lb: "length bits = 8 * length bs"
    by (simp add: bits_def length_bytes_to_bits)
  have p5: "p < 5" by (simp add: p_def)
  have dv: "5 dvd length padded"
    using pad5 [of "length bits"] by (simp add: padded_def p_def)
  have each: "length g = 5" if "g \<in> set groups" for g
    using that dv chunks_length_each [of 5 padded g] by (simp add: groups_def)
  have enc: "base32_encode bs = map (\<lambda>g. base32_alphabet ! bits_to_nat g) groups"
    by (simp add: base32_encode_def Let_def bits_def p_def padded_def groups_def)
  have sym: "index_of base32_alphabet (base32_alphabet ! bits_to_nat g) = Some (bits_to_nat g)"
    if "g \<in> set groups" for g
  proof -
    from that have "length g = 5" by (rule each)
    with bits_to_nat_less [of g] have "bits_to_nat g < 32" by simp
    then show ?thesis by (rule base32_index_sym)
  qed
  have idx: "map (index_of base32_alphabet) (base32_encode bs) = map (\<lambda>g. Some (bits_to_nat g)) groups"
    unfolding enc using sym by simp
  have grp: "nat_to_bits 5 (bits_to_nat g) = g" if "g \<in> set groups" for g
    using each [OF that] nat_to_bits_bits_to_nat [of g] by simp
  have "map (nat_to_bits 5) (map bits_to_nat groups) = groups"
    using grp by (simp add: map_idI del: nat_to_bits.simps)
  then have regroup: "concat (map (nat_to_bits 5) (map bits_to_nat groups)) = padded"
    by (simp add: groups_def concat_chunks)
  have whole: "take (8 * (length padded div 8)) padded = bits"
    unfolding padded_def using p5 lb by (rule take_whole_bytes)
  have bytes: "map (\<lambda>g. of_nat (bits_to_nat g)) (chunks 8 bits) = bs"
    unfolding bits_def by (rule bits_to_bytes_to_bits)
  show ?thesis
    unfolding base32_decode_def idx those_list_map_Some
    by (simp only: option.case Let_def regroup whole bytes)
qed

text \<open>Rules that evaluate the base32 functions on literal inputs.\<close>

lemma nat_to_bits_numeral:
  "nat_to_bits (numeral k) n = nat_to_bits (pred_numeral k) (n div 2) @ [odd n]"
  by (simp add: numeral_eq_Suc)

lemma replicate_numeral_eval: "replicate (numeral k) x = x # replicate (pred_numeral k) x"
  by (simp add: numeral_eq_Suc)

lemmas base32_eval =
  base32_encode_def base32_decode_def bytes_to_bits_def bits_to_nat_fold nat_to_bits_numeral
  replicate_numeral_eval chunks_Cons base32_alphabet_def

lemma length_base32_encode_36: "length bs = 36 \<Longrightarrow> length (base32_encode bs) = 58"
proof -
  assume l: "length bs = 36"
  define padded where "padded = bytes_to_bits bs @ replicate 2 False"
  have lp: "length padded = 290"
    by (simp add: padded_def length_bytes_to_bits l)
  have "base32_encode bs = map (\<lambda>g. base32_alphabet ! bits_to_nat g) (chunks 5 padded)"
    by (simp add: base32_encode_def Let_def length_bytes_to_bits l padded_def)
  moreover have "length (chunks 5 padded) = 58"
    using length_chunks [of 5 padded] by (simp add: lp)
  ultimately show ?thesis by simp
qed

lemma base32_decode_length: "base32_decode s = Some bs \<Longrightarrow> length bs = (5 * length s) div 8"
proof -
  assume d: "base32_decode s = Some bs"
  then obtain vals where v: "those_list (map (index_of base32_alphabet) s) = Some vals"
    by (auto simp: base32_decode_def split: option.splits)
  define bits where "bits = concat (map (nat_to_bits 5) vals)"
  define whole where "whole = take (8 * (length bits div 8)) bits"
  have lv: "length vals = length s"
    using those_list_length [OF v] by simp
  have lb: "length bits = 5 * length s"
    by (simp add: bits_def length_concat_bits5 lv)
  have lw: "length whole = 8 * (length bits div 8)"
    by (simp add: whole_def)
  have bs: "bs = map (\<lambda>g. of_nat (bits_to_nat g)) (chunks 8 whole)"
    using d v by (simp add: base32_decode_def Let_def bits_def whole_def)
  have "length (chunks 8 whole) = length whole div 8"
    by (rule length_chunks) (simp_all add: lw)
  then show ?thesis by (simp add: bs lw lb)
qed

lemma encode_digest1: "encodeAddress example_lib digest1 = address1"
  by (simp add: encodeAddress_def example_lib_def digest1_def address1_def base32_eval)

lemma encode_digest2: "encodeAddress example_lib digest2 = address2"
  by (simp add: encodeAddress_def example_lib_def digest1_def digest2_def address2_def base32_eval)

lemma decode_address1: "base32_decode address1 = Some (digest1 @ [171, 57, 138, 120])"
  by (simp add: digest1_def address1_def base32_eval)

lemma decode_corrupted: "base32_decode corrupted_address1 = Some (digest1 @ [170, 57, 138, 120])"
  by (simp add: digest1_def corrupted_address1_def base32_eval)

lemma length_digest1: "length digest1 = 32"
  by (simp add: digest1_def)

lemma decodeAddress_roundtrip:
  assumes "length pk = 32" and "length (checksum lib pk) = 4"
  shows "decodeAddress lib (encodeAddress lib pk) = Inr pk"
proof -
  have "length (pk @ checksum lib pk) = 36" using assms by simp
  then have "length (base32_encode (pk @ checksum lib pk)) = 58"
    by (rule length_base32_encode_36)
  then show ?thesis
    using assms by (simp add: decodeAddress_def encodeAddress_def base32_decode_encode)
qed

section \<open>The codec round trip\<close>

text \<open>
  Claim C1, as amended. For every CID text \<open>c\<close> that parses to a CID with a
  sha2-256 multihash of 32 bytes, whatever its version and codec, \<open>fromCidToAddress\<close>
  succeeds with a 58-character address, and \<open>fromAddressToCid\<close> of that address is the
  text of the version-1 CID with the raw codec (0x55) over the same multihash: version
  and codec of \<open>c\<close> are not carried by the address. The round trip therefore gives
  back \<open>c\<close> itself whenever \<open>c\<close> is the text of a CIDv1 with the raw codec. Both
  functions are pure: they take and return values only.
\<close>

theorem roundtrip_v1_raw:
  assumes "cid_parse lib c = Some d"
    and "hash_fn (multihash d) = SHA2_256" and "length (digest (multihash d)) = 32"
    and "length (checksum lib (digest (multihash d))) = 4"
  shows "\<exists>a. fromCidToAddress lib c = Inr a \<and> length a = 58 \<and>
           fromAddressToCid lib a =
             Inr (cid_toString lib \<lparr>version = 1, codec = RAW_CODEC, multihash = multihash d\<rparr>) \<and>
           (version d = 1 \<and> codec d = RAW_CODEC \<and> cid_toString lib d = c \<longrightarrow>
              fromAddressToCid lib a = Inr c)"
proof -
  define pk where "pk = digest (multihash d)"
  define a where "a = encodeAddress lib pk"
  have enc: "fromCidToAddress lib c = Inr a"
    using assms by (simp add: fromCidToAddress_def multihashToAlgorandAddress_def a_def pk_def)
  have len: "length a = 58"
    unfolding a_def encodeAddress_def
    by (rule length_base32_encode_36) (use assms in \<open>simp add: pk_def\<close>)
  have dec: "decodeAddress lib a = Inr pk"
    unfolding a_def by (rule decodeAddress_roundtrip) (use assms in \<open>simp_all add: pk_def\<close>)
  have mh: "algorandAddressToMultihash pk = multihash d"
    using assms(2) by (simp add: algorandAddressToMultihash_def pk_def)
  have v1: "createV1 RAW_CODEC (algorandAddressToMultihash pk) =
              \<lparr>version = 1, codec = RAW_CODEC, multihash = multihash d\<rparr>"
    unfolding mh by (simp add: createV1_def)
  have res: "fromAddressToCid lib a =
               Inr (cid_toString lib \<lparr>version = 1, codec = RAW_CODEC, multihash = multihash d\<rparr>)"
    using dec v1 by (simp add: fromAddressToCid_def)
  have same: "version d = 1 \<and> codec d = RAW_CODEC \<and> cid_toString lib d = c \<longrightarrow>
                fromAddressToCid lib a = Inr c"
  proof (intro impI, elim conjE)
    assume "version d = 1" "codec d = RAW_CODEC" and t: "cid_toString lib d = c"
    then have "\<lparr>version = 1, codec = RAW_CODEC, multihash = multihash d\<rparr> = d"
      by simp
    with res t show "fromAddressToCid lib a = Inr c" by simp
  qed
  show ?thesis
    by (intro exI conjI) (rule enc, rule len, rule res, rule same)
qed

text \<open>
  Claim C2. A CID whose multihash is not sha2-256, or whose digest is not exactly
  32 bytes long, makes \<open>fromCidToAddress\<close> fail with \<open>UnsupportedDigest\<close> (wrapped
  in the conversion error); no address is produced, and the function has no state to
  change.
\<close>

theorem unsupported_digest_rejected:
  assumes "cid_parse lib c = Some d"
    and "hash_fn (multihash d) \<noteq> SHA2_256 \<or> length (digest (multihash d)) \<noteq> 32"
  shows "fromCidToAddress lib c = Inl (CidToAddressFailed UnsupportedDigest)"
  using assms by (auto simp: fromCidToAddress_def multihashToAlgorandAddress_def)

text \<open>
  Claim C3. A 58-character base32 address whose last four bytes are not the checksum
  of its first 32 bytes makes \<open>fromAddressToCid\<close> fail with \<open>InvalidChecksum\<close>
  (wrapped in the conversion error).
\<close>

theorem corrupted_checksum_rejected:
  assumes "length a = 58" and "base32_decode a = Some bs"
    and "drop 32 bs \<noteq> checksum lib (take 32 bs)"
  shows "fromAddressToCid lib a = Inl (AddressToCidFailed InvalidChecksum)"
proof -
  have "length bs = 36"
    using base32_decode_length [OF assms(2)] assms(1) by simp
  then show ?thesis
    using assms by (auto simp: fromAddressToCid_def decodeAddress_def Let_def)
qed

lemma from_v0: "fromCidToAddress example_lib text_v0_1 = Inr address1"
  using encode_digest1
  by (simp add: fromCidToAddress_def multihashToAlgorandAddress_def example_lib_def cid_v0_1_def
      SHA2_256_def length_digest1)

lemma to_v1: "fromAddressToCid example_lib address1 = Inr text_v1_1"
  using decode_address1
  by (simp add: fromAddressToCid_def decodeAddress_def example_lib_def address1_def
      length_digest1 createV1_def algorandAddressToMultihash_def cid_v1_1_def cid_v0_1_def
      RAW_CODEC_def SHA2_256_def)


lemma from_v1: "fromCidToAddress example_lib text_v1_1 = Inr address1"
  using encode_digest1
  by (simp add: fromCidToAddress_def multihashToAlgorandAddress_def example_lib_def cid_v1_1_def
      SHA2_256_def length_digest1 text_v1_1_def text_v0_1_def)

lemma from_v1_2: "fromCidToAddress example_lib text_v1_2 = Inr address2"
  using encode_digest2
  by (simp add: fromCidToAddress_def multihashToAlgorandAddress_def example_lib_def cid_v1_2_def
      SHA2_256_def digest2_def text_v1_2_def text_v1_1_def text_v0_1_def)

lemma encode_digest3: "encodeAddress example_lib digest3 = address3"
  by (simp add: encodeAddress_def example_lib_def digest1_def digest2_def digest3_def address3_def
      base32_eval)

lemma decode_address2: "base32_decode address2 = Some (digest2 @ [87, 166, 182, 199])"
  by (simp add: digest2_def address2_def base32_eval)

lemma to_v1_2: "fromAddressToCid example_lib address2 = Inr text_v1_2"
  using decode_address2
  by (simp add: fromAddressToCid_def decodeAddress_def example_lib_def address2_def
      digest1_def digest2_def createV1_def algorandAddressToMultihash_def cid_v1_1_def
      cid_v1_2_def cid_v0_1_def RAW_CODEC_def SHA2_256_def)

lemma from_v1_3: "fromCidToAddress example_lib text_v1_3 = Inr address3"
  using encode_digest3
  by (simp add: fromCidToAddress_def multihashToAlgorandAddress_def example_lib_def cid_v1_3_def
      SHA2_256_def digest3_def text_v1_3_def text_v1_2_def text_v1_1_def text_v0_1_def
      text_sha512_def)

lemma raw_sha256_text_v1_1: "raw_sha256_text example_lib text_v1_1"
  by (simp add: raw_sha256_text_def example_lib_def text_v1_1_def text_v0_1_def cid_v1_1_def
      cid_v0_1_def RAW_CODEC_def SHA2_256_def digest1_def)

lemma raw_sha256_text_v1_2: "raw_sha256_text example_lib text_v1_2"
  by (simp add: raw_sha256_text_def example_lib_def text_v1_2_def text_v1_1_def text_v0_1_def
      cid_v1_2_def cid_v1_1_def cid_v0_1_def RAW_CODEC_def SHA2_256_def digest1_def digest2_def)

text \<open>
  The claim as it was written fails for a CIDv0: the CIDv0 of the digest is turned
  into the address of the digest, and the address comes back as the CIDv1 (raw) of
  the same digest, a different CID.
\<close>

theorem roundtrip_cidv0_counterexample:
  "cid_parse example_lib text_v0_1 = Some cid_v0_1 \<and>
   hash_fn (multihash cid_v0_1) = SHA2_256 \<and>
   length (digest (multihash cid_v0_1)) = 32 \<and>
   fromCidToAddress example_lib text_v0_1 = Inr address1 \<and>
   fromAddressToCid example_lib address1 = Inr text_v1_1 \<and>
   text_v1_1 \<noteq> text_v0_1"
  using from_v0 to_v1
  by (simp add: example_lib_def cid_v0_1_def SHA2_256_def length_digest1 text_v1_1_def text_v0_1_def)

theorem roundtrip_v1_raw_witness:
  "cid_parse example_lib text_v1_1 = Some cid_v1_1 \<and>
   hash_fn (multihash cid_v1_1) = SHA2_256 \<and>
   length (digest (multihash cid_v1_1)) = 32 \<and>
   length (checksum example_lib (digest (multihash cid_v1_1))) = 4 \<and>
   version cid_v1_1 = 1 \<and> codec cid_v1_1 = RAW_CODEC \<and>
   cid_toString example_lib cid_v1_1 = text_v1_1 \<and>
   fromCidToAddress example_lib text_v1_1 = Inr address1 \<and>
   length address1 = 58 \<and>
   fromAddressToCid example_lib address1 =
     Inr (cid_toString example_lib
            \<lparr>version = 1, codec = RAW_CODEC, multihash = multihash cid_v1_1\<rparr>) \<and>
   fromAddressToCid example_lib address1 = Inr text_v1_1"
proof -
  have h1: "cid_parse example_lib text_v1_1 = Some cid_v1_1"
    by (simp add: example_lib_def text_v1_1_def text_v0_1_def)
  have h2: "version cid_v1_1 = 1" and h3: "codec cid_v1_1 = RAW_CODEC"
    and h4: "hash_fn (multihash cid_v1_1) = SHA2_256"
    and h5: "length (digest (multihash cid_v1_1)) = 32"
    by (simp_all add: cid_v1_1_def RAW_CODEC_def SHA2_256_def length_digest1)
  have h6: "cid_toString example_lib cid_v1_1 = text_v1_1"
    by (simp add: example_lib_def cid_v1_1_def cid_v0_1_def)
  have h7: "length (checksum example_lib (digest (multihash cid_v1_1))) = 4"
    by (simp add: example_lib_def cid_v1_1_def)
  from roundtrip_v1_raw [OF h1 h4 h5 h7] obtain a where
    e: "fromCidToAddress example_lib text_v1_1 = Inr a" and l: "length a = 58"
    and r: "fromAddressToCid example_lib a =
              Inr (cid_toString example_lib
                     \<lparr>version = 1, codec = RAW_CODEC, multihash = multihash cid_v1_1\<rparr>)"
    and i: "version cid_v1_1 = 1 \<and> codec cid_v1_1 = RAW_CODEC \<and>
            cid_toString example_lib cid_v1_1 = text_v1_1 \<longrightarrow>
            fromAddressToCid example_lib a = Inr text_v1_1"
    by (elim exE conjE)
  have a: "a = address1"
    using e from_v1 by simp
  from i h2 h3 h6 have b: "fromAddressToCid example_lib a = Inr text_v1_1"
    by (elim impE) (intro conjI)
  from h1 h4 h5 h7 h2 h3 h6 e [unfolded a] l [unfolded a] r [unfolded a] b [unfolded a]
  show ?thesis
    by (intro conjI)
qed

theorem unsupported_digest_rejected_witness:
  "cid_parse example_lib text_sha512 = Some cid_sha512 \<and>
   hash_fn (multihash cid_sha512) = 0x13 \<and>
   length (digest (multihash cid_sha512)) = 64 \<and>
   fromCidToAddress example_lib text_sha512 = Inl (CidToAddressFailed UnsupportedDigest)"
proof -
  have h1: "cid_parse example_lib text_sha512 = Some cid_sha512"
    by (simp add: example_lib_def text_sha512_def text_v1_2_def text_v1_1_def text_v0_1_def)
  have h2: "hash_fn (multihash cid_sha512) = 0x13"
    and h3: "length (digest (multihash cid_sha512)) = 64"
    by (simp_all add: cid_sha512_def digest512_def)
  have "hash_fn (multihash cid_sha512) \<noteq> SHA2_256 \<or> length (digest (multihash cid_sha512)) \<noteq> 32"
    using h2 by (simp add: SHA2_256_def)
  from unsupported_digest_rejected [OF h1 this] h1 h2 h3 show ?thesis
    by simp
qed

theorem corrupted_checksum_rejected_witness:
  "length corrupted_address1 = 58 \<and>
   base32_decode corrupted_address1 = Some (digest1 @ [170, 57, 138, 120]) \<and>
   checksum example_lib digest1 = [171, 57, 138, 120] \<and>
   fromAddressToCid example_lib corrupted_address1 = Inl (AddressToCidFailed InvalidChecksum)"
proof -
  have h1: "length corrupted_address1 = 58"
    by (simp add: corrupted_address1_def)
  have h2: "base32_decode corrupted_address1 = Some (digest1 @ [170, 57, 138, 120])"
    by (rule decode_corrupted)
  have h3: "checksum example_lib digest1 = [171, 57, 138, 120]"
    by (simp add: example_lib_def)
  have "drop 32 (digest1 @ [170, 57, 138, 120]) \<noteq>
        checksum example_lib (take 32 (digest1 @ [170, 57, 138, 120]))"
    by (simp add: h3 length_digest1)
  from corrupted_checksum_rejected [OF h1 h2 this] h1 h2 h3 show ?thesis
    by simp
qed

section \<open>The validator\<close>

lemma validate_lookup_failure:
  assumes "getAssetInfo svc i s = (Inl e, s1)"
  shows "validateCertification lib svc i (log, s) =
           (\<lparr>isValid = False, errors = [ValidateAssetFailed e], warnings = [],
             assetInfo = None, metadataInfo = None, cidInfo = None\<rparr>,
            (log @ [GetAssetInfoCall i], s1))"
  using assms by (simp add: validateCertification_def call_def)

lemma validate_found:
  assumes "getAssetInfo svc i s = (Inr asset, s1)"
  shows "\<exists>info cid_errors meta meta_errors ws st2.
           check_cid lib asset = (info, cid_errors) \<and>
           check_metadata svc asset (log @ [GetAssetInfoCall i], s1) = ((meta, meta_errors, ws), st2) \<and>
           validateCertification lib svc i (log, s) =
             (\<lparr>isValid = (soulbound_errors asset @ cid_errors @ meta_errors = []),
               errors = soulbound_errors asset @ cid_errors @ meta_errors,
               warnings = ws, assetInfo = Some asset, metadataInfo = meta, cidInfo = Some info\<rparr>, st2)"
proof -
  obtain info cid_errors where c: "check_cid lib asset = (info, cid_errors)"
    by (cases "check_cid lib asset")
  obtain meta meta_errors ws st2
    where m: "check_metadata svc asset (log @ [GetAssetInfoCall i], s1) = ((meta, meta_errors, ws), st2)"
    by (metis prod.exhaust)
  show ?thesis
    using assms c m by (simp add: validateCertification_def call_def Let_def)
qed

text \<open>
  Claim C9. \<open>validateCertification\<close> returns a result on every path: every throw
  of its body is caught by one of its \<open>catch\<close> blocks, so its model has no error
  branch. When the asset is found and its clawback address differs from its creator,
  \<open>isValid\<close> is false and the clawback entry is among the errors; when the lookup
  of the asset fails, the result is well formed, not valid, and carries that failure
  as its single error.
\<close>

theorem validate_reports_violation:
  "(\<forall>asset s1. getAssetInfo svc i s = (Inr asset, s1) \<and>
       a_clawback (params asset) \<noteq> a_creator (params asset) \<longrightarrow>
       \<not> isValid (fst (validateCertification lib svc i (log, s))) \<and>
       ClawbackNotCreator \<in> set (errors (fst (validateCertification lib svc i (log, s))))) \<and>
   (\<forall>e s1. getAssetInfo svc i s = (Inl e, s1) \<longrightarrow>
       fst (validateCertification lib svc i (log, s)) =
         \<lparr>isValid = False, errors = [ValidateAssetFailed e], warnings = [],
          assetInfo = None, metadataInfo = None, cidInfo = None\<rparr>)"
proof (intro conjI allI impI)
  fix asset s1
  assume a: "getAssetInfo svc i s = (Inr asset, s1) \<and>
             a_clawback (params asset) \<noteq> a_creator (params asset)"
  then have sb: "ClawbackNotCreator \<in> set (soulbound_errors asset)"
    by (simp add: soulbound_errors_def)
  from a validate_found [of svc i s asset s1 lib log]
  obtain info cid_errors meta meta_errors ws st2 where
    v: "validateCertification lib svc i (log, s) =
          (\<lparr>isValid = (soulbound_errors asset @ cid_errors @ meta_errors = []),
            errors = soulbound_errors asset @ cid_errors @ meta_errors,
            warnings = ws, assetInfo = Some asset, metadataInfo = meta, cidInfo = Some info\<rparr>, st2)"
    by blast
  from sb have "soulbound_errors asset \<noteq> []" by auto
  with sb show "\<not> isValid (fst (validateCertification lib svc i (log, s)))"
    by (simp add: v)
  from sb show "ClawbackNotCreator \<in> set (errors (fst (validateCertification lib svc i (log, s))))"
    by (simp add: v)
next
  fix e s1
  assume "getAssetInfo svc i s = (Inl e, s1)"
  then show "fst (validateCertification lib svc i (log, s)) =
         \<lparr>isValid = False, errors = [ValidateAssetFailed e], warnings = [],
          assetInfo = None, metadataInfo = None, cidInfo = None\<rparr>"
    by (simp add: validate_lookup_failure)
qed

text \<open>
  Claim C10. On every path, the catch-all of a failed lookup included, \<open>isValid\<close>
  is true exactly when \<open>errors\<close> is empty.
\<close>

theorem isValid_iff_no_errors:
  "isValid (fst (validateCertification lib svc i st)) =
     (errors (fst (validateCertification lib svc i st)) = [])"
proof -
  obtain log s where st: "st = (log, s)" by (cases st)
  obtain r s1 where g: "getAssetInfo svc i s = (r, s1)" by (cases "getAssetInfo svc i s")
  show ?thesis
  proof (cases r)
    case (Inl e)
    with g show ?thesis by (simp add: st validate_lookup_failure)
  next
    case (Inr asset)
    with g validate_found [of svc i s asset s1 lib log] show ?thesis
      by (auto simp: st)
  qed
qed

lemma ex_get7: "getAssetInfo (example_services c) 7 [(7, a)] = (Inr \<lparr>index = 7, params = a\<rparr>, [(7, a)])"
  by (simp add: example_services_def)

lemma ex_get_missing:
  "getAssetInfo (example_services c) 9 [(7, a)] = (Inl (ServiceFault ''asset not found''), [(7, a)])"
  by (simp add: example_services_def)

theorem validate_reports_violation_witness:
  "getAssetInfo (example_services text_v1_1) 7 [(7, foreign_clawback_asset)] =
     (Inr \<lparr>index = 7, params = foreign_clawback_asset\<rparr>, [(7, foreign_clawback_asset)]) \<and>
   a_clawback foreign_clawback_asset \<noteq> a_creator foreign_clawback_asset \<and>
   \<not> isValid (fst (validateCertification example_lib (example_services text_v1_1) 7
                   ([], [(7, foreign_clawback_asset)]))) \<and>
   ClawbackNotCreator \<in> set (errors (fst (validateCertification example_lib (example_services text_v1_1) 7
                   ([], [(7, foreign_clawback_asset)])))) \<and>
   getAssetInfo (example_services text_v1_1) 9 [(7, foreign_clawback_asset)] =
     (Inl (ServiceFault ''asset not found''), [(7, foreign_clawback_asset)]) \<and>
   fst (validateCertification example_lib (example_services text_v1_1) 9
         ([], [(7, foreign_clawback_asset)])) =
     \<lparr>isValid = False, errors = [ValidateAssetFailed (ServiceFault ''asset not found'')],
      warnings = [], assetInfo = None, metadataInfo = None, cidInfo = None\<rparr>"
proof -
  have h1: "getAssetInfo (example_services text_v1_1) 7 [(7, foreign_clawback_asset)] =
     (Inr \<lparr>index = 7, params = foreign_clawback_asset\<rparr>, [(7, foreign_clawback_asset)])"
    by (rule ex_get7)
  have h2: "a_clawback (params \<lparr>index = 7, params = foreign_clawback_asset\<rparr>) \<noteq>
            a_creator (params \<lparr>index = 7, params = foreign_clawback_asset\<rparr>)"
    by (simp add: foreign_clawback_asset_def minted_asset_def address2_def creator_address_def)
  have h3: "getAssetInfo (example_services text_v1_1) 9 [(7, foreign_clawback_asset)] =
     (Inl (ServiceFault ''asset not found''), [(7, foreign_clawback_asset)])"
    by (rule ex_get_missing)
  from validate_reports_violation [of "example_services text_v1_1" 7 "[(7, foreign_clawback_asset)]" example_lib "[]"]
    h1 h2
  have a: "\<not> isValid (fst (validateCertification example_lib (example_services text_v1_1) 7
                   ([], [(7, foreign_clawback_asset)]))) \<and>
   ClawbackNotCreator \<in> set (errors (fst (validateCertification example_lib (example_services text_v1_1) 7
                   ([], [(7, foreign_clawback_asset)]))))"
    by blast
  from validate_reports_violation [of "example_services text_v1_1" 9 "[(7, foreign_clawback_asset)]" example_lib "[]"]
    h3
  have b: "fst (validateCertification example_lib (example_services text_v1_1) 9
         ([], [(7, foreign_clawback_asset)])) =
     \<lparr>isValid = False, errors = [ValidateAssetFailed (ServiceFault ''asset not found'')],
      warnings = [], assetInfo = None, metadataInfo = None, cidInfo = None\<rparr>"
    by blast
  from h1 h2 h3 a b show ?thesis by simp
qed

section \<open>Batched upload: the batches of a run\<close>

lemma call_eq:
  "act s = (r, s') \<Longrightarrow> call ev act (log, s) = (r, (log @ [ev], s'))"
  by (simp add: call_def)

lemma show_nat_digits: "show_nat 0 = ''0''" "show_nat 1 = ''1''" "show_nat 2 = ''2''"
  by (simp_all add: show_nat.simps)

lemma start_uploads_spec:
  "start_uploads svc i fs st = (rs, st') \<Longrightarrow>
     length rs = length fs \<and>
     map step_of (fst st') =
       map step_of (fst st) @ map (\<lambda>f. UploadStarted f (show_nat (i div BATCH_SIZE))) fs \<and>
     (\<forall>k < length fs. \<exists>opts s s'. uploadFile svc (fs ! k) opts s = (rs ! k, s'))"
proof (induction fs arbitrary: st rs st')
  case Nil
  then show ?case by simp
next
  case (Cons f fs)
  obtain log s where st: "st = (log, s)" by (cases st)
  define opts where "opts = \<lparr>opt_name = file_name f, kv_batch = show_nat (i div BATCH_SIZE),
                              kv_timestamp = now svc s\<rparr>"
  obtain r s1 where u: "uploadFile svc f opts s = (r, s1)" by (cases "uploadFile svc f opts s")
  obtain rs' st2 where rec: "start_uploads svc i fs (log @ [UploadFileCall f opts], s1) = (rs', st2)"
    by (cases "start_uploads svc i fs (log @ [UploadFileCall f opts], s1)")
  have c: "call (UploadFileCall f opts) (uploadFile svc f opts) (log, s) =
             (r, (log @ [UploadFileCall f opts], s1))"
    using u by (simp add: call_def)
  from Cons.prems have eq: "rs = r # rs'" "st' = st2"
    by (simp_all add: st Let_def opts_def [symmetric] c rec)
  from Cons.IH [OF rec] have ih:
    "length rs' = length fs"
    "map step_of (fst st2) =
       map step_of (log @ [UploadFileCall f opts]) @
       map (\<lambda>f. UploadStarted f (show_nat (i div BATCH_SIZE))) fs"
    "\<forall>k < length fs. \<exists>opts s s'. uploadFile svc (fs ! k) opts s = (rs' ! k, s')"
    by simp_all
  have a: "length rs = length (f # fs)" using ih(1) eq by simp
  have b: "map step_of (fst st') =
       map step_of (fst st) @ map (\<lambda>f. UploadStarted f (show_nat (i div BATCH_SIZE))) (f # fs)"
    using ih(2) eq by (simp add: st step_of_def opts_def)
  have c: "\<forall>k < length (f # fs). \<exists>opts s s'. uploadFile svc ((f # fs) ! k) opts s = (rs ! k, s')"
  proof (intro allI impI)
    fix k assume k: "k < length (f # fs)"
    show "\<exists>opts s s'. uploadFile svc ((f # fs) ! k) opts s = (rs ! k, s')"
    proof (cases k)
      case 0
      with u eq show ?thesis by auto
    next
      case (Suc j)
      with k ih(3) eq show ?thesis by auto
    qed
  qed
  from a b c show ?case by blast
qed

lemma promise_all_ok:
  "\<forall>k < length rs. \<exists>h. rs ! k = Inr h \<Longrightarrow> \<exists>hs. promise_all rs = Inr hs \<and> length hs = length rs"
proof (induction rs)
  case Nil
  show ?case by simp
next
  case (Cons r rs)
  from Cons.prems have "\<exists>h. (r # rs) ! 0 = Inr h" by blast
  then obtain h where r: "r = Inr h" by auto
  from Cons.prems have "\<forall>k < length rs. \<exists>h. rs ! k = Inr h" by fastforce
  from Cons.IH [OF this] obtain hs where "promise_all rs = Inr hs" "length hs = length rs"
    by blast
  with r show ?case by simp
qed

lemma promise_all_first_failure:
  "j < length rs \<Longrightarrow> rs ! j = Inl e \<Longrightarrow> \<forall>k < j. \<exists>h. rs ! k = Inr h \<Longrightarrow> promise_all rs = Inl e"
proof (induction rs arbitrary: j)
  case Nil
  then show ?case by simp
next
  case (Cons r rs)
  show ?case
  proof (cases j)
    case 0
    with Cons.prems show ?thesis by simp
  next
    case (Suc i)
    with Cons.prems have "\<exists>h. (r # rs) ! 0 = Inr h" by blast
    then obtain h where r: "r = Inr h" by auto
    from Suc Cons.prems have "i < length rs" "rs ! i = Inl e" by simp_all
    moreover from Suc Cons.prems have "\<forall>k < i. \<exists>h. rs ! k = Inr h" by fastforce
    ultimately have "promise_all rs = Inl e" by (rule Cons.IH)
    with r show ?thesis by simp
  qed
qed

lemma upload_loop_step_ok:
  assumes "i < length fs"
    and "start_uploads svc i (take BATCH_SIZE (drop i fs)) st = (rs, st1)"
    and "promise_all rs = Inr hs"
  shows "upload_loop svc fs i results st =
           upload_loop svc fs (i + BATCH_SIZE) (results @ hs)
             (if i + BATCH_SIZE < length fs then delay 500 st1 else st1)"
  using assms by (subst upload_loop.simps) (simp add: Let_def)

lemma upload_loop_step_fail:
  assumes "i < length fs"
    and "start_uploads svc i (take BATCH_SIZE (drop i fs)) st = (rs, st1)"
    and "promise_all rs = Inl e"
  shows "upload_loop svc fs i results st = (Inl e, st1)"
  using assms by (subst upload_loop.simps) (simp add: Let_def)

lemma upload_loop_done:
  "\<not> i < length fs \<Longrightarrow> upload_loop svc fs i results st = (Inr results, st)"
  by (subst upload_loop.simps) simp

lemma step_of_delay: "map step_of (fst (delay ms st)) = map step_of (fst st) @ [Paused ms]"
  by (cases st) (simp add: delay_def step_of_def)

text \<open>A batch all of whose uploads succeed.\<close>

lemma batch_ok:
  assumes ok: "\<And>f opts s. f \<in> set fs \<Longrightarrow> \<exists>h s'. uploadFile svc f opts s = (Inr h, s')"
  shows "\<exists>rs st1 hs. start_uploads svc i fs st = (rs, st1) \<and> promise_all rs = Inr hs \<and>
           length hs = length fs \<and>
           map step_of (fst st1) =
             map step_of (fst st) @ map (\<lambda>f. UploadStarted f (show_nat (i div BATCH_SIZE))) fs"
proof -
  obtain rs st1 where su: "start_uploads svc i fs st = (rs, st1)"
    by (cases "start_uploads svc i fs st")
  note sp = start_uploads_spec [OF su]
  have "\<forall>k < length rs. \<exists>h. rs ! k = Inr h"
  proof (intro allI impI)
    fix k assume "k < length rs"
    with sp have k: "k < length fs" by simp
    with sp obtain opts s s' where u: "uploadFile svc (fs ! k) opts s = (rs ! k, s')" by blast
    from k have "fs ! k \<in> set fs" by simp
    from ok [OF this, of opts s] u show "\<exists>h. rs ! k = Inr h" by auto
  qed
  from promise_all_ok [OF this] obtain hs where "promise_all rs = Inr hs" "length hs = length rs"
    by blast
  with su sp show ?thesis by auto
qed

text \<open>A batch whose upload number \<open>j\<close> fails, the ones before it succeeding.\<close>

lemma batch_fail:
  assumes j: "j < length fs"
    and bad: "\<And>opts s. \<exists>s'. uploadFile svc (fs ! j) opts s = (Inl e, s')"
    and ok: "\<And>k opts s. k < j \<Longrightarrow> \<exists>h s'. uploadFile svc (fs ! k) opts s = (Inr h, s')"
  shows "\<exists>rs st1. start_uploads svc i fs st = (rs, st1) \<and> promise_all rs = Inl e \<and>
           map step_of (fst st1) =
             map step_of (fst st) @ map (\<lambda>f. UploadStarted f (show_nat (i div BATCH_SIZE))) fs"
proof -
  obtain rs st1 where su: "start_uploads svc i fs st = (rs, st1)"
    by (cases "start_uploads svc i fs st")
  note sp = start_uploads_spec [OF su]
  from sp j obtain opts s s' where u: "uploadFile svc (fs ! j) opts s = (rs ! j, s')" by blast
  with bad [of opts s] have rj: "rs ! j = Inl e" by auto
  have before: "\<forall>k < j. \<exists>h. rs ! k = Inr h"
  proof (intro allI impI)
    fix k assume k: "k < j"
    with j sp obtain opts s s' where "uploadFile svc (fs ! k) opts s = (rs ! k, s')" by force
    with ok [OF k, of opts s] show "\<exists>h. rs ! k = Inr h" by auto
  qed
  from j sp have "j < length rs" by simp
  from promise_all_first_failure [OF this rj before] su sp show ?thesis by auto
qed

lemma label0: "show_nat (0 div BATCH_SIZE) = ''0''"
  by (simp add: BATCH_SIZE_def show_nat.simps)

lemma label1: "show_nat (3 div BATCH_SIZE) = ''1''"
  by (simp add: BATCH_SIZE_def show_nat.simps)

lemma label2: "show_nat (6 div BATCH_SIZE) = ''2''"
  by (simp add: BATCH_SIZE_def show_nat.simps)

lemma seven_ok:
  assumes ok: "\<And>f opts s. f \<in> set [f1, f2, f3, f4, f5, f6, f7] \<Longrightarrow>
                 \<exists>h s'. uploadFile svc f opts s = (Inr h, s')"
  shows "\<exists>hs st. uploadFilesInParallel svc [f1, f2, f3, f4, f5, f6, f7] ([], s) = (Inr hs, st) \<and>
           length hs = 7 \<and>
           map step_of (fst st) =
             [UploadStarted f1 ''0'', UploadStarted f2 ''0'', UploadStarted f3 ''0'', Paused 500,
              UploadStarted f4 ''1'', UploadStarted f5 ''1'', UploadStarted f6 ''1'', Paused 500,
              UploadStarted f7 ''2'']"
proof -
  let ?fs = "[f1, f2, f3, f4, f5, f6, f7]"
  have ok1: "\<And>f opts s. f \<in> set [f1, f2, f3] \<Longrightarrow> \<exists>h s'. uploadFile svc f opts s = (Inr h, s')"
    using ok by auto
  have ok2: "\<And>f opts s. f \<in> set [f4, f5, f6] \<Longrightarrow> \<exists>h s'. uploadFile svc f opts s = (Inr h, s')"
    using ok by auto
  have ok3: "\<And>f opts s. f \<in> set [f7] \<Longrightarrow> \<exists>h s'. uploadFile svc f opts s = (Inr h, s')"
    using ok by auto
  from batch_ok [of "[f1, f2, f3]" svc 0 "([], s)", OF ok1]
  obtain rs1 st1 hs1 where b1':
    "start_uploads svc 0 [f1, f2, f3] ([], s) = (rs1, st1)" "promise_all rs1 = Inr hs1"
    "length hs1 = length [f1, f2, f3]"
    "map step_of (fst st1) = map step_of (fst ([]::event list, s)) @
       map (\<lambda>f. UploadStarted f (show_nat (0 div BATCH_SIZE))) [f1, f2, f3]"
    by blast
  note b1 = b1'(1,2) b1'(3) [simplified] b1'(4) [simplified label0, simplified]
  from batch_ok [of "[f4, f5, f6]" svc 3 "delay 500 st1", OF ok2]
  obtain rs2 st2 hs2 where b2':
    "start_uploads svc 3 [f4, f5, f6] (delay 500 st1) = (rs2, st2)" "promise_all rs2 = Inr hs2"
    "length hs2 = length [f4, f5, f6]"
    "map step_of (fst st2) = map step_of (fst (delay 500 st1)) @
       map (\<lambda>f. UploadStarted f (show_nat (3 div BATCH_SIZE))) [f4, f5, f6]"
    by blast
  note b2 = b2'(1,2) b2'(3) [simplified] b2'(4) [simplified label1, simplified]
  from batch_ok [of "[f7]" svc 6 "delay 500 st2", OF ok3]
  obtain rs3 st3 hs3 where b3':
    "start_uploads svc 6 [f7] (delay 500 st2) = (rs3, st3)" "promise_all rs3 = Inr hs3"
    "length hs3 = length [f7]"
    "map step_of (fst st3) = map step_of (fst (delay 500 st2)) @
       map (\<lambda>f. UploadStarted f (show_nat (6 div BATCH_SIZE))) [f7]"
    by blast
  note b3 = b3'(1,2) b3'(3) [simplified] b3'(4) [simplified label2, simplified]
  have l1: "upload_loop svc ?fs 0 [] ([], s) = upload_loop svc ?fs 3 hs1 (delay 500 st1)"
    using upload_loop_step_ok [of 0 ?fs svc "([], s)" rs1 st1 hs1 "[]"] b1
    by (simp add: BATCH_SIZE_def)
  have l2: "upload_loop svc ?fs 3 hs1 (delay 500 st1) = upload_loop svc ?fs 6 (hs1 @ hs2) (delay 500 st2)"
    using upload_loop_step_ok [of 3 ?fs svc "delay 500 st1" rs2 st2 hs2 hs1] b2
    by (simp add: BATCH_SIZE_def)
  have l3: "upload_loop svc ?fs 6 (hs1 @ hs2) (delay 500 st2) = upload_loop svc ?fs 9 (hs1 @ hs2 @ hs3) st3"
    using upload_loop_step_ok [of 6 ?fs svc "delay 500 st2" rs3 st3 hs3 "hs1 @ hs2"] b3
    by (simp add: BATCH_SIZE_def)
  have l4: "upload_loop svc ?fs 9 (hs1 @ hs2 @ hs3) st3 = (Inr (hs1 @ hs2 @ hs3), st3)"
    by (rule upload_loop_done) simp
  have run: "uploadFilesInParallel svc ?fs ([], s) = (Inr (hs1 @ hs2 @ hs3), st3)"
    by (simp add: uploadFilesInParallel_def l1 l2 l3 l4)
  have len: "length (hs1 @ hs2 @ hs3) = 7"
    using b1 b2 b3 by simp
  have tr: "map step_of (fst st3) =
             [UploadStarted f1 ''0'', UploadStarted f2 ''0'', UploadStarted f3 ''0'', Paused 500,
              UploadStarted f4 ''1'', UploadStarted f5 ''1'', UploadStarted f6 ''1'', Paused 500,
              UploadStarted f7 ''2'']"
    by (simp add: b3(4) step_of_delay b2(4) b1(4))
  show ?thesis by (intro exI conjI) (rule run, rule len, rule tr)
qed

lemma fifth_fails:
  assumes ok: "\<And>f opts s. f \<in> set [f1, f2, f3, f4] \<Longrightarrow>
                 \<exists>h s'. uploadFile svc f opts s = (Inr h, s')"
    and bad: "\<And>opts s. \<exists>s'. uploadFile svc f5 opts s = (Inl e, s')"
  shows "\<exists>st. uploadFilesInParallel svc [f1, f2, f3, f4, f5, f6, f7] ([], s) = (Inl e, st) \<and>
           map step_of (fst st) =
             [UploadStarted f1 ''0'', UploadStarted f2 ''0'', UploadStarted f3 ''0'', Paused 500,
              UploadStarted f4 ''1'', UploadStarted f5 ''1'', UploadStarted f6 ''1'']"
proof -
  let ?fs = "[f1, f2, f3, f4, f5, f6, f7]"
  have ok1: "\<And>f opts s. f \<in> set [f1, f2, f3] \<Longrightarrow> \<exists>h s'. uploadFile svc f opts s = (Inr h, s')"
    using ok by auto
  from batch_ok [of "[f1, f2, f3]" svc 0 "([], s)", OF ok1]
  obtain rs1 st1 hs1 where b1':
    "start_uploads svc 0 [f1, f2, f3] ([], s) = (rs1, st1)" "promise_all rs1 = Inr hs1"
    "map step_of (fst st1) = map step_of (fst ([]::event list, s)) @
       map (\<lambda>f. UploadStarted f (show_nat (0 div BATCH_SIZE))) [f1, f2, f3]"
    by blast
  note b1 = b1'(1,2) b1'(3) [simplified label0, simplified]
  have bad2: "\<And>opts s. \<exists>s'. uploadFile svc ([f4, f5, f6] ! 1) opts s = (Inl e, s')"
    using bad by simp
  have ok2: "\<And>k opts s. k < 1 \<Longrightarrow> \<exists>h s'. uploadFile svc ([f4, f5, f6] ! k) opts s = (Inr h, s')"
    using ok by auto
  have "1 < length [f4, f5, f6]" by simp
  from batch_fail [of 1 "[f4, f5, f6]" svc e 3 "delay 500 st1", OF this bad2 ok2]
  obtain rs2 st2 where b2':
    "start_uploads svc 3 [f4, f5, f6] (delay 500 st1) = (rs2, st2)" "promise_all rs2 = Inl e"
    "map step_of (fst st2) = map step_of (fst (delay 500 st1)) @
       map (\<lambda>f. UploadStarted f (show_nat (3 div BATCH_SIZE))) [f4, f5, f6]"
    by blast
  note b2 = b2'(1,2) b2'(3) [simplified label1, simplified]
  have l1: "upload_loop svc ?fs 0 [] ([], s) = upload_loop svc ?fs 3 hs1 (delay 500 st1)"
    using upload_loop_step_ok [of 0 ?fs svc "([], s)" rs1 st1 hs1 "[]"] b1
    by (simp add: BATCH_SIZE_def)
  have l2: "upload_loop svc ?fs 3 hs1 (delay 500 st1) = (Inl e, st2)"
    using upload_loop_step_fail [of 3 ?fs svc "delay 500 st1" rs2 st2 e hs1] b2
    by (simp add: BATCH_SIZE_def)
  have run: "uploadFilesInParallel svc ?fs ([], s) = (Inl e, st2)"
    by (simp add: uploadFilesInParallel_def l1 l2)
  have tr: "map step_of (fst st2) =
             [UploadStarted f1 ''0'', UploadStarted f2 ''0'', UploadStarted f3 ''0'', Paused 500,
              UploadStarted f4 ''1'', UploadStarted f5 ''1'', UploadStarted f6 ''1'']"
    by (simp add: b2(3) step_of_delay b1(3))
  show ?thesis by (intro exI conjI) (rule run, rule tr)
qed

lemma naming_uploads_ok:
  "\<exists>h s'. uploadFile svc f opts s = (Inr h, s') \<Longrightarrow>
   \<exists>h s'. uploadFile (naming_uploads svc) f opts s = (Inr h, s')"
  by (auto simp: naming_uploads_def)

lemma naming_uploads_bad:
  "\<exists>s'. uploadFile svc f opts s = (Inl e, s') \<Longrightarrow>
   \<exists>s'. uploadFile (naming_uploads svc) f opts s = (Inl (UploadError (file_name f)), s')"
  by (auto simp: naming_uploads_def)

lemma create_fails_when_upload_fails:
  assumes "validateCertificationData hlp formData = None"
    and "uploadFilesInParallel (naming_uploads svc) (files formData) st = (Inl e, st1)"
  shows "createDocumentCertification lib svc cfg hlp formData st = (Inl e, st1)"
  using assms
  by (simp add: createDocumentCertification_def uploadCertificationAssets_def bind_io_def Let_def)

text \<open>
  Claim C4, as amended. Seven files are uploaded in three batches, one after the
  other: files 1 to 3 under batch label 0, a pause, files 4 to 6 under label 1, a
  pause, file 7 under label 2. All uploads of a batch are started before the batch is
  awaited. When the upload of file 5 is rejected (the other uploads of the first two
  batches succeeding), \<open>uploadFilesInParallel\<close> fails with the error the storage
  rejected that upload with, unchanged: it builds no \<open>UploadError\<close> and does not name
  the file. File 7 is never uploaded. \<open>createDocumentCertification\<close>, whose upload
  coordinator names the file, then fails with the \<open>UploadError\<close> of file 5 and asks
  for no asset to be created.
\<close>

theorem seven_files_three_batches:
  assumes "files formData = [f1, f2, f3, f4, f5, f6, f7]"
  shows
    "((\<forall>f opts s. f \<in> set (files formData) \<longrightarrow> (\<exists>h s'. uploadFile svc f opts s = (Inr h, s'))) \<longrightarrow>
        (\<exists>hs st. uploadFilesInParallel svc (files formData) ([], s) = (Inr hs, st) \<and>
           length hs = 7 \<and>
           map step_of (fst st) =
             [UploadStarted f1 ''0'', UploadStarted f2 ''0'', UploadStarted f3 ''0'', Paused 500,
              UploadStarted f4 ''1'', UploadStarted f5 ''1'', UploadStarted f6 ''1'', Paused 500,
              UploadStarted f7 ''2''])) \<and>
     ((\<forall>f opts s. f \<in> set [f1, f2, f3, f4, f6] \<longrightarrow> (\<exists>h s'. uploadFile svc f opts s = (Inr h, s'))) \<and>
      (\<forall>opts s. \<exists>s'. uploadFile svc f5 opts s = (Inl e, s')) \<and>
      validateCertificationData hlp formData = None \<longrightarrow>
        (\<exists>st. uploadFilesInParallel svc (files formData) ([], s) = (Inl e, st) \<and>
           map step_of (fst st) =
             [UploadStarted f1 ''0'', UploadStarted f2 ''0'', UploadStarted f3 ''0'', Paused 500,
              UploadStarted f4 ''1'', UploadStarted f5 ''1'', UploadStarted f6 ''1'']) \<and>
        (\<exists>st. createDocumentCertification lib svc cfg hlp formData ([], s) =
                 (Inl (UploadError (file_name f5)), st) \<and>
           map step_of (fst st) =
             [UploadStarted f1 ''0'', UploadStarted f2 ''0'', UploadStarted f3 ''0'', Paused 500,
              UploadStarted f4 ''1'', UploadStarted f5 ''1'', UploadStarted f6 ''1''] \<and>
           (\<forall>p. CreateAssetCall p \<notin> set (fst st))))"
proof (intro conjI impI)
  assume "\<forall>f opts s. f \<in> set (files formData) \<longrightarrow> (\<exists>h s'. uploadFile svc f opts s = (Inr h, s'))"
  then have "\<And>f opts s. f \<in> set [f1, f2, f3, f4, f5, f6, f7] \<Longrightarrow>
                 \<exists>h s'. uploadFile svc f opts s = (Inr h, s')"
    unfolding assms by blast
  from seven_ok [OF this] show
    "\<exists>hs st. uploadFilesInParallel svc (files formData) ([], s) = (Inr hs, st) \<and>
           length hs = 7 \<and>
           map step_of (fst st) =
             [UploadStarted f1 ''0'', UploadStarted f2 ''0'', UploadStarted f3 ''0'', Paused 500,
              UploadStarted f4 ''1'', UploadStarted f5 ''1'', UploadStarted f6 ''1'', Paused 500,
              UploadStarted f7 ''2'']"
    unfolding assms .
next
  assume a: "(\<forall>f opts s. f \<in> set [f1, f2, f3, f4, f6] \<longrightarrow> (\<exists>h s'. uploadFile svc f opts s = (Inr h, s'))) \<and>
      (\<forall>opts s. \<exists>s'. uploadFile svc f5 opts s = (Inl e, s')) \<and>
      validateCertificationData hlp formData = None"
  then have ok: "\<And>f opts s. f \<in> set [f1, f2, f3, f4] \<Longrightarrow> \<exists>h s'. uploadFile svc f opts s = (Inr h, s')"
    by auto
  from a have bad: "\<And>opts s. \<exists>s'. uploadFile svc f5 opts s = (Inl e, s')"
    by blast
  show "\<exists>st. uploadFilesInParallel svc (files formData) ([], s) = (Inl e, st) \<and>
           map step_of (fst st) =
             [UploadStarted f1 ''0'', UploadStarted f2 ''0'', UploadStarted f3 ''0'', Paused 500,
              UploadStarted f4 ''1'', UploadStarted f5 ''1'', UploadStarted f6 ''1'']"
    unfolding assms
  proof (rule fifth_fails)
    show "\<And>f opts s. f \<in> set [f1, f2, f3, f4] \<Longrightarrow> \<exists>h s'. uploadFile svc f opts s = (Inr h, s')"
      by (rule ok)
    show "\<And>opts s. \<exists>s'. uploadFile svc f5 opts s = (Inl e, s')"
      by (rule bad)
  qed
  have "\<exists>st. uploadFilesInParallel (naming_uploads svc) [f1, f2, f3, f4, f5, f6, f7] ([], s) =
               (Inl (UploadError (file_name f5)), st) \<and>
           map step_of (fst st) =
             [UploadStarted f1 ''0'', UploadStarted f2 ''0'', UploadStarted f3 ''0'', Paused 500,
              UploadStarted f4 ''1'', UploadStarted f5 ''1'', UploadStarted f6 ''1'']"
  proof (rule fifth_fails)
    show "\<And>f opts s. f \<in> set [f1, f2, f3, f4] \<Longrightarrow>
            \<exists>h s'. uploadFile (naming_uploads svc) f opts s = (Inr h, s')"
      by (rule naming_uploads_ok) (rule ok)
    show "\<And>opts s. \<exists>s'. uploadFile (naming_uploads svc) f5 opts s =
            (Inl (UploadError (file_name f5)), s')"
      by (rule naming_uploads_bad) (rule bad)
  qed
  then obtain st where up: "uploadFilesInParallel (naming_uploads svc) [f1, f2, f3, f4, f5, f6, f7]
                         ([], s) = (Inl (UploadError (file_name f5)), st)"
    and tr: "map step_of (fst st) =
             [UploadStarted f1 ''0'', UploadStarted f2 ''0'', UploadStarted f3 ''0'', Paused 500,
              UploadStarted f4 ''1'', UploadStarted f5 ''1'', UploadStarted f6 ''1'']"
    by (elim exE conjE)
  from a have v: "validateCertificationData hlp formData = None" by blast
  have run: "createDocumentCertification lib svc cfg hlp formData ([], s) =
               (Inl (UploadError (file_name f5)), st)"
    by (rule create_fails_when_upload_fails [OF v]) (simp only: assms up)
  have none: "\<forall>p. CreateAssetCall p \<notin> set (fst st)"
  proof (intro allI notI)
    fix p assume "CreateAssetCall p \<in> set (fst st)"
    then have "step_of (CreateAssetCall p) \<in> set (map step_of (fst st))"
      by (simp only: set_map) (rule imageI)
    then show False by (simp add: tr step_of_def)
  qed
  show "\<exists>st. createDocumentCertification lib svc cfg hlp formData ([], s) =
                 (Inl (UploadError (file_name f5)), st) \<and>
           map step_of (fst st) =
             [UploadStarted f1 ''0'', UploadStarted f2 ''0'', UploadStarted f3 ''0'', Paused 500,
              UploadStarted f4 ''1'', UploadStarted f5 ''1'', UploadStarted f6 ''1''] \<and>
           (\<forall>p. CreateAssetCall p \<notin> set (fst st))"
    by (intro exI conjI) (rule run, rule tr, rule none)
qed

lemma example_upload_times_out:
  "uploadFile (example_services c) (example_file ''file5.pdf'') opts s =
     (Inl (ServiceFault ''timeout''), s)"
  by (simp add: example_services_def example_file_def)

lemma seven_files_eq:
  "seven_files =
     [example_file ''file1.pdf'', example_file ''file2.pdf'', example_file ''file3.pdf'',
      example_file ''file4.pdf'', example_file ''file5.pdf'', example_file ''file6.pdf'',
      example_file ''file7.pdf'']"
  by (simp add: seven_files_def)

text \<open>
  The claim as it was written fails: the storage of the example world rejects the
  upload of \<open>file5.pdf\<close> with a timeout, and \<open>uploadFilesInParallel\<close> fails with that
  timeout, not with an \<open>UploadError\<close> naming the file.
\<close>

theorem upload_error_counterexample:
  "uploadFile (example_services text_v1_1) (example_file ''file5.pdf'')
     \<lparr>opt_name = ''file5.pdf'', kv_batch = ''1'', kv_timestamp = ''2024-01-15T10:30:00Z''\<rparr> [] =
     (Inl (ServiceFault ''timeout''), []) \<and>
   fst (uploadFilesInParallel (example_services text_v1_1) seven_files ([], [])) =
     Inl (ServiceFault ''timeout'') \<and>
   map step_of (fst (snd (uploadFilesInParallel (example_services text_v1_1) seven_files ([], [])))) =
     [UploadStarted (example_file ''file1.pdf'') ''0'', UploadStarted (example_file ''file2.pdf'') ''0'',
         UploadStarted (example_file ''file3.pdf'') ''0'', Paused 500,
         UploadStarted (example_file ''file4.pdf'') ''1'', UploadStarted (example_file ''file5.pdf'') ''1'',
         UploadStarted (example_file ''file6.pdf'') ''1''] \<and>
   ServiceFault ''timeout'' \<noteq> UploadError (file_name (example_file ''file5.pdf''))"
proof -
  have "\<exists>st. uploadFilesInParallel (example_services text_v1_1)
          [example_file ''file1.pdf'', example_file ''file2.pdf'', example_file ''file3.pdf'',
           example_file ''file4.pdf'', example_file ''file5.pdf'', example_file ''file6.pdf'',
           example_file ''file7.pdf''] ([], []) = (Inl (ServiceFault ''timeout''), st) \<and>
        map step_of (fst st) =
     [UploadStarted (example_file ''file1.pdf'') ''0'', UploadStarted (example_file ''file2.pdf'') ''0'',
         UploadStarted (example_file ''file3.pdf'') ''0'', Paused 500,
         UploadStarted (example_file ''file4.pdf'') ''1'', UploadStarted (example_file ''file5.pdf'') ''1'',
         UploadStarted (example_file ''file6.pdf'') ''1'']"
  proof (rule fifth_fails)
    show "\<And>f opts s. f \<in> set [example_file ''file1.pdf'', example_file ''file2.pdf'',
              example_file ''file3.pdf'', example_file ''file4.pdf''] \<Longrightarrow>
            \<exists>h s'. uploadFile (example_services text_v1_1) f opts s = (Inr h, s')"
      by (auto simp: example_services_def example_file_def)
    show "\<And>opts s. \<exists>s'. uploadFile (example_services text_v1_1) (example_file ''file5.pdf'') opts s =
            (Inl (ServiceFault ''timeout''), s')"
      by (simp add: example_upload_times_out)
  qed
  then obtain st where
    run: "uploadFilesInParallel (example_services text_v1_1) seven_files ([], []) =
            (Inl (ServiceFault ''timeout''), st)"
    and tr: "map step_of (fst st) =
     [UploadStarted (example_file ''file1.pdf'') ''0'', UploadStarted (example_file ''file2.pdf'') ''0'',
         UploadStarted (example_file ''file3.pdf'') ''0'', Paused 500,
         UploadStarted (example_file ''file4.pdf'') ''1'', UploadStarted (example_file ''file5.pdf'') ''1'',
         UploadStarted (example_file ''file6.pdf'') ''1'']"
    unfolding seven_files_eq by (elim exE conjE)
  show ?thesis
    by (simp add: run tr example_upload_times_out)
qed

theorem seven_files_three_batches_witness:
  "(\<exists>hs st. uploadFilesInParallel (example_services text_v1_1) seven_good_files ([], []) = (Inr hs, st) \<and>
      length hs = 7 \<and>
      map step_of (fst st) =
        [UploadStarted (example_file ''a.pdf'') ''0'', UploadStarted (example_file ''b.pdf'') ''0'',
         UploadStarted (example_file ''c.pdf'') ''0'', Paused 500,
         UploadStarted (example_file ''d.pdf'') ''1'', UploadStarted (example_file ''e.pdf'') ''1'',
         UploadStarted (example_file ''f.pdf'') ''1'', Paused 500,
         UploadStarted (example_file ''g.pdf'') ''2'']) \<and>
   (\<exists>st. uploadFilesInParallel (example_services text_v1_1) seven_files ([], []) =
            (Inl (ServiceFault ''timeout''), st) \<and>
      map step_of (fst st) =
        [UploadStarted (example_file ''file1.pdf'') ''0'', UploadStarted (example_file ''file2.pdf'') ''0'',
         UploadStarted (example_file ''file3.pdf'') ''0'', Paused 500,
         UploadStarted (example_file ''file4.pdf'') ''1'', UploadStarted (example_file ''file5.pdf'') ''1'',
         UploadStarted (example_file ''file6.pdf'') ''1'']) \<and>
   (\<exists>st. createDocumentCertification example_lib (example_services text_v1_1) example_config
            example_helpers (example_data seven_files) ([], []) =
            (Inl (UploadError ''file5.pdf''), st) \<and>
      map step_of (fst st) =
        [UploadStarted (example_file ''file1.pdf'') ''0'', UploadStarted (example_file ''file2.pdf'') ''0'',
         UploadStarted (example_file ''file3.pdf'') ''0'', Paused 500,
         UploadStarted (example_file ''file4.pdf'') ''1'', UploadStarted (example_file ''file5.pdf'') ''1'',
         UploadStarted (example_file ''file6.pdf'') ''1''] \<and>
      (\<forall>p. CreateAssetCall p \<notin> set (fst st)))"
proof -
  have f1: "files (example_data seven_good_files) =
        [example_file ''a.pdf'', example_file ''b.pdf'', example_file ''c.pdf'', example_file ''d.pdf'',
         example_file ''e.pdf'', example_file ''f.pdf'', example_file ''g.pdf'']"
    by (simp add: example_data_def seven_good_files_def)
  have ok1: "\<forall>f opts s. f \<in> set (files (example_data seven_good_files)) \<longrightarrow>
               (\<exists>h s'. uploadFile (example_services text_v1_1) f opts s = (Inr h, s'))"
    unfolding f1 by (auto simp: example_services_def example_file_def)
  have f2: "files (example_data seven_files) =
        [example_file ''file1.pdf'', example_file ''file2.pdf'', example_file ''file3.pdf'',
         example_file ''file4.pdf'', example_file ''file5.pdf'', example_file ''file6.pdf'',
         example_file ''file7.pdf'']"
    by (simp add: example_data_def seven_files_def)
  have ok2: "\<forall>f opts s. f \<in> set [example_file ''file1.pdf'', example_file ''file2.pdf'',
                example_file ''file3.pdf'', example_file ''file4.pdf'', example_file ''file6.pdf''] \<longrightarrow>
               (\<exists>h s'. uploadFile (example_services text_v1_1) f opts s = (Inr h, s'))"
    by (auto simp: example_services_def example_file_def)
  have bad: "\<forall>opts s. \<exists>s'. uploadFile (example_services text_v1_1) (example_file ''file5.pdf'') opts s =
               (Inl (ServiceFault ''timeout''), s')"
    by (simp add: example_upload_times_out)
  have v: "validateCertificationData example_helpers (example_data seven_files) = None"
    by (simp add: example_helpers_def example_data_def)
  have n: "file_name (example_file ''file5.pdf'') = ''file5.pdf''"
    by (simp add: example_file_def)
  from seven_files_three_batches [OF f1, where svc = "example_services text_v1_1" and s = "[]"] ok1
  have a: "\<exists>hs st. uploadFilesInParallel (example_services text_v1_1) (files (example_data seven_good_files)) ([], []) = (Inr hs, st) \<and>
      length hs = 7 \<and>
      map step_of (fst st) =
        [UploadStarted (example_file ''a.pdf'') ''0'', UploadStarted (example_file ''b.pdf'') ''0'',
         UploadStarted (example_file ''c.pdf'') ''0'', Paused 500,
         UploadStarted (example_file ''d.pdf'') ''1'', UploadStarted (example_file ''e.pdf'') ''1'',
         UploadStarted (example_file ''f.pdf'') ''1'', Paused 500,
         UploadStarted (example_file ''g.pdf'') ''2'']"
    by blast
  from seven_files_three_batches [OF f2, where svc = "example_services text_v1_1" and s = "[]"
      and hlp = example_helpers and lib = example_lib and cfg = example_config
      and e = "ServiceFault ''timeout''"]
    ok2 bad v
  have b: "(\<exists>st. uploadFilesInParallel (example_services text_v1_1) (files (example_data seven_files))
              ([], []) = (Inl (ServiceFault ''timeout''), st) \<and>
      map step_of (fst st) =
        [UploadStarted (example_file ''file1.pdf'') ''0'', UploadStarted (example_file ''file2.pdf'') ''0'',
         UploadStarted (example_file ''file3.pdf'') ''0'', Paused 500,
         UploadStarted (example_file ''file4.pdf'') ''1'', UploadStarted (example_file ''file5.pdf'') ''1'',
         UploadStarted (example_file ''file6.pdf'') ''1'']) \<and>
    (\<exists>st. createDocumentCertification example_lib (example_services text_v1_1) example_config
            example_helpers (example_data seven_files) ([], []) =
            (Inl (UploadError (file_name (example_file ''file5.pdf''))), st) \<and>
      map step_of (fst st) =
        [UploadStarted (example_file ''file1.pdf'') ''0'', UploadStarted (example_file ''file2.pdf'') ''0'',
         UploadStarted (example_file ''file3.pdf'') ''0'', Paused 500,
         UploadStarted (example_file ''file4.pdf'') ''1'', UploadStarted (example_file ''file5.pdf'') ''1'',
         UploadStarted (example_file ''file6.pdf'') ''1''] \<and>
      (\<forall>p. CreateAssetCall p \<notin> set (fst st)))"
    by blast
  have fs: "files (example_data fs) = fs" for fs
    by (simp add: example_data_def)
  from a b show ?thesis
    unfolding n fs by (intro conjI) (elim conjE, assumption)+
qed

section \<open>Minting: the runs of createDocumentCertification\<close>

lemma is_upload_event_simps [simp]:
  "is_upload_event (UploadFileCall f opts)"
  "is_upload_event (Delay ms)"
  "is_upload_event (UploadJSONCall doc)"
  "\<not> is_upload_event (CreateAssetCall p)"
  "\<not> is_upload_event (UpdateReserveCall u)"
  "\<not> is_upload_event (GetAssetInfoCall i)"
  "\<not> is_upload_event (FetchMetadataCall h)"
  by (simp_all add: is_upload_event_def)

lemma start_uploads_events:
  "start_uploads svc i fs st = (rs, st') \<Longrightarrow> list_all is_upload_event (fst st) \<Longrightarrow>
     list_all is_upload_event (fst st')"
proof (induction fs arbitrary: st rs st')
  case Nil
  then show ?case by simp
next
  case (Cons f fs)
  obtain log s where st: "st = (log, s)" by (cases st)
  define opts where "opts = \<lparr>opt_name = file_name f, kv_batch = show_nat (i div BATCH_SIZE),
                              kv_timestamp = now svc s\<rparr>"
  obtain r s1 where u: "uploadFile svc f opts s = (r, s1)" by (cases "uploadFile svc f opts s")
  obtain rs' st2 where rec: "start_uploads svc i fs (log @ [UploadFileCall f opts], s1) = (rs', st2)"
    by (cases "start_uploads svc i fs (log @ [UploadFileCall f opts], s1)")
  have c: "call (UploadFileCall f opts) (uploadFile svc f opts) (log, s) =
             (r, (log @ [UploadFileCall f opts], s1))"
    using u by (simp add: call_def)
  from Cons.prems(1) have eq: "st' = st2"
    by (simp add: st Let_def opts_def [symmetric] c rec)
  have "list_all is_upload_event (fst (log @ [UploadFileCall f opts], s1))"
    using Cons.prems(2) by (simp add: st)
  from Cons.IH [OF rec this] eq show ?case by simp
qed

lemma delay_events:
  "list_all is_upload_event (fst st) \<Longrightarrow> list_all is_upload_event (fst (delay ms st))"
  by (cases st) (simp add: delay_def)

lemma upload_loop_events:
  "upload_loop svc fs i results st = (r, st') \<Longrightarrow> list_all is_upload_event (fst st) \<Longrightarrow>
     list_all is_upload_event (fst st')"
proof (induction svc fs i results st arbitrary: r st' rule: upload_loop.induct)
  case (1 svc fs i results st)
  show ?case
  proof (cases "i < length fs")
    case False
    with "1.prems" show ?thesis by (simp add: upload_loop_done)
  next
    case True
    obtain rs st1 where su: "start_uploads svc i (take BATCH_SIZE (drop i fs)) st = (rs, st1)"
      by (cases "start_uploads svc i (take BATCH_SIZE (drop i fs)) st")
    have ev1: "list_all is_upload_event (fst st1)"
      by (rule start_uploads_events [OF su "1.prems"(2)])
    show ?thesis
    proof (cases "promise_all rs")
      case (Inl e)
      from upload_loop_step_fail [OF True su Inl] "1.prems"(1) have "st' = st1" by simp
      with ev1 show ?thesis by simp
    next
      case (Inr hs)
      let ?st2 = "if i + BATCH_SIZE < length fs then delay 500 st1 else st1"
      have ev2: "list_all is_upload_event (fst ?st2)"
        using ev1 by (simp add: delay_events)
      from upload_loop_step_ok [OF True su Inr] "1.prems"(1)
      have run: "upload_loop svc fs (i + BATCH_SIZE) (results @ hs) ?st2 = (r, st')" by simp
      show ?thesis
        by (rule "1.IH" [OF True refl su [symmetric] Inr run ev2])
    qed
  qed
qed

lemma uploadCertificationAssets_events:
  assumes "uploadCertificationAssets svc hlp fs c formData st = (r, st')"
    and "list_all is_upload_event (fst st)"
  shows "list_all is_upload_event (fst st')"
proof -
  obtain r1 st1 where u: "uploadFilesInParallel (naming_uploads svc) fs st = (r1, st1)"
    by (cases "uploadFilesInParallel (naming_uploads svc) fs st")
  have ev1: "list_all is_upload_event (fst st1)"
    using u assms(2) unfolding uploadFilesInParallel_def by (rule upload_loop_events)
  show ?thesis
  proof (cases r1)
    case (Inl e)
    with u assms(1) have "st' = st1"
      by (simp add: uploadCertificationAssets_def bind_io_def)
    with ev1 show ?thesis by simp
  next
    case (Inr hashes)
    obtain log1 s1 where st1: "st1 = (log1, s1)" by (cases st1)
    define md where "md = prepareCertificationMetadata hlp formData c hashes"
    obtain r2 s2 where j: "uploadJSON svc md s1 = (r2, s2)" by (cases "uploadJSON svc md s1")
    from u Inr assms(1) j have "fst st' = log1 @ [UploadJSONCall md]"
      by (cases r2)
         (auto simp: uploadCertificationAssets_def bind_io_def Let_def md_def [symmetric] st1
            call_def return_io_def)
    with ev1 show ?thesis by (simp add: st1)
  qed
qed

lemma uploadCertificationAssets_url:
  assumes "uploadCertificationAssets svc hlp fs c formData st = (Inr r, st')"
  shows "metadataUrl r = ''ipfs://'' @ metadataHash r"
proof -
  obtain r1 st1 where u: "uploadFilesInParallel (naming_uploads svc) fs st = (r1, st1)"
    by (cases "uploadFilesInParallel (naming_uploads svc) fs st")
  show ?thesis
  proof (cases r1)
    case (Inl e)
    with u assms show ?thesis
      by (simp add: uploadCertificationAssets_def bind_io_def)
  next
    case (Inr hashes)
    obtain log1 s1 where st1: "st1 = (log1, s1)" by (cases st1)
    define md where "md = prepareCertificationMetadata hlp formData c hashes"
    obtain r2 s2 where j: "uploadJSON svc md s1 = (r2, s2)" by (cases "uploadJSON svc md s1")
    from u Inr assms j show ?thesis
      by (cases r2)
         (auto simp: uploadCertificationAssets_def bind_io_def Let_def md_def [symmetric] st1
            call_def return_io_def)
  qed
qed

text \<open>The runs of \<open>createDocumentCertification\<close>, step by step.\<close>

lemma create_validation_fails:
  "validateCertificationData hlp formData = Some e \<Longrightarrow>
   createDocumentCertification lib svc cfg hlp formData st = (Inl e, st)"
  by (simp add: createDocumentCertification_def throw_io_def)

lemma create_upload_fails:
  assumes "validateCertificationData hlp formData = None"
    and "uploadCertificationAssets svc hlp (files formData) (prepareCertificationData hlp formData)
           formData st = (Inl e, st1)"
  shows "createDocumentCertification lib svc cfg hlp formData st = (Inl e, st1)"
  using assms by (simp add: createDocumentCertification_def bind_io_def Let_def)

lemma create_codec_fails:
  assumes "validateCertificationData hlp formData = None"
    and "uploadCertificationAssets svc hlp (files formData) (prepareCertificationData hlp formData)
           formData st = (Inr r, st1)"
    and "fromCidToAddress lib (metadataHash r) = Inl e"
  shows "createDocumentCertification lib svc cfg hlp formData st = (Inl e, st1)"
  using assms by (simp add: createDocumentCertification_def bind_io_def Let_def throw_io_def)

lemma create_asset_fails:
  assumes "validateCertificationData hlp formData = None"
    and "uploadCertificationAssets svc hlp (files formData) (prepareCertificationData hlp formData)
           formData st = (Inr r, (log1, s1))"
    and "fromCidToAddress lib (metadataHash r) = Inr addr"
    and "createAsset svc (create_params cfg formData r) s1 = (Inl e, s2)"
  shows "createDocumentCertification lib svc cfg hlp formData st =
           (Inl e, (log1 @ [CreateAssetCall (create_params cfg formData r)], s2))"
  using assms
  by (simp add: createDocumentCertification_def bind_io_def Let_def call_def)

lemma create_update_fails:
  assumes "validateCertificationData hlp formData = None"
    and "uploadCertificationAssets svc hlp (files formData) (prepareCertificationData hlp formData)
           formData st = (Inr r, (log1, s1))"
    and "fromCidToAddress lib (metadataHash r) = Inr addr"
    and "createAsset svc (create_params cfg formData r) s1 = (Inr cr, s2)"
    and "upd = \<lparr>up_assetId = cr_assetId cr, newReserveAddress = addr,
                 managerMnemonic = mnemonic cfg, up_metadataUrl = None\<rparr>"
    and "updateAssetReserve svc upd s2 = (Inl e, s3)"
  shows "createDocumentCertification lib svc cfg hlp formData st =
           (Inl e, (log1 @ [CreateAssetCall (create_params cfg formData r), UpdateReserveCall upd], s3))"
  using assms
  by (simp add: createDocumentCertification_def bind_io_def Let_def call_def)

lemma create_succeeds:
  assumes "validateCertificationData hlp formData = None"
    and "uploadCertificationAssets svc hlp (files formData) (prepareCertificationData hlp formData)
           formData st = (Inr r, (log1, s1))"
    and "fromCidToAddress lib (metadataHash r) = Inr addr"
    and "createAsset svc (create_params cfg formData r) s1 = (Inr cr, s2)"
    and "upd = \<lparr>up_assetId = cr_assetId cr, newReserveAddress = addr,
                 managerMnemonic = mnemonic cfg, up_metadataUrl = None\<rparr>"
    and "updateAssetReserve svc upd s2 = (Inr ur, s3)"
  shows "createDocumentCertification lib svc cfg hlp formData st =
           (Inr \<lparr>assetId = cr_assetId cr, txId = cr_txId cr, updateTxId = ur_txId ur,
                 confirmedRound = ur_confirmedRound ur, m_metadataUrl = metadataUrl r,
                 ipfsHashes_metadata = metadataHash r, ipfsHashes_files = fileHashes r,
                 finalReserveAddress = addr\<rparr>,
            (log1 @ [CreateAssetCall (create_params cfg formData r), UpdateReserveCall upd], s3))"
  using assms
  by (simp add: createDocumentCertification_def bind_io_def Let_def call_def return_io_def)

lemma created_asset_params:
  assumes run: "createDocumentCertification lib svc cfg hlp formData ([], s) = (res, (log, s'))"
    and p: "CreateAssetCall p \<in> set log"
  shows "\<exists>r st1. uploadCertificationAssets svc hlp (files formData)
                    (prepareCertificationData hlp formData) formData ([], s) = (Inr r, st1) \<and>
                  p = create_params cfg formData r"
proof (cases "validateCertificationData hlp formData")
  case (Some e)
  have "createDocumentCertification lib svc cfg hlp formData ([], s) = (Inl e, ([], s))"
    by (rule create_validation_fails [OF Some])
  with run have "log = []" by simp
  with p show ?thesis by simp
next
  case None
  obtain r1 log1 s1 where up: "uploadCertificationAssets svc hlp (files formData)
      (prepareCertificationData hlp formData) formData ([], s) = (r1, (log1, s1))"
    by (metis prod.exhaust)
  have ev: "list_all is_upload_event log1"
    using uploadCertificationAssets_events [OF up] by simp
  have notin: "CreateAssetCall q \<notin> set log1" for q
    using ev by (auto simp: list_all_iff)
  show ?thesis
  proof (cases r1)
    case (Inl e)
    have "createDocumentCertification lib svc cfg hlp formData ([], s) = (Inl e, (log1, s1))"
      by (rule create_upload_fails [OF None up [unfolded Inl]])
    with run have "log = log1" by simp
    with p notin show ?thesis by simp
  next
    case (Inr r)
    note up' = up [unfolded Inr]
    show ?thesis
    proof (cases "fromCidToAddress lib (metadataHash r)")
      case (Inl e)
      have "createDocumentCertification lib svc cfg hlp formData ([], s) = (Inl e, (log1, s1))"
        by (rule create_codec_fails [OF None up' Inl])
      with run have "log = log1" by simp
      with p notin show ?thesis by simp
    next
      case addr: (Inr addr)
      obtain r2 s2 where ca: "createAsset svc (create_params cfg formData r) s1 = (r2, s2)"
        by (cases "createAsset svc (create_params cfg formData r) s1")
      show ?thesis
      proof (cases r2)
        case (Inl e)
        have "createDocumentCertification lib svc cfg hlp formData ([], s) =
                (Inl e, (log1 @ [CreateAssetCall (create_params cfg formData r)], s2))"
          by (rule create_asset_fails [OF None up' addr ca [unfolded Inl]])
        with run have "log = log1 @ [CreateAssetCall (create_params cfg formData r)]" by simp
        with p notin have "p = create_params cfg formData r" by simp
        with up' show ?thesis by blast
      next
        case (Inr cr)
        define upd where "upd = \<lparr>up_assetId = cr_assetId cr, newReserveAddress = addr,
                 managerMnemonic = mnemonic cfg, up_metadataUrl = None\<rparr>"
        obtain r3 s3 where ua: "updateAssetReserve svc upd s2 = (r3, s3)"
          by (cases "updateAssetReserve svc upd s2")
        have "log = log1 @ [CreateAssetCall (create_params cfg formData r), UpdateReserveCall upd]"
        proof (cases r3)
          case (Inl e)
          have "createDocumentCertification lib svc cfg hlp formData ([], s) =
                  (Inl e, (log1 @ [CreateAssetCall (create_params cfg formData r),
                                   UpdateReserveCall upd], s3))"
            by (rule create_update_fails [OF None up' addr ca [unfolded Inr] upd_def ua [unfolded Inl]])
          with run show ?thesis by simp
        next
          case ur: (Inr ur)
          have "fst (snd (createDocumentCertification lib svc cfg hlp formData ([], s))) =
                  log1 @ [CreateAssetCall (create_params cfg formData r), UpdateReserveCall upd]"
            by (simp add: create_succeeds [OF None up' addr ca [unfolded Inr] upd_def ua [unfolded ur]])
          with run show ?thesis by simp
        qed
        with p notin have "p = create_params cfg formData r" by simp
        with up' show ?thesis by blast
      qed
    qed
  qed
qed

text \<open>The example mint, evaluated.\<close>

lemma example_uploads:
  "uploadFilesInParallel (naming_uploads (example_services c)) two_files ([], []) =
     (Inr (map example_file_hash two_files),
      (map (\<lambda>f. UploadFileCall f (example_options f)) two_files, []))"
  by (simp add: uploadFilesInParallel_def upload_loop.simps two_files_def BATCH_SIZE_def Let_def
      call_def naming_uploads_def example_services_def example_file_def example_options_def
      show_nat.simps)

lemma example_upload:
  "uploadCertificationAssets (example_services c) example_helpers two_files
     (prepareCertificationData example_helpers (example_data two_files)) (example_data two_files)
     ([], []) =
   (Inr (example_upload_result c), (example_upload_log, []))"
  by (simp add: uploadCertificationAssets_def bind_io_def example_uploads Let_def call_def
      return_io_def example_upload_result_def example_upload_log_def example_metadata_def)
     (simp add: example_services_def)

lemma example_uploads_rejecting:
  "uploadFilesInParallel (naming_uploads rejecting_services) two_files ([], []) =
     (Inr (map example_file_hash two_files),
      (map (\<lambda>f. UploadFileCall f (example_options f)) two_files, []))"
  by (simp add: uploadFilesInParallel_def upload_loop.simps two_files_def BATCH_SIZE_def Let_def
      call_def naming_uploads_def rejecting_services_def example_services_def example_file_def
      example_options_def show_nat.simps)

lemma example_upload_rejecting:
  "uploadCertificationAssets rejecting_services example_helpers two_files
     (prepareCertificationData example_helpers (example_data two_files)) (example_data two_files)
     ([], []) =
   (Inr (example_upload_result text_v1_1), (example_upload_log, []))"
  by (simp add: uploadCertificationAssets_def bind_io_def example_uploads_rejecting Let_def call_def
      return_io_def example_upload_result_def example_upload_log_def example_metadata_def)
     (simp add: rejecting_services_def example_services_def)

lemma example_validates: "validateCertificationData example_helpers (example_data fs) = None"
  by (simp add: example_helpers_def example_data_def)

lemma example_files: "files (example_data fs) = fs"
  by (simp add: example_data_def)

lemma example_create:
  "createAsset (example_services c) (create_params example_config (example_data two_files)
       (example_upload_result c')) [] =
   (Inr \<lparr>cr_assetId = 7, cr_txId = ''TX-CREATE''\<rparr>, ledger_created c')"
  by (simp add: example_services_def create_params_def example_config_def example_upload_result_def
      ledger_created_def minted_asset_def)

lemma example_create_rejecting:
  "createAsset rejecting_services (create_params example_config (example_data two_files)
       (example_upload_result c')) [] =
   (Inr \<lparr>cr_assetId = 7, cr_txId = ''TX-CREATE''\<rparr>, ledger_created c')"
  by (simp add: rejecting_services_def example_services_def create_params_def example_config_def
      example_upload_result_def ledger_created_def minted_asset_def)

lemma example_reserve_update:
  "updateAssetReserve (example_services c) mint_update (ledger_created c') =
   (Inr \<lparr>ur_txId = ''TX-UPDATE'', ur_confirmedRound = 1\<rparr>, ledger_minted c')"
  by (simp add: example_services_def mint_update_def ledger_created_def ledger_minted_def
      minted_asset_def)

lemma example_reserve_update_rejected:
  "updateAssetReserve rejecting_services mint_update (ledger_created c') =
   (Inl (ServiceFault ''reserve update rejected''), ledger_created c')"
  by (simp add: rejecting_services_def)

lemma example_mint:
  assumes "fromCidToAddress example_lib c = Inr address1"
  shows "createDocumentCertification example_lib (example_services c) example_config example_helpers
           (example_data two_files) ([], []) =
         (Inr (example_minting_result c), (example_mint_log c, ledger_minted c))"
proof -
  have up: "uploadCertificationAssets (example_services c) example_helpers
      (files (example_data two_files))
      (prepareCertificationData example_helpers (example_data two_files)) (example_data two_files)
      ([], []) = (Inr (example_upload_result c), (example_upload_log, []))"
    by (simp only: example_files example_upload)
  have addr: "fromCidToAddress example_lib (metadataHash (example_upload_result c)) = Inr address1"
    using assms by (simp add: example_upload_result_def)
  have upd: "mint_update = \<lparr>up_assetId = cr_assetId \<lparr>cr_assetId = 7, cr_txId = ''TX-CREATE''\<rparr>,
      newReserveAddress = address1, managerMnemonic = mnemonic example_config, up_metadataUrl = None\<rparr>"
    by (simp add: mint_update_def)
  show ?thesis
    using create_succeeds [OF example_validates up addr example_create upd example_reserve_update]
    by (simp add: example_minting_result_def example_mint_log_def example_upload_result_def)
qed

lemma example_mint_rejected:
  "createDocumentCertification example_lib rejecting_services example_config example_helpers
     (example_data two_files) ([], []) =
   (Inl (ServiceFault ''reserve update rejected''),
    (example_mint_log text_v1_1, ledger_created text_v1_1))"
proof -
  have up: "uploadCertificationAssets rejecting_services example_helpers
      (files (example_data two_files))
      (prepareCertificationData example_helpers (example_data two_files)) (example_data two_files)
      ([], []) = (Inr (example_upload_result text_v1_1), (example_upload_log, []))"
    by (simp only: example_files example_upload_rejecting)
  have addr: "fromCidToAddress example_lib (metadataHash (example_upload_result text_v1_1)) = Inr address1"
    using from_v1 by (simp add: example_upload_result_def)
  have upd: "mint_update = \<lparr>up_assetId = cr_assetId \<lparr>cr_assetId = 7, cr_txId = ''TX-CREATE''\<rparr>,
      newReserveAddress = address1, managerMnemonic = mnemonic example_config, up_metadataUrl = None\<rparr>"
    by (simp add: mint_update_def)
  show ?thesis
    using create_update_fails [OF example_validates up addr example_create_rejecting upd
        example_reserve_update_rejected]
    by (simp add: example_mint_log_def)
qed

section \<open>Minting: what the asset is created with, and what a failed reserve update leaves\<close>

text \<open>
  Claim C5. Whenever \<open>createDocumentCertification\<close> asks the ledger to create an
  asset, the parameters are total 1, decimals 0, clawback and reserve both the
  creator's address (the reserve as a placeholder), and the URL is the one the upload
  of the metadata returned, \<open>ipfs://\<close> followed by the metadata hash.
\<close>

theorem asset_created_soulbound:
  assumes "createDocumentCertification lib svc cfg hlp formData ([], s) = (res, (log, s'))"
    and "CreateAssetCall p \<in> set log"
  shows "total p = 1 \<and> decimals p = 0 \<and>
         clawback p = creatorAddress cfg \<and> reserve p = creatorAddress cfg \<and>
         (\<exists>r st1. uploadCertificationAssets svc hlp (files formData)
                     (prepareCertificationData hlp formData) formData ([], s) = (Inr r, st1) \<and>
                   url p = metadataUrl r \<and> metadataUrl r = ''ipfs://'' @ metadataHash r)"
proof -
  from created_asset_params [OF assms] obtain r st1 where
    up: "uploadCertificationAssets svc hlp (files formData)
           (prepareCertificationData hlp formData) formData ([], s) = (Inr r, st1)"
    and p: "p = create_params cfg formData r"
    by blast
  have u: "metadataUrl r = ''ipfs://'' @ metadataHash r"
    by (rule uploadCertificationAssets_url [OF up])
  have fields: "total p = 1" "decimals p = 0" "clawback p = creatorAddress cfg"
    "reserve p = creatorAddress cfg" "url p = metadataUrl r"
    by (simp_all add: p create_params_def)
  from up u fields show ?thesis by blast
qed

theorem asset_created_soulbound_witness:
  "createDocumentCertification example_lib (example_services text_v1_1) example_config
     example_helpers (example_data two_files) ([], []) =
     (Inr (example_minting_result text_v1_1), (example_mint_log text_v1_1, ledger_minted text_v1_1)) \<and>
   CreateAssetCall (create_params example_config (example_data two_files)
                      (example_upload_result text_v1_1)) \<in> set (example_mint_log text_v1_1) \<and>
   total (create_params example_config (example_data two_files) (example_upload_result text_v1_1)) = 1 \<and>
   decimals (create_params example_config (example_data two_files) (example_upload_result text_v1_1)) = 0 \<and>
   clawback (create_params example_config (example_data two_files) (example_upload_result text_v1_1)) =
     creator_address \<and>
   reserve (create_params example_config (example_data two_files) (example_upload_result text_v1_1)) =
     creator_address \<and>
   url (create_params example_config (example_data two_files) (example_upload_result text_v1_1)) =
     ''ipfs://'' @ text_v1_1"
proof -
  let ?p = "create_params example_config (example_data two_files) (example_upload_result text_v1_1)"
  have run: "createDocumentCertification example_lib (example_services text_v1_1) example_config
     example_helpers (example_data two_files) ([], []) =
     (Inr (example_minting_result text_v1_1), (example_mint_log text_v1_1, ledger_minted text_v1_1))"
    by (rule example_mint [OF from_v1])
  have mem: "CreateAssetCall ?p \<in> set (example_mint_log text_v1_1)"
    by (simp add: example_mint_log_def)
  from asset_created_soulbound [OF run mem]
  have c: "total ?p = 1" "decimals ?p = 0" "clawback ?p = creatorAddress example_config"
    "reserve ?p = creatorAddress example_config"
    by simp_all
  have cr: "creatorAddress example_config = creator_address"
    by (simp add: example_config_def)
  have u: "url ?p = ''ipfs://'' @ text_v1_1"
    by (simp add: create_params_def example_upload_result_def)
  from run mem c u show ?thesis
    unfolding cr by (intro conjI)
qed

text \<open>
  Claim C6, as amended. When the reserve update fails after the asset has been
  created, \<open>createDocumentCertification\<close> fails with the error of the reserve update,
  unchanged. The id of the created asset is not attached to the failure; it is the
  argument of the reserve-update call that failed.
\<close>

theorem reserve_update_failure_propagates:
  assumes "validateCertificationData hlp formData = None"
    and "uploadCertificationAssets svc hlp (files formData) (prepareCertificationData hlp formData)
           formData ([], s) = (Inr r, (log1, s1))"
    and "fromCidToAddress lib (metadataHash r) = Inr addr"
    and "createAsset svc (create_params cfg formData r) s1 = (Inr cr, s2)"
    and "updateAssetReserve svc
           \<lparr>up_assetId = cr_assetId cr, newReserveAddress = addr,
            managerMnemonic = mnemonic cfg, up_metadataUrl = None\<rparr> s2 = (Inl e, s3)"
  shows "createDocumentCertification lib svc cfg hlp formData ([], s) =
           (Inl e,
            (log1 @ [CreateAssetCall (create_params cfg formData r),
                     UpdateReserveCall
                       \<lparr>up_assetId = cr_assetId cr, newReserveAddress = addr,
                        managerMnemonic = mnemonic cfg, up_metadataUrl = None\<rparr>], s3))"
  by (rule create_update_fails [OF assms(1-4) refl assms(5)])

text \<open>
  The claim as it was written fails: the ledger of \<open>rejecting_services\<close> creates
  asset 7 and rejects the reserve update; the run ends with the ledger's own error,
  which is not a \<open>PartialMintFailure\<close> and carries no asset id, while asset 7 exists
  with the placeholder reserve.
\<close>

theorem partial_mint_counterexample:
  "createDocumentCertification example_lib rejecting_services example_config example_helpers
     (example_data two_files) ([], []) =
     (Inl (ServiceFault ''reserve update rejected''),
      (example_mint_log text_v1_1, ledger_created text_v1_1)) \<and>
   map_of (ledger_created text_v1_1) 7 = Some (minted_asset text_v1_1 creator_address) \<and>
   ServiceFault ''reserve update rejected'' \<noteq> PartialMintFailure 7"
  by (simp add: example_mint_rejected ledger_created_def)

theorem reserve_update_failure_propagates_witness:
  "validateCertificationData example_helpers (example_data two_files) = None \<and>
   uploadCertificationAssets rejecting_services example_helpers (files (example_data two_files))
     (prepareCertificationData example_helpers (example_data two_files)) (example_data two_files)
     ([], []) = (Inr (example_upload_result text_v1_1), (example_upload_log, [])) \<and>
   fromCidToAddress example_lib (metadataHash (example_upload_result text_v1_1)) = Inr address1 \<and>
   createAsset rejecting_services
     (create_params example_config (example_data two_files) (example_upload_result text_v1_1)) [] =
     (Inr \<lparr>cr_assetId = 7, cr_txId = ''TX-CREATE''\<rparr>, ledger_created text_v1_1) \<and>
   updateAssetReserve rejecting_services mint_update (ledger_created text_v1_1) =
     (Inl (ServiceFault ''reserve update rejected''), ledger_created text_v1_1) \<and>
   createDocumentCertification example_lib rejecting_services example_config example_helpers
     (example_data two_files) ([], []) =
     (Inl (ServiceFault ''reserve update rejected''),
      (example_upload_log @
         [CreateAssetCall (create_params example_config (example_data two_files)
                             (example_upload_result text_v1_1)),
          UpdateReserveCall mint_update], ledger_created text_v1_1))"
proof -
  have v: "validateCertificationData example_helpers (example_data two_files) = None"
    by (rule example_validates)
  have up: "uploadCertificationAssets rejecting_services example_helpers
      (files (example_data two_files))
      (prepareCertificationData example_helpers (example_data two_files)) (example_data two_files)
      ([], []) = (Inr (example_upload_result text_v1_1), (example_upload_log, []))"
    by (simp only: example_files example_upload_rejecting)
  have addr: "fromCidToAddress example_lib (metadataHash (example_upload_result text_v1_1)) = Inr address1"
    using from_v1 by (simp add: example_upload_result_def)
  have ca: "createAsset rejecting_services
     (create_params example_config (example_data two_files) (example_upload_result text_v1_1)) [] =
     (Inr \<lparr>cr_assetId = 7, cr_txId = ''TX-CREATE''\<rparr>, ledger_created text_v1_1)"
    by (rule example_create_rejecting)
  have upd: "\<lparr>up_assetId = cr_assetId \<lparr>cr_assetId = 7, cr_txId = ''TX-CREATE''\<rparr>,
      newReserveAddress = address1, managerMnemonic = mnemonic example_config,
      up_metadataUrl = None\<rparr> = mint_update"
    by (simp add: mint_update_def)
  have ua: "updateAssetReserve rejecting_services
      \<lparr>up_assetId = cr_assetId \<lparr>cr_assetId = 7, cr_txId = ''TX-CREATE''\<rparr>,
       newReserveAddress = address1, managerMnemonic = mnemonic example_config,
       up_metadataUrl = None\<rparr> (ledger_created text_v1_1) =
     (Inl (ServiceFault ''reserve update rejected''), ledger_created text_v1_1)"
    unfolding upd by (rule example_reserve_update_rejected)
  from reserve_update_failure_propagates [OF v up addr ca ua] v up addr ca ua show ?thesis
    unfolding upd by (intro conjI)
qed

section \<open>Versioned update: the runs of updateCertification\<close>

lemma update_runs:
  assumes "getAssetInfo svc i s = (Inr asset, s1)"
    and "fromAddressToCid lib (a_reserve (params asset)) = Inr cur"
    and "doc = new_metadata cfg hlp asset cur (now svc s1) newData"
    and "uploadJSON svc doc s1 = (Inr pin, s2)"
    and "fromCidToAddress lib (IpfsHash pin) = Inr addr"
    and "upd = \<lparr>up_assetId = i, newReserveAddress = addr, managerMnemonic = mnemonic cfg,
                 up_metadataUrl = Some (''ipfs://'' @ IpfsHash pin)\<rparr>"
    and "updateAssetReserve svc upd s2 = (r, s3)"
  shows "updateCertification lib svc cfg hlp i newData newFiles (log, s) =
           (r, (log @ [GetAssetInfoCall i, UploadJSONCall doc, UpdateReserveCall upd], s3))"
  using assms
  by (simp add: updateCertification_def bind_io_def call_def Let_def)

lemma update_success_steps:
  assumes run: "updateCertification lib svc cfg hlp i newData newFiles (log, s) = (Inr r, (log', s'))"
  shows "\<exists>asset s1 cur pin s2 addr.
           getAssetInfo svc i s = (Inr asset, s1) \<and>
           fromAddressToCid lib (a_reserve (params asset)) = Inr cur \<and>
           uploadJSON svc (new_metadata cfg hlp asset cur (now svc s1) newData) s1 = (Inr pin, s2) \<and>
           fromCidToAddress lib (IpfsHash pin) = Inr addr \<and>
           log' = log @ [GetAssetInfoCall i,
                         UploadJSONCall (new_metadata cfg hlp asset cur (now svc s1) newData),
                         UpdateReserveCall
                           \<lparr>up_assetId = i, newReserveAddress = addr, managerMnemonic = mnemonic cfg,
                            up_metadataUrl = Some (''ipfs://'' @ IpfsHash pin)\<rparr>]"
proof -
  obtain r1 s1 where g: "getAssetInfo svc i s = (r1, s1)" by (cases "getAssetInfo svc i s")
  show ?thesis
  proof (cases r1)
    case (Inl e)
    with g run show ?thesis
      by (simp add: updateCertification_def bind_io_def call_def)
  next
    case asset: (Inr asset)
    show ?thesis
    proof (cases "fromAddressToCid lib (a_reserve (params asset))")
      case (Inl e)
      with g asset run show ?thesis
        by (simp add: updateCertification_def bind_io_def call_def throw_io_def)
    next
      case cur: (Inr cur)
      define doc where "doc = new_metadata cfg hlp asset cur (now svc s1) newData"
      obtain r2 s2 where j: "uploadJSON svc doc s1 = (r2, s2)" by (cases "uploadJSON svc doc s1")
      show ?thesis
      proof (cases r2)
        case (Inl e)
        with g asset cur j run show ?thesis
          by (simp add: updateCertification_def bind_io_def call_def Let_def doc_def [symmetric])
      next
        case pin: (Inr pin)
        show ?thesis
        proof (cases "fromCidToAddress lib (IpfsHash pin)")
          case (Inl e)
          with g asset cur j pin run show ?thesis
            by (simp add: updateCertification_def bind_io_def call_def Let_def
                doc_def [symmetric] throw_io_def)
        next
          case addr: (Inr addr)
          define upd where "upd = \<lparr>up_assetId = i, newReserveAddress = addr,
              managerMnemonic = mnemonic cfg, up_metadataUrl = Some (''ipfs://'' @ IpfsHash pin)\<rparr>"
          obtain r3 s3 where ua: "updateAssetReserve svc upd s2 = (r3, s3)"
            by (cases "updateAssetReserve svc upd s2")
          from update_runs [OF g [unfolded asset] cur doc_def j [unfolded pin] addr upd_def ua,
              of newFiles log] run
          have "log' = log @ [GetAssetInfoCall i, UploadJSONCall doc, UpdateReserveCall upd]"
            by simp
          with g asset cur j pin addr show ?thesis
            unfolding doc_def upd_def by blast
        qed
      qed
    qed
  qed
qed

lemma new_metadata_props:
  "get_prop (new_metadata cfg hlp asset cur ts newData) ''previous_cid'' = Inr (JString cur)"
  "get_prop (new_metadata cfg hlp asset cur ts newData) ''version_info'' =
     Inr (version_info cfg hlp asset cur)"
  by (simp_all add: new_metadata_def get_prop_def update_conv')

lemma version_info_props:
  "get_prop (version_info cfg hlp asset cur) ''currentVersion'' =
     Inr (JNumber (getCurrentVersion hlp asset))"
  "get_prop (version_info cfg hlp asset cur) ''nextVersion'' =
     Inr (JNumber (js_add (getCurrentVersion hlp asset) 1))"
  by (simp_all add: version_info_def get_prop_def)

lemma version_record_new_metadata:
  "version_record (new_metadata cfg hlp asset cur ts newData) =
     Some (getCurrentVersion hlp asset, js_add (getCurrentVersion hlp asset) 1, cur)"
  by (simp add: version_record_def new_metadata_props version_info_props)

lemma uploaded_records_update:
  "uploaded_records [GetAssetInfoCall i, UploadJSONCall (new_metadata cfg hlp asset cur ts newData),
                     UpdateReserveCall u] =
     [(getCurrentVersion hlp asset, js_add (getCurrentVersion hlp asset) 1, cur)]"
  by (simp add: uploaded_records_def List.map_filter_simps version_record_new_metadata)

text \<open>Whole-number arithmetic on doubles.\<close>

lemma bit_length_le: "n < 2 ^ k \<Longrightarrow> bit_length n \<le> k"
proof (induction k arbitrary: n)
  case 0
  then show ?case by (simp add: bit_length.simps)
next
  case (Suc k)
  from Suc.prems have "n div 2 < 2 ^ k" by simp
  then have "bit_length (n div 2) \<le> k" by (rule Suc.IH)
  then show ?case by (subst bit_length.simps) simp
qed

lemma bit_length_eq: "2 ^ k \<le> n \<Longrightarrow> n < 2 ^ Suc k \<Longrightarrow> bit_length n = Suc k"
proof (induction k arbitrary: n)
  case 0
  then have "n = 1" by simp
  then show ?case by (simp add: bit_length.simps)
next
  case (Suc k)
  from Suc.prems have a: "2 ^ k \<le> n div 2" and b: "n div 2 < 2 ^ Suc k" by simp_all
  from Suc.prems have "n \<noteq> 0" by auto
  with Suc.IH [OF a b] show ?case by (subst bit_length.simps) simp
qed

lemma round_to_double_small:
  assumes "\<bar>x\<bar> < 2 ^ 53"
  shows "round_to_double x = x"
proof -
  have "nat \<bar>x\<bar> < 2 ^ 53" using assms by (simp add: nat_less_iff)
  then have "bit_length (nat \<bar>x\<bar>) - 53 = 0"
    using bit_length_le [of "nat \<bar>x\<bar>" 53] by simp
  then show ?thesis
    by (simp add: round_to_double_def Let_def sgn_if)
qed

lemma bit_length_2_53: "bit_length 9007199254740992 = 54"
  using bit_length_eq [of 53 9007199254740992] by simp

lemma bit_length_2_53_1: "bit_length 9007199254740993 = 54"
  using bit_length_eq [of 53 9007199254740993] by simp

lemma round_to_double_2_53: "round_to_double (2 ^ 53) = 2 ^ 53"
  by (simp add: round_to_double_def Let_def bit_length_2_53)

lemma js_add_exact:
  assumes "\<bar>v\<bar> < 2 ^ 53"
  shows "js_add v 1 = v + 1"
proof (cases "v + 1 = 2 ^ 53")
  case True
  then show ?thesis unfolding js_add_def by (simp only: round_to_double_2_53)
next
  case False
  with assms have "\<bar>v + 1\<bar> < 2 ^ 53" by simp
  then show ?thesis unfolding js_add_def by (rule round_to_double_small)
qed

lemma js_add_2_53: "js_add (2 ^ 53) 1 = 2 ^ 53"
  by (simp add: js_add_def round_to_double_def Let_def bit_length_2_53_1)

lemma js_add_1: "js_add 1 1 = 2"
  using js_add_exact [of 1] by simp

lemma js_add_2: "js_add 2 1 = 3"
  using js_add_exact [of 2] by simp

text \<open>The round trip of the codec, for sharing.\<close>

lemma codec_roundtrip:
  assumes "cid_parse lib c = Some d"
    and "version d = 1" and "codec d = RAW_CODEC"
    and "hash_fn (multihash d) = SHA2_256" and "length (digest (multihash d)) = 32"
    and "cid_toString lib d = c"
    and "length (checksum lib (digest (multihash d))) = 4"
    and "fromCidToAddress lib c = Inr a"
  shows "fromAddressToCid lib a = Inr c"
proof -
  define pk where "pk = digest (multihash d)"
  have enc: "a = encodeAddress lib pk"
    using assms by (simp add: fromCidToAddress_def multihashToAlgorandAddress_def pk_def)
  have dec: "decodeAddress lib a = Inr pk"
    unfolding enc by (rule decodeAddress_roundtrip) (use assms in \<open>simp_all add: pk_def\<close>)
  have "createV1 RAW_CODEC (algorandAddressToMultihash pk) = d"
    using assms by (simp add: createV1_def algorandAddressToMultihash_def pk_def)
  then show ?thesis
    using dec assms by (simp add: fromAddressToCid_def)
qed

lemma raw_sha256_roundtrip:
  assumes "raw_sha256_text lib c" and "fromCidToAddress lib c = Inr a"
  shows "fromAddressToCid lib a = Inr c"
proof -
  from assms(1) obtain d where p: "cid_parse lib c = Some d"
    by (cases "cid_parse lib c") (simp_all add: raw_sha256_text_def)
  from assms(1) p have
    "version d = 1" "codec d = RAW_CODEC" "hash_fn (multihash d) = SHA2_256"
    "length (digest (multihash d)) = 32" "cid_toString lib d = c"
    "length (checksum lib (digest (multihash d))) = 4"
    by (simp_all add: raw_sha256_text_def)
  with p show ?thesis
    using assms(2) by (intro codec_roundtrip [of lib c d a])
qed

text \<open>
  What a successful update did: the asset it read, the back-reference it decoded, the
  CID it pinned the new record under and the reserve it wrote, and the one version
  record among its uploads.
\<close>

lemma update_record:
  assumes "updateCertification lib svc cfg hlp i newData newFiles ([], s) = (Inr r, (log, s'))"
  shows "\<exists>asset s1 cur pinned addr.
           getAssetInfo svc i s = (Inr asset, s1) \<and>
           fromAddressToCid lib (a_reserve (params asset)) = Inr cur \<and>
           fromCidToAddress lib pinned = Inr addr \<and>
           (\<forall>u. UpdateReserveCall u \<in> set log \<longrightarrow>
                  newReserveAddress u = addr \<and> up_metadataUrl u = Some (''ipfs://'' @ pinned)) \<and>
           uploaded_records log =
             [(getCurrentVersion hlp asset, js_add (getCurrentVersion hlp asset) 1, cur)]"
proof -
  from update_success_steps [OF assms] show ?thesis
  proof (elim exE conjE)
    fix asset s1 cur pin s2 addr
    assume g: "getAssetInfo svc i s = (Inr asset, s1)"
      and cur: "fromAddressToCid lib (a_reserve (params asset)) = Inr cur"
      and addr: "fromCidToAddress lib (IpfsHash pin) = Inr addr"
      and log: "log = [] @ [GetAssetInfoCall i,
                 UploadJSONCall (new_metadata cfg hlp asset cur (now svc s1) newData),
                 UpdateReserveCall
                   \<lparr>up_assetId = i, newReserveAddress = addr, managerMnemonic = mnemonic cfg,
                    up_metadataUrl = Some (''ipfs://'' @ IpfsHash pin)\<rparr>]"
    have writes: "\<forall>u. UpdateReserveCall u \<in> set log \<longrightarrow>
                    newReserveAddress u = addr \<and>
                    up_metadataUrl u = Some (''ipfs://'' @ IpfsHash pin)"
      by (auto simp: log)
    have recs: "uploaded_records log =
                  [(getCurrentVersion hlp asset, js_add (getCurrentVersion hlp asset) 1, cur)]"
      unfolding log append_Nil by (rule uploaded_records_update)
    show ?thesis
      by (intro exI conjI) (rule g, rule cur, rule addr, rule writes, rule recs)
  qed
qed

text \<open>The example update, evaluated.\<close>

lemma example_info:
  "getAssetInfo (example_services c) 7 ((7, a) # l) = (Inr \<lparr>index = 7, params = a\<rparr>, (7, a) # l)"
  by (simp add: example_services_def)

lemma racing_info:
  "getAssetInfo racing_services 7 ((7, a) # l) = (Inr \<lparr>index = 7, params = a\<rparr>, (7, a) # l)"
  by (simp add: racing_services_def example_services_def)

lemma reserve_minted: "a_reserve (params \<lparr>index = 7, params = minted_asset c r\<rparr>) = r"
  by (simp add: minted_asset_def)

lemma version2_doc_eq:
  "version2_doc c =
     new_metadata example_config example_helpers \<lparr>index = 7, params = minted_asset c address1\<rparr>
       text_v1_1 (now (example_services c') l) []"
  by (simp add: version2_doc_def example_services_def)

lemma version2_doc_racing:
  "version2_doc c =
     new_metadata example_config example_helpers \<lparr>index = 7, params = minted_asset c address1\<rparr>
       text_v1_1 (now racing_services l) []"
  by (simp add: version2_doc_def racing_services_def example_services_def)

lemma example_pin:
  "uploadJSON (example_services c) doc (ledger_minted c') = (Inr \<lparr>IpfsHash = text_v1_2\<rparr>, ledger_minted c')"
  by (simp add: example_services_def ledger_minted_def ledger_created_def)

lemma racing_pin:
  "uploadJSON racing_services doc (ledger_minted text_v1_1) = (Inr \<lparr>IpfsHash = text_v1_2\<rparr>, racing_ledger)"
  by (simp add: racing_services_def example_services_def ledger_minted_def racing_ledger_def
      minted_asset_def)

lemma version2_update_eq:
  "version2_update =
     \<lparr>up_assetId = 7, newReserveAddress = address2, managerMnemonic = mnemonic example_config,
      up_metadataUrl = Some (''ipfs://'' @ IpfsHash \<lparr>IpfsHash = text_v1_2\<rparr>)\<rparr>"
  by (simp add: version2_update_def)

lemma example_version2_write:
  "updateAssetReserve (example_services c) version2_update (ledger_minted c') =
     (Inr \<lparr>ur_txId = ''TX-UPDATE'', ur_confirmedRound = 1\<rparr>, ledger_updated c')"
  by (simp add: example_services_def version2_update_def ledger_minted_def ledger_updated_def
      minted_asset_def)

lemma racing_version2_write:
  "updateAssetReserve racing_services version2_update racing_ledger =
     (Inr \<lparr>ur_txId = ''TX-UPDATE'', ur_confirmedRound = 1\<rparr>,
      (7, minted_asset text_v1_1 address2) # racing_ledger)"
  by (simp add: racing_services_def example_services_def version2_update_def racing_ledger_def
      minted_asset_def)

lemma ipfs_hash_pin: "IpfsHash \<lparr>IpfsHash = h\<rparr> = h"
  by simp

lemma example_doc_now:
  "new_metadata example_config hlp a cur ''2024-01-15T10:30:00Z'' [] =
     new_metadata example_config hlp a cur (now (example_services c) l) []"
  by (simp add: example_services_def)

lemma example_update_run_any:
  "updateCertification example_lib (example_services c) example_config hlp 7 [] fs
     ([], ledger_minted c) =
   (Inr \<lparr>ur_txId = ''TX-UPDATE'', ur_confirmedRound = 1\<rparr>,
    ([GetAssetInfoCall 7,
      UploadJSONCall
        (new_metadata example_config hlp \<lparr>index = 7, params = minted_asset c address1\<rparr> text_v1_1
           ''2024-01-15T10:30:00Z'' []),
      UpdateReserveCall version2_update], ledger_updated c))"
proof -
  have g: "getAssetInfo (example_services c) 7 (ledger_minted c) =
             (Inr \<lparr>index = 7, params = minted_asset c address1\<rparr>, ledger_minted c)"
    unfolding ledger_minted_def by (rule example_info)
  have cur: "fromAddressToCid example_lib
               (a_reserve (params \<lparr>index = 7, params = minted_asset c address1\<rparr>)) = Inr text_v1_1"
    unfolding reserve_minted by (rule to_v1)
  have addr: "fromCidToAddress example_lib (IpfsHash \<lparr>IpfsHash = text_v1_2\<rparr>) = Inr address2"
    unfolding ipfs_hash_pin by (rule from_v1_2)
  show ?thesis
    using update_runs [OF g cur example_doc_now example_pin addr version2_update_eq
        example_version2_write, where newFiles = fs and log = "[]"]
    by simp
qed

lemma example_update_run:
  "updateCertification example_lib (example_services c) example_config example_helpers 7 [] fs
     ([], ledger_minted c) =
   (Inr \<lparr>ur_txId = ''TX-UPDATE'', ur_confirmedRound = 1\<rparr>, (version2_log c, ledger_updated c))"
  unfolding version2_log_def version2_doc_def by (rule example_update_run_any)

lemma example_info_updated:
  "getAssetInfo (example_services c) 7 (ledger_updated c) =
     (Inr \<lparr>index = 7, params = minted_asset c address2\<rparr>, ledger_updated c)"
  unfolding ledger_updated_def by (rule example_info)

lemma example_pin_updated:
  "uploadJSON (example_services c) doc (ledger_updated c') =
     (Inr \<lparr>IpfsHash = text_v1_3\<rparr>, ledger_updated c')"
  by (simp add: example_services_def ledger_updated_def ledger_minted_def ledger_created_def)

lemma version3_update_eq:
  "version3_update =
     \<lparr>up_assetId = 7, newReserveAddress = address3, managerMnemonic = mnemonic example_config,
      up_metadataUrl = Some (''ipfs://'' @ IpfsHash \<lparr>IpfsHash = text_v1_3\<rparr>)\<rparr>"
  by (simp add: version3_update_def)

lemma example_version3_write:
  "updateAssetReserve (example_services c) version3_update (ledger_updated c') =
     (Inr \<lparr>ur_txId = ''TX-UPDATE'', ur_confirmedRound = 1\<rparr>, ledger_updated_twice c')"
  by (simp add: example_services_def version3_update_def ledger_updated_def
      ledger_updated_twice_def minted_asset_def)

lemma example_second_update_run:
  "updateCertification example_lib (example_services c) example_config example_helpers 7 [] fs
     ([], ledger_updated c) =
   (Inr \<lparr>ur_txId = ''TX-UPDATE'', ur_confirmedRound = 1\<rparr>,
    (version3_log c, ledger_updated_twice c))"
proof -
  have cur: "fromAddressToCid example_lib
               (a_reserve (params \<lparr>index = 7, params = minted_asset c address2\<rparr>)) = Inr text_v1_2"
    unfolding reserve_minted by (rule to_v1_2)
  have addr: "fromCidToAddress example_lib (IpfsHash \<lparr>IpfsHash = text_v1_3\<rparr>) = Inr address3"
    unfolding ipfs_hash_pin by (rule from_v1_3)
  show ?thesis
    unfolding version3_log_def version3_doc_def
    using update_runs [OF example_info_updated cur example_doc_now example_pin_updated addr
        version3_update_eq example_version3_write, where newFiles = fs and log = "[]"]
    by simp
qed

lemma racing_update_run:
  "updateCertification example_lib racing_services example_config example_helpers 7 [] fs
     ([], ledger_minted text_v1_1) =
   (Inr \<lparr>ur_txId = ''TX-UPDATE'', ur_confirmedRound = 1\<rparr>,
    (version2_log text_v1_1, (7, minted_asset text_v1_1 address2) # racing_ledger))"
proof -
  have g: "getAssetInfo racing_services 7 (ledger_minted text_v1_1) =
             (Inr \<lparr>index = 7, params = minted_asset text_v1_1 address1\<rparr>, ledger_minted text_v1_1)"
    unfolding ledger_minted_def by (rule racing_info)
  have cur: "fromAddressToCid example_lib
               (a_reserve (params \<lparr>index = 7, params = minted_asset text_v1_1 address1\<rparr>)) =
             Inr text_v1_1"
    unfolding reserve_minted by (rule to_v1)
  have addr: "fromCidToAddress example_lib (IpfsHash \<lparr>IpfsHash = text_v1_2\<rparr>) = Inr address2"
    unfolding ipfs_hash_pin by (rule from_v1_2)
  show ?thesis
    using update_runs [OF g cur version2_doc_racing racing_pin addr version2_update_eq
        racing_version2_write, of fs "[]"]
    by (simp add: version2_log_def)
qed

section \<open>Versioned update: the reserve is read once\<close>

text \<open>
  Claim C7, as amended. \<open>updateCertification\<close> reads the asset once, at the start
  of the call. When that lookup, the decoding of the reserve, the upload of the new
  metadata and the encoding of its CID succeed, the next and last call is the reserve
  update: the run makes exactly the three calls lookup, upload, update, and its
  outcome is the outcome of the update, whatever the ledger holds by then. The reserve
  is not read again and no \<open>VersionConflict\<close> is raised.
\<close>

theorem update_writes_without_rereading:
  assumes "getAssetInfo svc i s = (Inr asset, s1)"
    and "fromAddressToCid lib (a_reserve (params asset)) = Inr cur"
    and "uploadJSON svc (new_metadata cfg hlp asset cur (now svc s1) newData) s1 = (Inr pin, s2)"
    and "fromCidToAddress lib (IpfsHash pin) = Inr addr"
  shows "updateCertification lib svc cfg hlp i newData newFiles ([], s) =
           (fst (updateAssetReserve svc
                   \<lparr>up_assetId = i, newReserveAddress = addr, managerMnemonic = mnemonic cfg,
                    up_metadataUrl = Some (''ipfs://'' @ IpfsHash pin)\<rparr> s2),
            ([GetAssetInfoCall i,
              UploadJSONCall (new_metadata cfg hlp asset cur (now svc s1) newData),
              UpdateReserveCall
                \<lparr>up_assetId = i, newReserveAddress = addr, managerMnemonic = mnemonic cfg,
                 up_metadataUrl = Some (''ipfs://'' @ IpfsHash pin)\<rparr>],
             snd (updateAssetReserve svc
                    \<lparr>up_assetId = i, newReserveAddress = addr, managerMnemonic = mnemonic cfg,
                     up_metadataUrl = Some (''ipfs://'' @ IpfsHash pin)\<rparr> s2)))"
  using update_runs [OF assms(1,2) refl assms(3,4) refl surjective_pairing, where log = "[]"]
  by simp

text \<open>
  The claim as it was written fails: in the world of \<open>racing_services\<close> another
  writer changes the reserve of asset 7 while the new metadata is uploaded. The reserve
  on the ledger then differs from the one read at the start, and the update is written
  all the same, with success.
\<close>

theorem version_conflict_counterexample:
  "getAssetInfo racing_services 7 (ledger_minted text_v1_1) =
     (Inr \<lparr>index = 7, params = minted_asset text_v1_1 address1\<rparr>, ledger_minted text_v1_1) \<and>
   uploadJSON racing_services (version2_doc text_v1_1) (ledger_minted text_v1_1) =
     (Inr \<lparr>IpfsHash = text_v1_2\<rparr>, racing_ledger) \<and>
   getAssetInfo racing_services 7 racing_ledger =
     (Inr \<lparr>index = 7, params = minted_asset text_v1_1 creator_address\<rparr>, racing_ledger) \<and>
   a_reserve (minted_asset text_v1_1 creator_address) \<noteq> a_reserve (minted_asset text_v1_1 address1) \<and>
   updateCertification example_lib racing_services example_config example_helpers 7 [] []
     ([], ledger_minted text_v1_1) =
     (Inr \<lparr>ur_txId = ''TX-UPDATE'', ur_confirmedRound = 1\<rparr>,
      (version2_log text_v1_1, (7, minted_asset text_v1_1 address2) # racing_ledger)) \<and>
   UpdateReserveCall version2_update \<in> set (version2_log text_v1_1)"
proof -
  have a: "getAssetInfo racing_services 7 (ledger_minted text_v1_1) =
     (Inr \<lparr>index = 7, params = minted_asset text_v1_1 address1\<rparr>, ledger_minted text_v1_1)"
    unfolding ledger_minted_def by (rule racing_info)
  have b: "getAssetInfo racing_services 7 racing_ledger =
     (Inr \<lparr>index = 7, params = minted_asset text_v1_1 creator_address\<rparr>, racing_ledger)"
    unfolding racing_ledger_def by (rule racing_info)
  have c: "a_reserve (minted_asset text_v1_1 creator_address) \<noteq>
           a_reserve (minted_asset text_v1_1 address1)"
    by (simp add: minted_asset_def creator_address_def address1_def)
  have d: "UpdateReserveCall version2_update \<in> set (version2_log text_v1_1)"
    by (simp add: version2_log_def)
  from a racing_pin b c racing_update_run d show ?thesis
    by (intro conjI)
qed

theorem update_writes_without_rereading_witness:
  "getAssetInfo (example_services text_v1_1) 7 (ledger_minted text_v1_1) =
     (Inr \<lparr>index = 7, params = minted_asset text_v1_1 address1\<rparr>, ledger_minted text_v1_1) \<and>
   fromAddressToCid example_lib address1 = Inr text_v1_1 \<and>
   uploadJSON (example_services text_v1_1) (version2_doc text_v1_1) (ledger_minted text_v1_1) =
     (Inr \<lparr>IpfsHash = text_v1_2\<rparr>, ledger_minted text_v1_1) \<and>
   fromCidToAddress example_lib text_v1_2 = Inr address2 \<and>
   updateCertification example_lib (example_services text_v1_1) example_config example_helpers 7 [] []
     ([], ledger_minted text_v1_1) =
     (Inr \<lparr>ur_txId = ''TX-UPDATE'', ur_confirmedRound = 1\<rparr>,
      ([GetAssetInfoCall 7, UploadJSONCall (version2_doc text_v1_1), UpdateReserveCall version2_update],
       ledger_updated text_v1_1))"
proof -
  have g: "getAssetInfo (example_services text_v1_1) 7 (ledger_minted text_v1_1) =
             (Inr \<lparr>index = 7, params = minted_asset text_v1_1 address1\<rparr>, ledger_minted text_v1_1)"
    unfolding ledger_minted_def by (rule example_info)
  have cur: "fromAddressToCid example_lib
               (a_reserve (params \<lparr>index = 7, params = minted_asset text_v1_1 address1\<rparr>)) =
             Inr text_v1_1"
    unfolding reserve_minted by (rule to_v1)
  have j: "uploadJSON (example_services text_v1_1)
             (new_metadata example_config example_helpers
                \<lparr>index = 7, params = minted_asset text_v1_1 address1\<rparr> text_v1_1
                (now (example_services text_v1_1) (ledger_minted text_v1_1)) [])
             (ledger_minted text_v1_1) =
           (Inr \<lparr>IpfsHash = text_v1_2\<rparr>, ledger_minted text_v1_1)"
    by (rule example_pin)
  have addr: "fromCidToAddress example_lib (IpfsHash \<lparr>IpfsHash = text_v1_2\<rparr>) = Inr address2"
    unfolding ipfs_hash_pin by (rule from_v1_2)
  have run: "updateCertification example_lib (example_services text_v1_1) example_config
      example_helpers 7 [] [] ([], ledger_minted text_v1_1) =
     (Inr \<lparr>ur_txId = ''TX-UPDATE'', ur_confirmedRound = 1\<rparr>,
      ([GetAssetInfoCall 7, UploadJSONCall (version2_doc text_v1_1), UpdateReserveCall version2_update],
       ledger_updated text_v1_1))"
    using update_writes_without_rereading [OF g cur j addr, where newFiles = "[]"]
    unfolding version2_update_eq [symmetric] example_version2_write
      version2_doc_eq [symmetric, where c' = text_v1_1 and l = "ledger_minted text_v1_1"]
    by simp
  from g to_v1 example_pin from_v1_2 run show ?thesis
    by (intro conjI)
qed

section \<open>Versioned update: the version record\<close>

text \<open>
  Claim C8, as amended. \<open>getCurrentVersion\<close> is taken to report a whole number.
  Every successful \<open>updateCertification\<close> uploads exactly one version record. Its
  \<open>currentVersion\<close> is \<open>getCurrentVersion(asset)\<close> and its \<open>nextVersion\<close> is that
  number plus one in double arithmetic, which is exactly one greater when the current
  version is below \<open>2 ^ 53\<close> in absolute value. Its back-reference \<open>previous_cid\<close>
  is the CID decoded from the reserve read at the start of the call; it is the CID the
  reserve was derived from whenever that CID is the text of a CIDv1 with the raw codec
  and a sha2-256 digest of 32 bytes.

  For two successful updates, the second reading the reserve the first one wrote: when
  the CID of version 1 and the CID the first update pinned its record under are such
  texts, \<open>getCurrentVersion\<close> reports 1 at the first update and reports at the second
  the next version the first one recorded, then the version numbers are 1, 2, 3, the
  back-reference of version 2 is the CID of version 1 and the back-reference of
  version 3 is the CID of version 2.
\<close>

theorem update_links_versions:
  assumes "updateCertification lib svc cfg hlp i newData newFiles ([], s) = (Inr r, (log, s'))"
  shows "\<exists>asset s1 cur.
           getAssetInfo svc i s = (Inr asset, s1) \<and>
           fromAddressToCid lib (a_reserve (params asset)) = Inr cur \<and>
           uploaded_records log =
             [(getCurrentVersion hlp asset, js_add (getCurrentVersion hlp asset) 1, cur)] \<and>
           (\<bar>getCurrentVersion hlp asset\<bar> < 2 ^ 53 \<longrightarrow>
              js_add (getCurrentVersion hlp asset) 1 = getCurrentVersion hlp asset + 1) \<and>
           (\<forall>c. raw_sha256_text lib c \<and> fromCidToAddress lib c = Inr (a_reserve (params asset)) \<longrightarrow>
                cur = c) \<and>
           (\<forall>newData2 newFiles2 t r2 log2 t' asset2 t1 c1 c2 u.
              updateCertification lib svc cfg hlp i newData2 newFiles2 ([], t) =
                (Inr r2, (log2, t')) \<and>
              getAssetInfo svc i t = (Inr asset2, t1) \<and>
              UpdateReserveCall u \<in> set log \<and>
              a_reserve (params asset2) = newReserveAddress u \<and>
              up_metadataUrl u = Some (''ipfs://'' @ c2) \<and>
              raw_sha256_text lib c2 \<and>
              raw_sha256_text lib c1 \<and>
              fromCidToAddress lib c1 = Inr (a_reserve (params asset)) \<and>
              getCurrentVersion hlp asset = 1 \<and>
              [getCurrentVersion hlp asset2] = map (\<lambda>rec. fst (snd rec)) (uploaded_records log) \<longrightarrow>
              uploaded_records log = [(1, 2, c1)] \<and> uploaded_records log2 = [(2, 3, c2)])"
proof -
  from update_record [OF assms] show ?thesis
  proof (elim exE conjE)
    fix asset s1 cur pinned addr
    assume g: "getAssetInfo svc i s = (Inr asset, s1)"
      and cur: "fromAddressToCid lib (a_reserve (params asset)) = Inr cur"
      and addr: "fromCidToAddress lib pinned = Inr addr"
      and writes: "\<forall>u. UpdateReserveCall u \<in> set log \<longrightarrow>
                     newReserveAddress u = addr \<and> up_metadataUrl u = Some (''ipfs://'' @ pinned)"
      and recs: "uploaded_records log =
                   [(getCurrentVersion hlp asset, js_add (getCurrentVersion hlp asset) 1, cur)]"
    have exact: "\<bar>getCurrentVersion hlp asset\<bar> < 2 ^ 53 \<longrightarrow>
                   js_add (getCurrentVersion hlp asset) 1 = getCurrentVersion hlp asset + 1"
      by (intro impI) (rule js_add_exact)
    have link: "\<forall>c. raw_sha256_text lib c \<and> fromCidToAddress lib c = Inr (a_reserve (params asset)) \<longrightarrow>
                  cur = c"
    proof (intro allI impI, elim conjE)
      fix c
      assume "raw_sha256_text lib c" "fromCidToAddress lib c = Inr (a_reserve (params asset))"
      then have "fromAddressToCid lib (a_reserve (params asset)) = Inr c"
        by (rule raw_sha256_roundtrip)
      with cur show "cur = c" by simp
    qed
    have two: "\<forall>newData2 newFiles2 t r2 log2 t' asset2 t1 c1 c2 u.
              updateCertification lib svc cfg hlp i newData2 newFiles2 ([], t) =
                (Inr r2, (log2, t')) \<and>
              getAssetInfo svc i t = (Inr asset2, t1) \<and>
              UpdateReserveCall u \<in> set log \<and>
              a_reserve (params asset2) = newReserveAddress u \<and>
              up_metadataUrl u = Some (''ipfs://'' @ c2) \<and>
              raw_sha256_text lib c2 \<and>
              raw_sha256_text lib c1 \<and>
              fromCidToAddress lib c1 = Inr (a_reserve (params asset)) \<and>
              getCurrentVersion hlp asset = 1 \<and>
              [getCurrentVersion hlp asset2] = map (\<lambda>rec. fst (snd rec)) (uploaded_records log) \<longrightarrow>
              uploaded_records log = [(1, 2, c1)] \<and> uploaded_records log2 = [(2, 3, c2)]"
    proof (intro allI impI, elim conjE)
      fix newData2 newFiles2 t r2 log2 t' asset2 t1 c1 c2 u
      assume run2: "updateCertification lib svc cfg hlp i newData2 newFiles2 ([], t) =
                      (Inr r2, (log2, t'))"
        and g2: "getAssetInfo svc i t = (Inr asset2, t1)"
        and u: "UpdateReserveCall u \<in> set log"
        and res2: "a_reserve (params asset2) = newReserveAddress u"
        and url: "up_metadataUrl u = Some (''ipfs://'' @ c2)"
        and raw2: "raw_sha256_text lib c2"
        and raw1: "raw_sha256_text lib c1"
        and from1: "fromCidToAddress lib c1 = Inr (a_reserve (params asset))"
        and v1: "getCurrentVersion hlp asset = 1"
        and v2: "[getCurrentVersion hlp asset2] = map (\<lambda>rec. fst (snd rec)) (uploaded_records log)"
      from link raw1 from1 have c1: "cur = c1" by blast
      have first: "uploaded_records log = [(1, 2, c1)]"
        by (simp add: recs v1 js_add_1 c1)
      from v2 have v2': "getCurrentVersion hlp asset2 = 2"
        by (simp add: first)
      from writes u have "newReserveAddress u = addr" "up_metadataUrl u = Some (''ipfs://'' @ pinned)"
        by blast+
      with url res2 have p: "pinned = c2" and r: "a_reserve (params asset2) = addr"
        by simp_all
      from addr have from2: "fromCidToAddress lib c2 = Inr (a_reserve (params asset2))"
        by (simp only: p r)
      from raw2 from2 have prev2: "fromAddressToCid lib (a_reserve (params asset2)) = Inr c2"
        by (rule raw_sha256_roundtrip)
      from update_record [OF run2] have second: "uploaded_records log2 = [(2, 3, c2)]"
      proof (elim exE conjE)
        fix asset' s1' cur' pinned' addr'
        assume "getAssetInfo svc i t = (Inr asset', s1')"
          and c': "fromAddressToCid lib (a_reserve (params asset')) = Inr cur'"
          and r': "uploaded_records log2 =
                     [(getCurrentVersion hlp asset', js_add (getCurrentVersion hlp asset') 1, cur')]"
        with g2 have same: "asset' = asset2" by simp
        from c' prev2 have "cur' = c2" by (simp add: same)
        then show ?thesis
          by (simp add: r' same v2' js_add_2)
      qed
      from first second
      show "uploaded_records log = [(1, 2, c1)] \<and> uploaded_records log2 = [(2, 3, c2)]"
        by (rule conjI)
    qed
    show ?thesis
      by (intro exI conjI) (rule g, rule cur, rule recs, rule exact, rule link, rule two)
  qed
qed

text \<open>
  The claim as it was written fails in two ways. Where the storage names the first
  metadata by a CIDv0, the mint gives version 1 the CID \<open>text_v0_1\<close>, and the record
  of version 2 points back to \<open>text_v1_1\<close>, the CIDv1 (raw) of the same digest. And
  for an asset whose current version is \<open>2 ^ 53\<close>, the successful update records a
  next version equal to the current one, since \<open>2 ^ 53 + 1\<close> is not a double.
\<close>

theorem back_reference_counterexample:
  "createDocumentCertification example_lib (example_services text_v0_1) example_config
     example_helpers (example_data two_files) ([], []) =
     (Inr (example_minting_result text_v0_1), (example_mint_log text_v0_1, ledger_minted text_v0_1)) \<and>
   ipfsHashes_metadata (example_minting_result text_v0_1) = text_v0_1 \<and>
   updateCertification example_lib (example_services text_v0_1) example_config example_helpers 7 [] []
     ([], ledger_minted text_v0_1) =
     (Inr \<lparr>ur_txId = ''TX-UPDATE'', ur_confirmedRound = 1\<rparr>,
      (version2_log text_v0_1, ledger_updated text_v0_1)) \<and>
   UploadJSONCall (version2_doc text_v0_1) \<in> set (version2_log text_v0_1) \<and>
   get_prop (version2_doc text_v0_1) ''previous_cid'' = Inr (JString text_v1_1) \<and>
   uploaded_records (version2_log text_v0_1) = [(1, 2, text_v1_1)] \<and>
   text_v1_1 \<noteq> text_v0_1 \<and>
   updateCertification example_lib (example_services text_v1_1) example_config huge_version_helpers
     7 [] [] ([], ledger_minted text_v1_1) =
     (Inr \<lparr>ur_txId = ''TX-UPDATE'', ur_confirmedRound = 1\<rparr>,
      (huge_version_log, ledger_updated text_v1_1)) \<and>
   uploaded_records huge_version_log =
     [(9007199254740992, 9007199254740992, text_v1_1)]"
proof -
  have a: "ipfsHashes_metadata (example_minting_result text_v0_1) = text_v0_1"
    by (simp add: example_minting_result_def)
  have b: "UploadJSONCall (version2_doc text_v0_1) \<in> set (version2_log text_v0_1)"
    by (simp add: version2_log_def)
  have c: "get_prop (version2_doc text_v0_1) ''previous_cid'' = Inr (JString text_v1_1)"
    unfolding version2_doc_def by (rule new_metadata_props)
  have v: "getCurrentVersion example_helpers \<lparr>index = 7, params = minted_asset c address1\<rparr> = 1" for c
    by (simp add: example_helpers_def minted_asset_def)
  have r: "uploaded_records (version2_log text_v0_1) = [(1, 2, text_v1_1)]"
    unfolding version2_log_def version2_doc_def uploaded_records_update v js_add_1 by (rule refl)
  have d: "text_v1_1 \<noteq> text_v0_1"
    by (simp add: text_v1_1_def text_v0_1_def)
  have h: "getCurrentVersion huge_version_helpers a = 9007199254740992" for a
    by (simp add: huge_version_helpers_def)
  have j: "js_add 9007199254740992 1 = 9007199254740992"
    using js_add_2_53 by simp
  have e: "updateCertification example_lib (example_services text_v1_1) example_config
      huge_version_helpers 7 [] [] ([], ledger_minted text_v1_1) =
     (Inr \<lparr>ur_txId = ''TX-UPDATE'', ur_confirmedRound = 1\<rparr>,
      (huge_version_log, ledger_updated text_v1_1))"
    unfolding huge_version_log_def by (rule example_update_run_any)
  have f: "uploaded_records huge_version_log =
     [(9007199254740992, 9007199254740992, text_v1_1)]"
    unfolding huge_version_log_def uploaded_records_update h j by (rule refl)
  from example_mint [OF from_v0] a example_update_run b c r d e f show ?thesis
    by (intro conjI)
qed

theorem update_links_versions_witness:
  "updateCertification example_lib (example_services text_v1_1) example_config example_helpers 7 [] []
     ([], ledger_minted text_v1_1) =
     (Inr \<lparr>ur_txId = ''TX-UPDATE'', ur_confirmedRound = 1\<rparr>,
      (version2_log text_v1_1, ledger_updated text_v1_1)) \<and>
   updateCertification example_lib (example_services text_v1_1) example_config example_helpers 7 [] []
     ([], ledger_updated text_v1_1) =
     (Inr \<lparr>ur_txId = ''TX-UPDATE'', ur_confirmedRound = 1\<rparr>,
      (version3_log text_v1_1, ledger_updated_twice text_v1_1)) \<and>
   getAssetInfo (example_services text_v1_1) 7 (ledger_minted text_v1_1) =
     (Inr \<lparr>index = 7, params = minted_asset text_v1_1 address1\<rparr>, ledger_minted text_v1_1) \<and>
   getAssetInfo (example_services text_v1_1) 7 (ledger_updated text_v1_1) =
     (Inr \<lparr>index = 7, params = minted_asset text_v1_1 address2\<rparr>, ledger_updated text_v1_1) \<and>
   UpdateReserveCall version2_update \<in> set (version2_log text_v1_1) \<and>
   a_reserve (params \<lparr>index = 7, params = minted_asset text_v1_1 address2\<rparr>) =
     newReserveAddress version2_update \<and>
   up_metadataUrl version2_update = Some (''ipfs://'' @ text_v1_2) \<and>
   raw_sha256_text example_lib text_v1_2 \<and>
   raw_sha256_text example_lib text_v1_1 \<and>
   fromCidToAddress example_lib text_v1_1 =
     Inr (a_reserve (params \<lparr>index = 7, params = minted_asset text_v1_1 address1\<rparr>)) \<and>
   getCurrentVersion example_helpers \<lparr>index = 7, params = minted_asset text_v1_1 address1\<rparr> = 1 \<and>
   [getCurrentVersion example_helpers \<lparr>index = 7, params = minted_asset text_v1_1 address2\<rparr>] =
     map (\<lambda>rec. fst (snd rec)) (uploaded_records (version2_log text_v1_1)) \<and>
   \<bar>getCurrentVersion example_helpers \<lparr>index = 7, params = minted_asset text_v1_1 address1\<rparr>\<bar>
     < 2 ^ 53 \<and>
   fromAddressToCid example_lib address1 = Inr text_v1_1 \<and>
   uploaded_records (version2_log text_v1_1) = [(1, 2, text_v1_1)] \<and>
   uploaded_records (version3_log text_v1_1) = [(2, 3, text_v1_2)]"
proof -
  let ?a1 = "\<lparr>index = 7, params = minted_asset text_v1_1 address1\<rparr>"
  let ?a2 = "\<lparr>index = 7, params = minted_asset text_v1_1 address2\<rparr>"
  have run1: "updateCertification example_lib (example_services text_v1_1) example_config
      example_helpers 7 [] [] ([], ledger_minted text_v1_1) =
     (Inr \<lparr>ur_txId = ''TX-UPDATE'', ur_confirmedRound = 1\<rparr>,
      (version2_log text_v1_1, ledger_updated text_v1_1))"
    by (rule example_update_run)
  have run2: "updateCertification example_lib (example_services text_v1_1) example_config
      example_helpers 7 [] [] ([], ledger_updated text_v1_1) =
     (Inr \<lparr>ur_txId = ''TX-UPDATE'', ur_confirmedRound = 1\<rparr>,
      (version3_log text_v1_1, ledger_updated_twice text_v1_1))"
    by (rule example_second_update_run)
  have g1: "getAssetInfo (example_services text_v1_1) 7 (ledger_minted text_v1_1) =
     (Inr ?a1, ledger_minted text_v1_1)"
    unfolding ledger_minted_def by (rule example_info)
  have g2: "getAssetInfo (example_services text_v1_1) 7 (ledger_updated text_v1_1) =
     (Inr ?a2, ledger_updated text_v1_1)"
    by (rule example_info_updated)
  have u: "UpdateReserveCall version2_update \<in> set (version2_log text_v1_1)"
    by (simp add: version2_log_def)
  have res2: "a_reserve (params ?a2) = newReserveAddress version2_update"
    by (simp add: minted_asset_def version2_update_def)
  have url: "up_metadataUrl version2_update = Some (''ipfs://'' @ text_v1_2)"
    by (simp add: version2_update_def)
  have from1: "fromCidToAddress example_lib text_v1_1 = Inr (a_reserve (params ?a1))"
    unfolding reserve_minted by (rule from_v1)
  have v1: "getCurrentVersion example_helpers ?a1 = 1"
    by (simp add: example_helpers_def minted_asset_def)
  have v2: "[getCurrentVersion example_helpers ?a2] =
              map (\<lambda>rec. fst (snd rec)) (uploaded_records (version2_log text_v1_1))"
    unfolding version2_log_def version2_doc_def uploaded_records_update v1 js_add_1
    by (simp add: example_helpers_def minted_asset_def address1_def address2_def)
  have small: "\<bar>getCurrentVersion example_helpers ?a1\<bar> < 2 ^ 53"
    by (simp add: v1)
  from update_links_versions [OF run1] obtain asset s1 cur where
    g: "getAssetInfo (example_services text_v1_1) 7 (ledger_minted text_v1_1) = (Inr asset, s1)"
    and cur: "fromAddressToCid example_lib (a_reserve (params asset)) = Inr cur"
    and link: "\<forall>c. raw_sha256_text example_lib c \<and>
                 fromCidToAddress example_lib c = Inr (a_reserve (params asset)) \<longrightarrow> cur = c"
    and two: "\<forall>newData2 newFiles2 t r2 log2 t' asset2 t1 c1 c2 u.
              updateCertification example_lib (example_services text_v1_1) example_config
                example_helpers 7 newData2 newFiles2 ([], t) = (Inr r2, (log2, t')) \<and>
              getAssetInfo (example_services text_v1_1) 7 t = (Inr asset2, t1) \<and>
              UpdateReserveCall u \<in> set (version2_log text_v1_1) \<and>
              a_reserve (params asset2) = newReserveAddress u \<and>
              up_metadataUrl u = Some (''ipfs://'' @ c2) \<and>
              raw_sha256_text example_lib c2 \<and>
              raw_sha256_text example_lib c1 \<and>
              fromCidToAddress example_lib c1 = Inr (a_reserve (params asset)) \<and>
              getCurrentVersion example_helpers asset = 1 \<and>
              [getCurrentVersion example_helpers asset2] =
                map (\<lambda>rec. fst (snd rec)) (uploaded_records (version2_log text_v1_1)) \<longrightarrow>
              uploaded_records (version2_log text_v1_1) = [(1, 2, c1)] \<and>
              uploaded_records log2 = [(2, 3, c2)]"
    by (elim exE conjE)
  from g g1 have asset: "asset = ?a1" by simp
  have "cur = text_v1_1"
    by (rule link [unfolded asset, rule_format, OF conjI [OF raw_sha256_text_v1_1 from1]])
  with cur have prev: "fromAddressToCid example_lib address1 = Inr text_v1_1"
    unfolding asset reserve_minted by simp
  have "uploaded_records (version2_log text_v1_1) = [(1, 2, text_v1_1)] \<and>
        uploaded_records (version3_log text_v1_1) = [(2, 3, text_v1_2)]"
    by (rule two [unfolded asset, rule_format], intro conjI)
      (rule run2, rule g2, rule u, rule res2, rule url, rule raw_sha256_text_v1_2,
       rule raw_sha256_text_v1_1, rule from1, rule v1, rule v2)
  then have r1: "uploaded_records (version2_log text_v1_1) = [(1, 2, text_v1_1)]"
    and r2: "uploaded_records (version3_log text_v1_1) = [(2, 3, text_v1_2)]"
    by (rule conjunct1, rule conjunct2)
  from run1 run2 g1 g2 u res2 url raw_sha256_text_v1_2 raw_sha256_text_v1_1 from1 v1 v2 small
    prev r1 r2
  show ?thesis
    by (intro conjI)
qed

section \<open>The validator on the example asset\<close>

lemma example_validation_errors:
  "errors (fst (validateCertification example_lib (example_services text_v1_1) 7
                  ([], ledger_minted text_v1_1))) = []"
proof -
  have g: "getAssetInfo (example_services text_v1_1) 7 (ledger_minted text_v1_1) =
             (Inr \<lparr>index = 7, params = minted_asset text_v1_1 address1\<rparr>, ledger_minted text_v1_1)"
    unfolding ledger_minted_def by (rule example_info)
  have sb: "soulbound_errors \<lparr>index = 7, params = minted_asset text_v1_1 address1\<rparr> = []"
    by (simp add: soulbound_errors_def minted_asset_def)
  have cc: "snd (check_cid example_lib \<lparr>index = 7, params = minted_asset text_v1_1 address1\<rparr>) = []"
    by (simp add: check_cid_def minted_asset_def to_v1 from_v1)
  have cm: "fst (snd (fst (check_metadata (example_services text_v1_1)
               \<lparr>index = 7, params = minted_asset text_v1_1 address1\<rparr> st))) = []" for st
    by (cases st)
       (simp add: check_metadata_def minted_asset_def call_def example_services_def get_prop_def
          Let_def)
  from validate_found [OF g, of example_lib "[]"] obtain info cid_errors meta meta_errors ws st2
    where c: "check_cid example_lib \<lparr>index = 7, params = minted_asset text_v1_1 address1\<rparr> =
                (info, cid_errors)"
      and m: "check_metadata (example_services text_v1_1)
                \<lparr>index = 7, params = minted_asset text_v1_1 address1\<rparr>
                ([] @ [GetAssetInfoCall 7], ledger_minted text_v1_1) = ((meta, meta_errors, ws), st2)"
      and v: "validateCertification example_lib (example_services text_v1_1) 7
                ([], ledger_minted text_v1_1) =
              (\<lparr>isValid = (soulbound_errors \<lparr>index = 7, params = minted_asset text_v1_1 address1\<rparr> @
                            cid_errors @ meta_errors = []),
                errors = soulbound_errors \<lparr>index = 7, params = minted_asset text_v1_1 address1\<rparr> @
                           cid_errors @ meta_errors,
                warnings = ws,
                assetInfo = Some \<lparr>index = 7, params = minted_asset text_v1_1 address1\<rparr>,
                metadataInfo = meta, cidInfo = Some info\<rparr>, st2)"
    by (elim exE conjE)
  from cc c have "cid_errors = []" by simp
  moreover from cm [of "([] @ [GetAssetInfoCall 7], ledger_minted text_v1_1)"] m
  have "meta_errors = []" by simp
  ultimately show ?thesis by (simp add: v sb)
qed

theorem isValid_iff_no_errors_witness:
  "errors (fst (validateCertification example_lib (example_services text_v1_1) 7
                  ([], ledger_minted text_v1_1))) = [] \<and>
   isValid (fst (validateCertification example_lib (example_services text_v1_1) 7
                  ([], ledger_minted text_v1_1)))"
  using isValid_iff_no_errors [of example_lib "example_services text_v1_1" 7
      "([], ledger_minted text_v1_1)"] example_validation_errors
  by simp

end
